theory Spec2Isabelle
  imports Complex_Main
begin

section \<open>Python values and operations used by \<^verbatim>\<open>scanner/scan.py\<close>\<close>

text \<open>
  The scanner works on decoded JSON: API payloads, the lines of \<^verbatim>\<open>docker ps\<close>, the
  records it builds. A Python \<^verbatim>\<open>dict\<close> is kept as the list of its items in insertion
  order. Strings are lists of 8-bit characters, each read as one code point.

  A Python \<^verbatim>\<open>float\<close>, as \<^verbatim>\<open>json\<close> decodes a number with a fraction or an
  exponent and the literals \<^verbatim>\<open>NaN\<close>, \<^verbatim>\<open>Infinity\<close> and \<^verbatim>\<open>-Infinity\<close>: a
  finite value is kept as the rational it denotes, and the negative zero, which prints
  differently from zero, is a value of its own.
\<close>

datatype pyfloat = Finite rat | NegZero | PosInf | NegInf | NaN

datatype json =
    JNull
  | JBool bool
  | JInt int
  | JFloat pyfloat
  | JStr string
  | JArr "json list"
  | JObj "(string \<times> json) list"

type_synonym pydict = "(string \<times> json) list"

text \<open>
  Exceptions, each with the text of \<^verbatim>\<open>str(e)\<close>. \<open>ExternalError\<close> stands for
  whatever \<^verbatim>\<open>requests\<close>, \<^verbatim>\<open>paramiko\<close> or \<^verbatim>\<open>subprocess\<close> raise
  (connection, TLS, HTTP status, body that is not JSON, timeout). \<^verbatim>\<open>json.loads\<close>
  raises \<open>JSONDecodeError\<close> on a text that is not JSON, and \<open>RecursionError\<close> on one
  that is nested too deep. All of them are subclasses of \<^verbatim>\<open>Exception\<close>.
\<close>

datatype exn =
    ExternalError string
  | AttributeError string
  | KeyError string
  | TypeError string
  | IndexError string
  | JSONDecodeError string
  | RecursionError string

fun exn_str :: "exn \<Rightarrow> string" where
  "exn_str (ExternalError m) = m"
| "exn_str (AttributeError m) = m"
| "exn_str (KeyError m) = m"
| "exn_str (TypeError m) = m"
| "exn_str (IndexError m) = m"
| "exn_str (JSONDecodeError m) = m"
| "exn_str (RecursionError m) = m"

text \<open>What \<^verbatim>\<open>except json.JSONDecodeError\<close> catches.\<close>

fun is_decode_error :: "exn \<Rightarrow> bool" where
  "is_decode_error (JSONDecodeError m) = True"
| "is_decode_error _ = False"

fun py_type_name :: "json \<Rightarrow> string" where
  "py_type_name JNull = ''NoneType''"
| "py_type_name (JBool _) = ''bool''"
| "py_type_name (JInt _) = ''int''"
| "py_type_name (JFloat _) = ''float''"
| "py_type_name (JStr _) = ''str''"
| "py_type_name (JArr _) = ''list''"
| "py_type_name (JObj _) = ''dict''"

definition squote :: "string \<Rightarrow> string" where
  "squote s = [CHR 0x27] @ s @ [CHR 0x27]"

definition no_attribute :: "json \<Rightarrow> string \<Rightarrow> exn" where
  "no_attribute v a =
     AttributeError (squote (py_type_name v) @ '' object has no attribute '' @ squote a)"

text \<open>Truth value of an object, as \<^verbatim>\<open>if x\<close> and \<^verbatim>\<open>not x\<close> take it.\<close>

fun py_truthy :: "json \<Rightarrow> bool" where
  "py_truthy JNull = False"
| "py_truthy (JBool b) = b"
| "py_truthy (JInt i) = (i \<noteq> 0)"
| "py_truthy (JFloat f) = (f \<noteq> Finite 0 \<and> f \<noteq> NegZero)"
| "py_truthy (JStr s) = (s \<noteq> [])"
| "py_truthy (JArr xs) = (xs \<noteq> [])"
| "py_truthy (JObj kvs) = (kvs \<noteq> [])"

text \<open>\<^verbatim>\<open>x.get(k, d)\<close>: only a dict has the method.\<close>

definition dict_get :: "pydict \<Rightarrow> string \<Rightarrow> json \<Rightarrow> json" where
  "dict_get kvs k d = (case map_of kvs k of Some x \<Rightarrow> x | None \<Rightarrow> d)"

definition py_get :: "json \<Rightarrow> string \<Rightarrow> json \<Rightarrow> exn + json" where
  "py_get v k d =
     (case v of
        JObj kvs \<Rightarrow> Inr (dict_get kvs k d)
      | _ \<Rightarrow> Inl (no_attribute v ''get''))"

text \<open>\<^verbatim>\<open>x[k]\<close> with a string key \<open>k\<close>.\<close>

definition py_getitem :: "json \<Rightarrow> string \<Rightarrow> exn + json" where
  "py_getitem v k =
     (case v of
        JObj kvs \<Rightarrow> (case map_of kvs k of Some x \<Rightarrow> Inr x | None \<Rightarrow> Inl (KeyError (squote k)))
      | JArr _ \<Rightarrow> Inl (TypeError ''list indices must be integers or slices, not str'')
      | JStr _ \<Rightarrow> Inl (TypeError (''string indices must be integers, not '' @ squote ''str''))
      | _ \<Rightarrow> Inl (TypeError (squote (py_type_name v) @ '' object is not subscriptable'')))"

text \<open>
  \<^verbatim>\<open>for x in v\<close>: the elements of a list, the keys of a dict, the characters of a
  string; anything else is not iterable.
\<close>

definition py_iter :: "json \<Rightarrow> exn + json list" where
  "py_iter v =
     (case v of
        JArr xs \<Rightarrow> Inr xs
      | JObj kvs \<Rightarrow> Inr (map (\<lambda>kv. JStr (fst kv)) kvs)
      | JStr s \<Rightarrow> Inr (map (\<lambda>c. JStr [c]) s)
      | _ \<Rightarrow> Inl (TypeError (squote (py_type_name v) @ '' object is not iterable'')))"

text \<open>\<^verbatim>\<open>v.items()\<close>.\<close>

definition py_items :: "json \<Rightarrow> exn + pydict" where
  "py_items v = (case v of JObj kvs \<Rightarrow> Inr kvs | _ \<Rightarrow> Inl (no_attribute v ''items''))"

text \<open>\<^verbatim>\<open>xs[i]\<close> on a list, for an index from the front.\<close>

definition py_index :: "'a list \<Rightarrow> nat \<Rightarrow> exn + 'a" where
  "py_index xs i = (if i < length xs then Inr (xs ! i) else Inl (IndexError ''list index out of range''))"

text \<open>
  A dict literal \<^verbatim>\<open>{k1: e1, k2: e2, ...}\<close>: the entries are evaluated from left to
  right, and the first one that raises ends the evaluation.
\<close>

fun build :: "(string \<times> (exn + json)) list \<Rightarrow> exn + pydict" where
  "build [] = Inr []"
| "build ((k, Inl e) # rest) = Inl e"
| "build ((k, Inr v) # rest) = (case build rest of Inl e \<Rightarrow> Inl e | Inr kvs \<Rightarrow> Inr ((k, v) # kvs))"

text \<open>\<^verbatim>\<open>1 if x else 0\<close>.\<close>

definition flag :: "exn + json \<Rightarrow> exn + json" where
  "flag r = (case r of Inl e \<Rightarrow> Inl e | Inr v \<Rightarrow> Inr (JInt (if py_truthy v then 1 else 0)))"

subsection \<open>String methods\<close>

definition startswith :: "string \<Rightarrow> string \<Rightarrow> bool" where
  "startswith s p = (take (length p) s = p)"

text \<open>\<^verbatim>\<open>v.startswith(p)\<close> on an arbitrary object.\<close>

definition py_startswith :: "json \<Rightarrow> string \<Rightarrow> exn + bool" where
  "py_startswith v p =
     (case v of JStr s \<Rightarrow> Inr (startswith s p) | _ \<Rightarrow> Inl (no_attribute v ''startswith''))"

text \<open>\<^verbatim>\<open>p in s\<close> for strings.\<close>

fun contains :: "string \<Rightarrow> string \<Rightarrow> bool" where
  "contains [] p = (p = [])"
| "contains (c # cs) p = (startswith (c # cs) p \<or> contains cs p)"

text \<open>
  \<^verbatim>\<open>str.isspace\<close> on the code points below 256: tab to carriage return, the four
  separators 0x1c to 0x1f, space, NEL and the no-break space.
\<close>

definition is_space :: "char \<Rightarrow> bool" where
  "is_space c = (c \<in> set [CHR 0x09, CHR 0x0A, CHR 0x0B, CHR 0x0C, CHR 0x0D,
      CHR 0x1C, CHR 0x1D, CHR 0x1E, CHR 0x1F, CHR 0x20, CHR 0x85, CHR 0xA0])"

definition strip :: "string \<Rightarrow> string" where
  "strip s = rev (dropWhile is_space (rev (dropWhile is_space s)))"

text \<open>\<^verbatim>\<open>s.split(sep)\<close> for a one-character separator: never an empty list.\<close>

fun split :: "char \<Rightarrow> string \<Rightarrow> string list" where
  "split sep [] = [[]]"
| "split sep (c # cs) =
     (if c = sep then [] # split sep cs
      else (case split sep cs of p # ps \<Rightarrow> (c # p) # ps | [] \<Rightarrow> [[c]]))"

fun join :: "string \<Rightarrow> string list \<Rightarrow> string" where
  "join sep [] = []"
| "join sep [x] = x"
| "join sep (x # y # ys) = x @ sep @ join sep (y # ys)"

text \<open>\<^verbatim>\<open>s.replace(old, new)\<close>: every occurrence, left to right, without overlap.\<close>

function replace :: "string \<Rightarrow> string \<Rightarrow> string \<Rightarrow> string" where
  "replace s old new =
     (if old = [] then new @ concat (map (\<lambda>c. c # new) s)
      else (case s of
              [] \<Rightarrow> []
            | c # cs \<Rightarrow>
                if startswith s old then new @ replace (drop (length old) s) old new
                else c # replace cs old new))"
  by pat_completeness auto
termination
  by (relation "measure (\<lambda>(s, old, new). length s)") (auto simp: startswith_def)

declare replace.simps [simp del]

text \<open>Decimal digits of an integer, as \<^verbatim>\<open>str(n)\<close> prints it.\<close>

function dec_nat :: "nat \<Rightarrow> string" where
  "dec_nat n =
     (if n < 10 then [''0123456789'' ! n]
      else dec_nat (n div 10) @ [''0123456789'' ! (n mod 10)])"
  by pat_completeness auto
termination
  by (relation "measure id") auto

declare dec_nat.simps [simp del]

definition dec_int :: "int \<Rightarrow> string" where
  "dec_int i = (if i < 0 then CHR ''-'' # dec_nat (nat (- i)) else dec_nat (nat i))"

section \<open>The outside world\<close>

text \<open>
  Every request the scanner sends: the ticket request, an authenticated read of the
  management API, a bearer-token read of a hub, a remote command, a local command.
\<close>

datatype request =
    HttpPost string "(string \<times> string) list"
  | HttpGetCookie string json
  | HttpGetBearer string string int
  | SshExec string string string string int int
  | Subprocess "string list"

text \<open>
  The environment answers the \<open>n\<close>-th request of a run. \<open>http\<close> is the request followed
  by \<^verbatim>\<open>raise_for_status()\<close> and \<^verbatim>\<open>json()\<close>; \<open>ssh\<close> is connect, execute, read and
  decode; \<open>run\<close> is \<^verbatim>\<open>subprocess.run\<close> with its return code and output. The library
  functions whose results the scanner only passes on are parameters too:
  \<^verbatim>\<open>json.loads\<close> with the exception it raises, \<^verbatim>\<open>str\<close> of a float or a
  container, \<^verbatim>\<open>traceback.format_exc\<close> inside a handler, \<^verbatim>\<open>socket.gethostname\<close>.
\<close>

record env =
  http :: "nat \<Rightarrow> request \<Rightarrow> exn + json"
  ssh :: "nat \<Rightarrow> request \<Rightarrow> exn + string"
  run :: "nat \<Rightarrow> request \<Rightarrow> exn + int \<times> string"
  json_loads :: "string \<Rightarrow> exn + json"
  py_repr :: "json \<Rightarrow> string"
  format_exc :: "exn \<Rightarrow> string"
  gethostname :: string

text \<open>\<^verbatim>\<open>str(v)\<close>, also what an f-string puts in place of \<^verbatim>\<open>{v}\<close>.\<close>

definition py_str :: "env \<Rightarrow> json \<Rightarrow> string" where
  "py_str E v =
     (case v of
        JStr s \<Rightarrow> s
      | JNull \<Rightarrow> ''None''
      | JBool b \<Rightarrow> (if b then ''True'' else ''False'')
      | JInt i \<Rightarrow> dec_int i
      | _ \<Rightarrow> py_repr E v)"

text \<open>
  An entry of the error log, and the state a run threads through: the error log and the
  requests sent so far.
\<close>

record scan_error =
  scan_id :: int
  host_ip :: string
  component :: string
  error_message :: string
  error_detail :: string

record world =
  errors_list :: "scan_error list"
  calls :: "request list"

definition log_error :: "scan_error \<Rightarrow> world \<Rightarrow> world" where
  "log_error e w = w\<lparr>errors_list := errors_list w @ [e]\<rparr>"

definition sent :: "request \<Rightarrow> world \<Rightarrow> world" where
  "sent rq w = w\<lparr>calls := calls w @ [rq]\<rparr>"

section \<open>Remote command execution\<close>

record ssh_config =
  ssh_username :: string
  ssh_alt_username :: "string option"
  ssh_password :: string
  ssh_port :: "int option"
  ssh_timeout :: "int option"

definition ssh_exec ::
  "env \<Rightarrow> string \<Rightarrow> string \<Rightarrow> string \<Rightarrow> string \<Rightarrow> int \<Rightarrow> int \<Rightarrow> world \<Rightarrow> (exn + string) \<times> world" where
  "ssh_exec E ip username password command port timeout w =
     (let rq = SshExec ip username password command port timeout in
      (case ssh E (length (calls w)) rq of
         Inl e \<Rightarrow> (Inl e, sent rq w)
       | Inr output \<Rightarrow> (Inr (strip output), sent rq w)))"

definition users_to_try :: "ssh_config \<Rightarrow> string list" where
  "users_to_try c =
     [ssh_username c] @
     (case ssh_alt_username c of
        None \<Rightarrow> []
      | Some alt_user \<Rightarrow> if alt_user \<noteq> [] \<and> alt_user \<noteq> ssh_username c then [alt_user] else [])"

text \<open>
  The loop over the candidates: \<open>Inl\<close> is the \<^verbatim>\<open>return\<close> inside the loop, \<open>Inr\<close>
  the loop running to its end with \<^verbatim>\<open>last_error\<close>.
\<close>

fun try_users ::
  "env \<Rightarrow> string \<Rightarrow> ssh_config \<Rightarrow> string \<Rightarrow> string list \<Rightarrow> exn option \<Rightarrow> world
     \<Rightarrow> (string + exn option) \<times> world" where
  "try_users E ip c command [] last_error w = (Inr last_error, w)"
| "try_users E ip c command (user # users) last_error w =
     (case ssh_exec E ip user (ssh_password c) command
             (case ssh_port c of None \<Rightarrow> 22 | Some p \<Rightarrow> p)
             (case ssh_timeout c of None \<Rightarrow> 10 | Some t \<Rightarrow> t) w of
        (Inr output, w') \<Rightarrow> (Inl output, w')
      | (Inl e, w') \<Rightarrow> try_users E ip c command users (Some e) w')"

definition ssh_failed :: "int \<Rightarrow> string \<Rightarrow> string \<Rightarrow> string list \<Rightarrow> exn option \<Rightarrow> scan_error" where
  "ssh_failed sid ip tag users last_error =
     \<lparr>scan_id = sid, host_ip = ip, component = tag,
      error_message = ''SSH to '' @ ip @ '' failed (tried: '' @ join '', '' users @ ''): '' @
        (case last_error of None \<Rightarrow> ''None'' | Some e \<Rightarrow> exn_str e),
      error_detail = ''NoneType: None'' @ [CHR 0x0A]\<rparr>"

definition try_ssh_exec ::
  "env \<Rightarrow> string \<Rightarrow> ssh_config \<Rightarrow> string \<Rightarrow> world \<Rightarrow> int \<Rightarrow> string \<Rightarrow> string option \<times> world" where
  "try_ssh_exec E ip c command w sid tag =
     (case try_users E ip c command (users_to_try c) None w of
        (Inl output, w') \<Rightarrow> (Some output, w')
      | (Inr last_error, w') \<Rightarrow>
          (None, log_error (ssh_failed sid ip tag (users_to_try c) last_error) w'))"

section \<open>The management API\<close>

definition proxmox_api ::
  "env \<Rightarrow> string \<Rightarrow> int \<Rightarrow> json \<Rightarrow> string \<Rightarrow> world \<Rightarrow> (exn + json) \<times> world" where
  "proxmox_api E host port ticket endpoint w =
     (let rq = HttpGetCookie
                 (''https://'' @ host @ '':'' @ dec_int port @ ''/api2/json'' @ endpoint) ticket in
      (case http E (length (calls w)) rq of
         Inl e \<Rightarrow> (Inl e, sent rq w)
       | Inr body \<Rightarrow> (py_get body ''data'' (JObj []), sent rq w)))"

definition proxmox_authenticate ::
  "env \<Rightarrow> string \<Rightarrow> int \<Rightarrow> string \<Rightarrow> string \<Rightarrow> world \<Rightarrow> (exn + json \<times> json) \<times> world" where
  "proxmox_authenticate E host port user password w =
     (let rq = HttpPost (''https://'' @ host @ '':'' @ dec_int port @ ''/api2/json/access/ticket'')
                 [(''username'', user), (''password'', password)] in
      (case http E (length (calls w)) rq of
         Inl e \<Rightarrow> (Inl e, sent rq w)
       | Inr body \<Rightarrow>
           (case py_getitem body ''data'' of
              Inl e \<Rightarrow> (Inl e, sent rq w)
            | Inr data \<Rightarrow>
                (case py_getitem data ''ticket'' of
                   Inl e \<Rightarrow> (Inl e, sent rq w)
                 | Inr ticket \<Rightarrow>
                     (case py_getitem data ''CSRFPreventionToken'' of
                        Inl e \<Rightarrow> (Inl e, sent rq w)
                      | Inr csrf \<Rightarrow> (Inr (ticket, csrf), sent rq w))))))"

section \<open>Guest addresses\<close>

text \<open>The inner loop of the VM path, over the addresses of one interface.\<close>

fun agent_addresses :: "json list \<Rightarrow> exn + string option" where
  "agent_addresses [] = Inr None"
| "agent_addresses (addr # addrs) =
     (case py_get addr ''ip-address-type'' JNull of
        Inl e \<Rightarrow> Inl e
      | Inr t \<Rightarrow>
          if t = JStr ''ipv4'' then
            (case py_getitem addr ''ip-address'' of
               Inl e \<Rightarrow> Inl e
             | Inr a \<Rightarrow>
                 (case a of
                    JStr s \<Rightarrow> if \<not> startswith s ''127.'' then Inr (Some s) else agent_addresses addrs
                  | _ \<Rightarrow> Inl (no_attribute a ''startswith'')))
          else agent_addresses addrs)"

text \<open>The outer loop of the VM path, over the interfaces the guest agent reports.\<close>

fun agent_interfaces :: "json list \<Rightarrow> exn + string option" where
  "agent_interfaces [] = Inr None"
| "agent_interfaces (iface # ifaces) =
     (case py_get iface ''name'' JNull of
        Inl e \<Rightarrow> Inl e
      | Inr n \<Rightarrow>
          if n = JStr ''lo'' then agent_interfaces ifaces
          else
            (case py_get iface ''ip-addresses'' (JArr []) of
               Inl e \<Rightarrow> Inl e
             | Inr addrs \<Rightarrow>
                 (case py_iter addrs of
                    Inl e \<Rightarrow> Inl e
                  | Inr as \<Rightarrow>
                      (case agent_addresses as of
                         Inl e \<Rightarrow> Inl e
                       | Inr (Some ip) \<Rightarrow> Inr (Some ip)
                       | Inr None \<Rightarrow> agent_interfaces ifaces))))"

text \<open>The container path: the comma-separated parts of one \<^verbatim>\<open>netN\<close> value.\<close>

fun config_parts :: "string list \<Rightarrow> exn + string option" where
  "config_parts [] = Inr None"
| "config_parts (p # parts) =
     (if startswith (strip p) ''ip='' then
        (case py_index (split CHR ''='' (strip p)) 1 of
           Inl e \<Rightarrow> Inl e
         | Inr rhs \<Rightarrow>
             (case py_index (split CHR ''/'' rhs) 0 of
                Inl e \<Rightarrow> Inl e
              | Inr ip_val \<Rightarrow>
                  if ip_val \<noteq> [] \<and> ip_val \<noteq> ''dhcp'' then Inr (Some ip_val)
                  else config_parts parts))
      else config_parts parts)"

text \<open>The container path: the items of the guest's configuration.\<close>

fun config_items :: "env \<Rightarrow> pydict \<Rightarrow> exn + string option" where
  "config_items E [] = Inr None"
| "config_items E ((key, val) # items) =
     (if startswith key ''net'' \<and> contains (py_str E val) ''ip='' then
        (case config_parts (split CHR '','' (py_str E val)) of
           Inl e \<Rightarrow> Inl e
         | Inr (Some ip_val) \<Rightarrow> Inr (Some ip_val)
         | Inr None \<Rightarrow> config_items E items)
      else config_items E items)"

text \<open>The container path: the interfaces the live endpoint reports.\<close>

fun live_interfaces :: "json list \<Rightarrow> exn + string option" where
  "live_interfaces [] = Inr None"
| "live_interfaces (iface # ifaces) =
     (case py_get iface ''name'' JNull of
        Inl e \<Rightarrow> Inl e
      | Inr n \<Rightarrow>
          if n = JStr ''lo'' then live_interfaces ifaces
          else
            (case py_get iface ''inet'' (JStr []) of
               Inl e \<Rightarrow> Inl e
             | Inr inet \<Rightarrow>
                 if py_truthy inet then
                   (case inet of
                      JStr s \<Rightarrow>
                        if \<not> startswith s ''127.'' then
                          (case py_index (split CHR ''/'' s) 0 of
                             Inl e \<Rightarrow> Inl e
                           | Inr a \<Rightarrow> Inr (Some a))
                        else live_interfaces ifaces
                    | _ \<Rightarrow> Inl (no_attribute inet ''startswith''))
                 else live_interfaces ifaces))"

text \<open>The body of the outer \<^verbatim>\<open>try\<close>; the inner one around the live endpoint is in it.\<close>

definition guest_ip_lookup ::
  "env \<Rightarrow> string \<Rightarrow> int \<Rightarrow> json \<Rightarrow> json \<Rightarrow> string \<Rightarrow> json \<Rightarrow> world
     \<Rightarrow> (exn + string option) \<times> world" where
  "guest_ip_lookup E host port ticket node_name vmtype vmid w =
     (if vmtype = ''qemu'' then
        (case proxmox_api E host port ticket
                (''/nodes/'' @ py_str E node_name @ ''/qemu/'' @ py_str E vmid @
                 ''/agent/network-get-interfaces'') w of
           (Inl e, w1) \<Rightarrow> (Inl e, w1)
         | (Inr data, w1) \<Rightarrow>
             (case data of
                JObj kvs \<Rightarrow>
                  (case map_of kvs ''result'' of
                     None \<Rightarrow> (Inr None, w1)
                   | Some res \<Rightarrow>
                       (case py_iter res of
                          Inl e \<Rightarrow> (Inl e, w1)
                        | Inr ifaces \<Rightarrow> (agent_interfaces ifaces, w1)))
              | _ \<Rightarrow> (Inr None, w1)))
      else
        (case proxmox_api E host port ticket
                (''/nodes/'' @ py_str E node_name @ ''/lxc/'' @ py_str E vmid @ ''/config'') w of
           (Inl e, w1) \<Rightarrow> (Inl e, w1)
         | (Inr data, w1) \<Rightarrow>
             (case py_items data of
                Inl e \<Rightarrow> (Inl e, w1)
              | Inr items \<Rightarrow>
                  (case config_items E items of
                     Inl e \<Rightarrow> (Inl e, w1)
                   | Inr (Some ip_val) \<Rightarrow> (Inr (Some ip_val), w1)
                   | Inr None \<Rightarrow>
                       (case proxmox_api E host port ticket
                               (''/nodes/'' @ py_str E node_name @ ''/lxc/'' @ py_str E vmid @
                                ''/interfaces'') w1 of
                          (Inl e, w2) \<Rightarrow> (Inr None, w2)
                        | (Inr ifaces, w2) \<Rightarrow>
                            (case ifaces of
                               JArr xs \<Rightarrow>
                                 (case live_interfaces xs of
                                    Inl e \<Rightarrow> (Inr None, w2)
                                  | Inr r \<Rightarrow> (Inr r, w2))
                             | _ \<Rightarrow> (Inr None, w2)))))))"

definition get_guest_ip_from_proxmox ::
  "env \<Rightarrow> string \<Rightarrow> int \<Rightarrow> json \<Rightarrow> json \<Rightarrow> string \<Rightarrow> json \<Rightarrow> world
     \<Rightarrow> (exn + string option) \<times> world" where
  "get_guest_ip_from_proxmox E host port ticket node_name vmtype vmid w =
     (case guest_ip_lookup E host port ticket node_name vmtype vmid w of
        (Inl e, w') \<Rightarrow> (Inr None, w')
      | (Inr r, w') \<Rightarrow> (Inr r, w'))"

section \<open>Container inventory\<close>

definition docker_check_command :: string where
  "docker_check_command =
     ''which docker 2>/dev/null && docker info --format '{{.ServerVersion}}' 2>/dev/null || echo '' @
     squote ''NO_DOCKER''"

definition docker_ps_format :: string where
  \<open>docker_ps_format =
     ''{"id":"{{.ID}}","name":"{{.Names}}","image":"{{.Image}}","status":"{{.Status}}","state":"{{.State}}","ports":"{{.Ports}}","created":"{{.CreatedAt}}","networks":"{{.Networks}}","mounts":"{{.Mounts}}"}''\<close>

definition docker_ps_command :: string where
  "docker_ps_command =
     ''docker ps -a --format '' @ squote docker_ps_format @ '' 2>/dev/null''"

text \<open>The record of one container, from the decoded line \<open>c\<close>.\<close>

definition container_record :: "string \<Rightarrow> string \<Rightarrow> json \<Rightarrow> exn + pydict" where
  "container_record ip hostname c =
     build
       [(''host_ip'', Inr (JStr ip)),
        (''host_name'', Inr (JStr hostname)),
        (''container_id'', py_get c ''id'' (JStr [])),
        (''name'', py_get c ''name'' (JStr [])),
        (''image'', py_get c ''image'' (JStr [])),
        (''status'', py_get c ''status'' (JStr [])),
        (''state'', py_get c ''state'' (JStr [])),
        (''ports'', py_get c ''ports'' (JStr [])),
        (''created_at'', py_get c ''created'' (JStr [])),
        (''networks'', py_get c ''networks'' (JStr [])),
        (''mounts'', py_get c ''mounts'' (JStr []))]"

definition docker_parse_error :: "int \<Rightarrow> string \<Rightarrow> string \<Rightarrow> scan_error" where
  "docker_parse_error sid ip line =
     \<lparr>scan_id = sid, host_ip = ip, component = ''Docker-Parse'',
      error_message = ''Failed to parse Docker JSON from '' @ ip,
      error_detail = line\<rparr>"

text \<open>
  The loop over the lines of the listing. An exception other than
  \<^verbatim>\<open>JSONDecodeError\<close>, from the decoding or from the record, leaves the loop and the
  function.
\<close>

fun docker_lines ::
  "env \<Rightarrow> string \<Rightarrow> string \<Rightarrow> int \<Rightarrow> string list \<Rightarrow> pydict list \<Rightarrow> world
     \<Rightarrow> (exn + pydict list) \<times> world" where
  "docker_lines E ip hostname sid [] containers w = (Inr containers, w)"
| "docker_lines E ip hostname sid (l # ls) containers w =
     (let line = strip l in
      if line = [] then docker_lines E ip hostname sid ls containers w
      else
        (case json_loads E line of
           Inl e \<Rightarrow>
             if is_decode_error e then
               docker_lines E ip hostname sid ls containers
                 (log_error (docker_parse_error sid ip line) w)
             else (Inl e, w)
         | Inr c \<Rightarrow>
             (case container_record ip hostname c of
                Inl e \<Rightarrow> (Inl e, w)
              | Inr r \<Rightarrow> docker_lines E ip hostname sid ls (containers @ [r]) w)))"

definition scan_docker_on_host ::
  "env \<Rightarrow> string \<Rightarrow> ssh_config \<Rightarrow> world \<Rightarrow> int \<Rightarrow> (exn + pydict list) \<times> world" where
  "scan_docker_on_host E ip c w sid =
     (case try_ssh_exec E ip c docker_check_command w sid ''Docker'' of
        (None, w1) \<Rightarrow> (Inr [], w1)
      | (Some docker_check, w1) \<Rightarrow>
          if docker_check = [] \<or> contains docker_check ''NO_DOCKER'' then (Inr [], w1)
          else
            (case try_ssh_exec E ip c docker_ps_command w1 sid ''Docker'' of
               (None, w2) \<Rightarrow> (Inr [], w2)
             | (Some docker_output, w2) \<Rightarrow>
                 if docker_output = [] then (Inr [], w2)
                 else
                   (case try_ssh_exec E ip c ''hostname'' w2 sid ''Docker'' of
                      (h, w3) \<Rightarrow>
                        docker_lines E ip
                          (case h of None \<Rightarrow> ip | Some n \<Rightarrow> if n = [] then ip else n)
                          sid (split (CHR 0x0A) (strip docker_output)) [] w3)))"

section \<open>The hub\<close>

record ha_cfg =
  ha_ip :: string
  ha_port :: "int option"
  ha_token :: string
  ha_protocol :: "string option"

text \<open>An entry of the error log made in an \<^verbatim>\<open>except Exception as e\<close> handler.\<close>

definition failure :: "env \<Rightarrow> int \<Rightarrow> string \<Rightarrow> string \<Rightarrow> string \<Rightarrow> exn \<Rightarrow> scan_error" where
  "failure E sid ip tag text e =
     \<lparr>scan_id = sid, host_ip = ip, component = tag,
      error_message = text @ '': '' @ exn_str e,
      error_detail = format_exc E e\<rparr>"

definition ha_get ::
  "env \<Rightarrow> string \<Rightarrow> string \<Rightarrow> int \<Rightarrow> world \<Rightarrow> (exn + json) \<times> world" where
  "ha_get E url token timeout w =
     (let rq = HttpGetBearer url token timeout in (http E (length (calls w)) rq, sent rq w))"

text \<open>
  The comprehension \<^verbatim>\<open>[s for s in states if s['entity_id'].startswith('update.')]\<close>.
\<close>

fun update_entities :: "json list \<Rightarrow> exn + json list" where
  "update_entities [] = Inr []"
| "update_entities (s # states) =
     (case py_getitem s ''entity_id'' of
        Inl e \<Rightarrow> Inl e
      | Inr entity_id \<Rightarrow>
          (case py_startswith entity_id ''update.'' of
             Inl e \<Rightarrow> Inl e
           | Inr b \<Rightarrow>
               (case update_entities states of
                  Inl e \<Rightarrow> Inl e
                | Inr updates \<Rightarrow> Inr (if b then s # updates else updates))))"

text \<open>The state and the status text of an update entity.\<close>

definition state_str :: "json \<Rightarrow> string" where
  "state_str st =
     (if st = JStr ''unavailable'' then ''unavailable''
      else if st = JStr ''on'' then ''update_available''
      else ''running'')"

definition status_detail :: "env \<Rightarrow> json \<Rightarrow> json \<Rightarrow> json \<Rightarrow> string" where
  "status_detail E st installed_ver latest_ver =
     ''v'' @ py_str E installed_ver @
     (if st = JStr ''on'' \<and> py_truthy latest_ver then '' -> '' @ py_str E latest_ver else [])"

text \<open>
  One pass of the loop over the update entities: \<open>Inr None\<close> is a \<^verbatim>\<open>continue\<close>,
  \<open>Inr (Some r)\<close> the record appended. The identifier is a string here, since the
  comprehension has called \<^verbatim>\<open>startswith\<close> on it.
\<close>

definition addon_record :: "env \<Rightarrow> string \<Rightarrow> json \<Rightarrow> json \<Rightarrow> exn + pydict option" where
  "addon_record E ip ha_name u =
     (case py_get u ''attributes'' (JObj []) of
        Inl e \<Rightarrow> Inl e
      | Inr attrs \<Rightarrow>
          (case py_get attrs ''title'' JNull of
             Inl e \<Rightarrow> Inl e
           | Inr title \<Rightarrow>
               (case py_getitem u ''entity_id'' of
                  Inl e \<Rightarrow> Inl e
                | Inr (JStr entity_id) \<Rightarrow>
                    if \<not> py_truthy title then Inr None
                    else if contains entity_id ''_firmware'' then Inr None
                    else if \<not> contains entity_id ''_update'' then Inr None
                    else
                      (case py_get attrs ''installed_version'' (JStr ''?'') of
                         Inl e \<Rightarrow> Inl e
                       | Inr installed_ver \<Rightarrow>
                           (case py_get attrs ''latest_version'' (JStr ''?'') of
                              Inl e \<Rightarrow> Inl e
                            | Inr latest_ver \<Rightarrow>
                                (case py_getitem u ''state'' of
                                   Inl e \<Rightarrow> Inl e
                                 | Inr st \<Rightarrow>
                                     Inr (Some
                                       [(''host_ip'', JStr ip),
                                        (''host_name'', JStr (py_str E ha_name @ '' (HAOS)'')),
                                        (''container_id'', JStr entity_id),
                                        (''name'', title),
                                        (''image'', JStr (''ha-addon/'' @
                                           replace (replace entity_id ''update.'' []) ''_update'' [])),
                                        (''status'', JStr (status_detail E st installed_ver latest_ver)),
                                        (''state'', JStr (state_str st)),
                                        (''ports'', JStr []),
                                        (''created_at'', JStr []),
                                        (''networks'', JStr ''hassio''),
                                        (''mounts'', JStr [])]))))
                | Inr other \<Rightarrow>
                    Inl (TypeError (''argument of type '' @ squote (py_type_name other) @
                                    '' is not iterable'')))))"

fun addon_records :: "env \<Rightarrow> string \<Rightarrow> json \<Rightarrow> json list \<Rightarrow> exn + pydict list" where
  "addon_records E ip ha_name [] = Inr []"
| "addon_records E ip ha_name (u # updates) =
     (case addon_record E ip ha_name u of
        Inl e \<Rightarrow> Inl e
      | Inr r \<Rightarrow>
          (case addon_records E ip ha_name updates of
             Inl e \<Rightarrow> Inl e
           | Inr rs \<Rightarrow> Inr (case r of None \<Rightarrow> rs | Some x \<Rightarrow> x # rs)))"

text \<open>
  What follows the two requests: the add-on records from the configuration and the state
  listing.
\<close>

definition addons :: "env \<Rightarrow> string \<Rightarrow> json \<Rightarrow> json \<Rightarrow> exn + pydict list" where
  "addons E ip ha_config states =
     (case py_get ha_config ''location_name'' (JStr ''Home Assistant'') of
        Inl e \<Rightarrow> Inl e
      | Inr ha_name \<Rightarrow>
          (case py_iter states of
             Inl e \<Rightarrow> Inl e
           | Inr ss \<Rightarrow>
               (case update_entities ss of
                  Inl e \<Rightarrow> Inl e
                | Inr updates \<Rightarrow> addon_records E ip ha_name updates)))"

text \<open>
  The result is the list under \<^verbatim>\<open>'docker'\<close> of the dict the function returns; its
  \<^verbatim>\<open>'ha_info'\<close> is always \<^verbatim>\<open>None\<close>.
\<close>

definition scan_homeassistant ::
  "env \<Rightarrow> ha_cfg \<Rightarrow> int \<Rightarrow> world \<Rightarrow> (exn + pydict list) \<times> world" where
  "scan_homeassistant E cfg sid w =
     (let ip = ha_ip cfg;
          port = (case ha_port cfg of None \<Rightarrow> 8123 | Some p \<Rightarrow> p);
          token = ha_token cfg;
          protocol = (case ha_protocol cfg of None \<Rightarrow> ''http'' | Some p \<Rightarrow> p);
          base_url = protocol @ ''://'' @ ip @ '':'' @ dec_int port
      in
      (case ha_get E (base_url @ ''/api/config'') token 15 w of
         (Inl e, w1) \<Rightarrow>
           (Inr [], log_error (failure E sid ip ''HomeAssistant-API''
                                 (''HA API config failed on '' @ ip) e) w1)
       | (Inr ha_config, w1) \<Rightarrow>
           (case ha_get E (base_url @ ''/api/states'') token 30 w1 of
              (Inl e, w2) \<Rightarrow>
                (Inr [], log_error (failure E sid ip ''HomeAssistant-States''
                                      (''HA API states failed on '' @ ip) e) w2)
            | (Inr states, w2) \<Rightarrow> (addons E ip ha_config states, w2))))"

section \<open>One hypervisor host\<close>

record host_cfg =
  pve_ip :: string
  pve_port :: "int option"
  pve_user :: string
  pve_password :: string

text \<open>
  The scan options as \<^verbatim>\<open>main\<close> hands them over; an option that is not set has its
  default (\<^verbatim>\<open>True\<close>).
\<close>

record scan_options =
  scan_network :: "json option"
  scan_docker :: "json option"
  ssh_into_guests :: "json option"
  skip_docker_scan :: "string list"

definition enabled :: "json option \<Rightarrow> bool" where
  "enabled v = (case v of None \<Rightarrow> True | Some x \<Rightarrow> py_truthy x)"

text \<open>The dict a host scan returns.\<close>

record scan_result =
  res_host :: "pydict option"
  res_vms :: "pydict list"
  res_lxcs :: "pydict list"
  res_docker :: "pydict list"
  res_storage :: "pydict list"
  res_network :: "pydict list"

definition empty_result :: scan_result where
  "empty_result =
     \<lparr>res_host = None, res_vms = [], res_lxcs = [], res_docker = [], res_storage = [],
      res_network = []\<rparr>"

text \<open>
  Keys of \<^verbatim>\<open>guest_ips\<close>: numbers that are equal are one key, whatever their type
  (so are zero and the negative zero); \<^verbatim>\<open>NaN\<close> is one key, since the decoder hands
  out one object for it and a dict looks at identity first; a list or a dict is not
  hashable. A key that is set again keeps its place.
\<close>

datatype pykey = KNone | KNum rat | KPosInf | KNegInf | KNaN | KStr string

definition py_hash_key :: "json \<Rightarrow> exn + pykey" where
  "py_hash_key v =
     (case v of
        JNull \<Rightarrow> Inr KNone
      | JBool b \<Rightarrow> Inr (KNum (if b then 1 else 0))
      | JInt i \<Rightarrow> Inr (KNum (of_int i))
      | JFloat f \<Rightarrow>
          Inr (case f of Finite r \<Rightarrow> KNum r | NegZero \<Rightarrow> KNum 0 | PosInf \<Rightarrow> KPosInf
                       | NegInf \<Rightarrow> KNegInf | NaN \<Rightarrow> KNaN)
      | JStr s \<Rightarrow> Inr (KStr s)
      | _ \<Rightarrow> Inl (TypeError (''unhashable type: '' @ squote (py_type_name v))))"

fun dict_set :: "pykey \<Rightarrow> 'v \<Rightarrow> (pykey \<times> 'v) list \<Rightarrow> (pykey \<times> 'v) list" where
  "dict_set k v [] = [(k, v)]"
| "dict_set k v ((k', v') # rest) =
     (if k' = k then (k', v) # rest else (k', v') # dict_set k v rest)"

definition host_info :: "string \<Rightarrow> json \<Rightarrow> json \<Rightarrow> json \<Rightarrow> exn + pydict" where
  "host_info ip node_name version_data node =
     build
       [(''ip_address'', Inr (JStr ip)),
        (''hostname'', Inr node_name),
        (''pve_version'', py_get version_data ''version'' (JStr ''unknown'')),
        (''node_name'', Inr node_name),
        (''status'', py_get node ''status'' (JStr ''unknown'')),
        (''uptime_seconds'', py_get node ''uptime'' (JInt 0)),
        (''cpu_count'', py_get node ''maxcpu'' (JInt 0)),
        (''cpu_usage'', py_get node ''cpu'' (JInt 0)),
        (''mem_total'', py_get node ''maxmem'' (JInt 0)),
        (''mem_used'', py_get node ''mem'' (JInt 0)),
        (''disk_total'', py_get node ''maxdisk'' (JInt 0)),
        (''disk_used'', py_get node ''disk'' (JInt 0))]"

definition opt_str :: "string option \<Rightarrow> json" where
  "opt_str v = (case v of None \<Rightarrow> JNull | Some s \<Rightarrow> JStr s)"

definition vm_record :: "string \<Rightarrow> json \<Rightarrow> pydict \<Rightarrow> string option \<Rightarrow> pydict" where
  "vm_record ip node_name res vm_ip =
     [(''host_ip'', JStr ip),
      (''node_name'', node_name),
      (''vmid'', dict_get res ''vmid'' (JInt 0)),
      (''name'', dict_get res ''name'' (JStr [])),
      (''status'', dict_get res ''status'' (JStr [])),
      (''tags'', dict_get res ''tags'' (JStr [])),
      (''is_template'', JInt (if py_truthy (dict_get res ''template'' (JInt 0)) then 1 else 0)),
      (''cpu_count'', dict_get res ''maxcpu'' (JInt 0)),
      (''cpu_usage'', dict_get res ''cpu'' (JInt 0)),
      (''mem_total'', dict_get res ''maxmem'' (JInt 0)),
      (''mem_used'', dict_get res ''mem'' (JInt 0)),
      (''disk_total'', dict_get res ''maxdisk'' (JInt 0)),
      (''disk_used'', dict_get res ''disk'' (JInt 0)),
      (''disk_read'', dict_get res ''diskread'' (JInt 0)),
      (''disk_write'', dict_get res ''diskwrite'' (JInt 0)),
      (''net_in'', dict_get res ''netin'' (JInt 0)),
      (''net_out'', dict_get res ''netout'' (JInt 0)),
      (''uptime_seconds'', dict_get res ''uptime'' (JInt 0)),
      (''ip_address'', opt_str vm_ip)]"

definition lxc_record :: "string \<Rightarrow> json \<Rightarrow> pydict \<Rightarrow> string option \<Rightarrow> pydict" where
  "lxc_record ip node_name res lxc_ip =
     [(''host_ip'', JStr ip),
      (''node_name'', node_name),
      (''vmid'', dict_get res ''vmid'' (JInt 0)),
      (''name'', dict_get res ''name'' (JStr [])),
      (''status'', dict_get res ''status'' (JStr [])),
      (''cpu_count'', dict_get res ''maxcpu'' (JInt 0)),
      (''cpu_usage'', dict_get res ''cpu'' (JInt 0)),
      (''mem_total'', dict_get res ''maxmem'' (JInt 0)),
      (''mem_used'', dict_get res ''mem'' (JInt 0)),
      (''disk_total'', dict_get res ''maxdisk'' (JInt 0)),
      (''disk_used'', dict_get res ''disk'' (JInt 0)),
      (''disk_read'', dict_get res ''diskread'' (JInt 0)),
      (''disk_write'', dict_get res ''diskwrite'' (JInt 0)),
      (''net_in'', dict_get res ''netin'' (JInt 0)),
      (''net_out'', dict_get res ''netout'' (JInt 0)),
      (''uptime_seconds'', dict_get res ''uptime'' (JInt 0)),
      (''ip_address'', opt_str lxc_ip)]"

definition storage_record :: "string \<Rightarrow> json \<Rightarrow> pydict \<Rightarrow> pydict" where
  "storage_record ip node_name res =
     [(''host_ip'', JStr ip),
      (''node_name'', node_name),
      (''storage_name'', dict_get res ''storage'' (JStr [])),
      (''storage_type'', dict_get res ''plugintype'' (JStr [])),
      (''content'', dict_get res ''content'' (JStr [])),
      (''total_bytes'', dict_get res ''maxdisk'' (JInt 0)),
      (''used_bytes'', dict_get res ''disk'' (JInt 0)),
      (''shared'', JInt (if py_truthy (dict_get res ''shared'' (JInt 0)) then 1 else 0)),
      (''status'', dict_get res ''status'' (JStr []))]"

text \<open>
  What a guest entry does once its address is looked up: the record is appended, and the
  address of a running guest is kept under the guest's id.
\<close>

definition track_guest ::
  "pydict \<Rightarrow> string option \<Rightarrow> (pykey \<times> string) list \<Rightarrow> exn + (pykey \<times> string) list" where
  "track_guest res guest_ip guest_ips =
     (case guest_ip of
        None \<Rightarrow> Inr guest_ips
      | Some a \<Rightarrow>
          if a \<noteq> [] \<and> dict_get res ''status'' JNull = JStr ''running'' then
            (case py_hash_key (dict_get res ''vmid'' JNull) of
               Inl e \<Rightarrow> Inl e
             | Inr k \<Rightarrow> Inr (dict_set k a guest_ips))
          else Inr guest_ips)"

text \<open>
  The loop over the resource listing. An entry that is not a dict has no \<^verbatim>\<open>get\<close>:
  the first call on it raises.
\<close>

fun process_resources ::
  "env \<Rightarrow> string \<Rightarrow> int \<Rightarrow> json \<Rightarrow> json \<Rightarrow> json list \<Rightarrow> scan_result \<Rightarrow> (pykey \<times> string) list
     \<Rightarrow> world \<Rightarrow> (exn + scan_result \<times> (pykey \<times> string) list) \<times> world" where
  "process_resources E ip port ticket node_name [] result guest_ips w =
     (Inr (result, guest_ips), w)"
| "process_resources E ip port ticket node_name (r # rs) result guest_ips w =
     (case r of
        JObj res \<Rightarrow>
          (let res_type = dict_get res ''type'' (JStr []) in
           if res_type = JStr ''qemu'' then
             (case get_guest_ip_from_proxmox E ip port ticket node_name ''qemu''
                     (dict_get res ''vmid'' JNull) w of
                (Inl e, w1) \<Rightarrow> (Inl e, w1)
              | (Inr vm_ip, w1) \<Rightarrow>
                  (case track_guest res vm_ip guest_ips of
                     Inl e \<Rightarrow> (Inl e, w1)
                   | Inr guest_ips1 \<Rightarrow>
                       process_resources E ip port ticket node_name rs
                         (result\<lparr>res_vms := res_vms result @ [vm_record ip node_name res vm_ip]\<rparr>)
                         guest_ips1 w1))
           else if res_type = JStr ''lxc'' then
             (case get_guest_ip_from_proxmox E ip port ticket node_name ''lxc''
                     (dict_get res ''vmid'' JNull) w of
                (Inl e, w1) \<Rightarrow> (Inl e, w1)
              | (Inr lxc_ip, w1) \<Rightarrow>
                  (case track_guest res lxc_ip guest_ips of
                     Inl e \<Rightarrow> (Inl e, w1)
                   | Inr guest_ips1 \<Rightarrow>
                       process_resources E ip port ticket node_name rs
                         (result\<lparr>res_lxcs := res_lxcs result @ [lxc_record ip node_name res lxc_ip]\<rparr>)
                         guest_ips1 w1))
           else if res_type = JStr ''storage'' then
             process_resources E ip port ticket node_name rs
               (result\<lparr>res_storage := res_storage result @ [storage_record ip node_name res]\<rparr>)
               guest_ips w
           else process_resources E ip port ticket node_name rs result guest_ips w)
      | _ \<Rightarrow> (Inl (no_attribute r ''get''), w))"

text \<open>
  The loop over the network interfaces, inside its \<^verbatim>\<open>try\<close>: the rows appended before
  an exception stay in the result.
\<close>

fun network_rows :: "string \<Rightarrow> json \<Rightarrow> json list \<Rightarrow> pydict list \<Rightarrow> exn option \<times> pydict list" where
  "network_rows ip node_name [] rows = (None, rows)"
| "network_rows ip node_name (i # is) rows =
     (case i of
        JObj iface \<Rightarrow>
          network_rows ip node_name is
            (rows @
             [[(''host_ip'', JStr ip),
               (''host_name'', node_name),
               (''interface_name'', dict_get iface ''iface'' (JStr [])),
               (''ip_address'', dict_get iface ''address'' (dict_get iface ''cidr'' (JStr []))),
               (''type'', dict_get iface ''type'' (JStr [])),
               (''active'', JInt (if py_truthy (dict_get iface ''active'' (JInt 0)) then 1 else 0)),
               (''bridge_ports'', dict_get iface ''bridge_ports'' (JStr []))]])
      | _ \<Rightarrow> (Some (no_attribute i ''get''), rows))"

definition scan_network_step ::
  "env \<Rightarrow> string \<Rightarrow> int \<Rightarrow> json \<Rightarrow> json \<Rightarrow> int \<Rightarrow> scan_result \<Rightarrow> world \<Rightarrow> scan_result \<times> world" where
  "scan_network_step E ip port ticket node_name sid result w =
     (case proxmox_api E ip port ticket (''/nodes/'' @ py_str E node_name @ ''/network'') w of
        (Inl e, w1) \<Rightarrow>
          (result, log_error (failure E sid ip ''Network''
                                (''Failed to get network info from '' @ ip) e) w1)
      | (Inr net_data, w1) \<Rightarrow>
          (case net_data of
             JArr ifaces \<Rightarrow>
               (case network_rows ip node_name ifaces (res_network result) of
                  (None, rows) \<Rightarrow> (result\<lparr>res_network := rows\<rparr>, w1)
                | (Some e, rows) \<Rightarrow>
                    (result\<lparr>res_network := rows\<rparr>,
                     log_error (failure E sid ip ''Network''
                                  (''Failed to get network info from '' @ ip) e) w1))
           | _ \<Rightarrow> (result, w1)))"

text \<open>The loop over the addresses of the running guests.\<close>

fun scan_guests ::
  "env \<Rightarrow> ssh_config \<Rightarrow> int \<Rightarrow> string list \<Rightarrow> (pykey \<times> string) list \<Rightarrow> pydict list \<Rightarrow> world
     \<Rightarrow> (exn + pydict list) \<times> world" where
  "scan_guests E c sid skip_ips [] docker w = (Inr docker, w)"
| "scan_guests E c sid skip_ips ((vmid, guest_ip) # rest) docker w =
     (if guest_ip \<in> set skip_ips then scan_guests E c sid skip_ips rest docker w
      else
        (case scan_docker_on_host E guest_ip c w sid of
           (Inl e, w1) \<Rightarrow> (Inl e, w1)
         | (Inr guest_docker, w1) \<Rightarrow>
             scan_guests E c sid skip_ips rest (docker @ guest_docker) w1))"

definition scan_docker_step ::
  "env \<Rightarrow> string \<Rightarrow> ssh_config \<Rightarrow> int \<Rightarrow> scan_options \<Rightarrow> (pykey \<times> string) list \<Rightarrow> scan_result
     \<Rightarrow> world \<Rightarrow> (exn + scan_result) \<times> world" where
  "scan_docker_step E ip c sid opts guest_ips result w =
     (case scan_docker_on_host E ip c w sid of
        (Inl e, w1) \<Rightarrow> (Inl e, w1)
      | (Inr docker_containers, w1) \<Rightarrow>
          if enabled (ssh_into_guests opts) then
            (case scan_guests E c sid (skip_docker_scan opts) guest_ips
                    (res_docker result @ docker_containers) w1 of
               (Inl e, w2) \<Rightarrow> (Inl e, w2)
             | (Inr docker, w2) \<Rightarrow> (Inr (result\<lparr>res_docker := docker\<rparr>), w2))
          else (Inr (result\<lparr>res_docker := res_docker result @ docker_containers\<rparr>), w1))"

text \<open>The steps that follow the node listing, for a listing that is not empty.\<close>

definition scan_node ::
  "env \<Rightarrow> string \<Rightarrow> int \<Rightarrow> json \<Rightarrow> json \<Rightarrow> json \<Rightarrow> ssh_config \<Rightarrow> int \<Rightarrow> world \<Rightarrow> scan_options
     \<Rightarrow> (exn + scan_result) \<times> world" where
  "scan_node E ip port ticket version_data nodes c sid w opts =
     (case (case nodes of JArr xs \<Rightarrow> py_index xs 0 | _ \<Rightarrow> Inr nodes) of
        Inl e \<Rightarrow> (Inl e, w)
      | Inr node \<Rightarrow>
     (case py_get node ''node'' (JStr ''unknown'') of
        Inl e \<Rightarrow> (Inl e, w)
      | Inr node_name \<Rightarrow>
     (case host_info ip node_name version_data node of
        Inl e \<Rightarrow> (Inl e, w)
      | Inr info \<Rightarrow>
     (case try_ssh_exec E ip c ''uname -r'' w sid ''Proxmox-SSH'' of
        (kernel_out, w1) \<Rightarrow>
     (let info1 = (case kernel_out of
                     None \<Rightarrow> info
                   | Some k \<Rightarrow> if k = [] then info else info @ [(''kernel_version'', JStr k)]);
          result = empty_result\<lparr>res_host := Some info1\<rparr>
      in
     (case (case proxmox_api E ip port ticket ''/cluster/resources'' w1 of
              (Inl e, w2) \<Rightarrow>
                (JArr [], log_error (failure E sid ip ''Proxmox-Resources''
                                       (''Failed to get resources from '' @ ip) e) w2)
            | (Inr resources, w2) \<Rightarrow> (resources, w2)) of
        (resources, w2) \<Rightarrow>
     (case py_iter resources of
        Inl e \<Rightarrow> (Inl e, w2)
      | Inr rs \<Rightarrow>
     (case process_resources E ip port ticket node_name rs result [] w2 of
        (Inl e, w3) \<Rightarrow> (Inl e, w3)
      | (Inr (result1, guest_ips), w3) \<Rightarrow>
     (case (if enabled (scan_network opts)
            then scan_network_step E ip port ticket node_name sid result1 w3
            else (result1, w3)) of
        (result2, w4) \<Rightarrow>
          if enabled (scan_docker opts)
          then scan_docker_step E ip c sid opts guest_ips result2 w4
          else (Inr result2, w4))))))))))"

definition scan_proxmox_host ::
  "env \<Rightarrow> host_cfg \<Rightarrow> ssh_config \<Rightarrow> int \<Rightarrow> world \<Rightarrow> scan_options \<Rightarrow> (exn + scan_result) \<times> world" where
  "scan_proxmox_host E cfg c sid w opts =
     (let ip = pve_ip cfg;
          port = (case pve_port cfg of None \<Rightarrow> 8006 | Some p \<Rightarrow> p)
      in
      (case proxmox_authenticate E ip port (pve_user cfg) (pve_password cfg) w of
         (Inl e, w1) \<Rightarrow>
           (Inr empty_result,
            log_error (failure E sid ip ''Proxmox-Auth'' (''Authentication failed for '' @ ip) e) w1)
       | (Inr (ticket, csrf), w1) \<Rightarrow>
           (case proxmox_api E ip port ticket ''/version'' w1 of
              (v, w2) \<Rightarrow>
                (let version_data = (case v of Inl e \<Rightarrow> JObj [] | Inr d \<Rightarrow> d) in
                 (case proxmox_api E ip port ticket ''/nodes'' w2 of
                    (Inl e, w3) \<Rightarrow>
                      (Inr empty_result,
                       log_error (failure E sid ip ''Proxmox-Nodes''
                                    (''Failed to get nodes from '' @ ip) e) w3)
                  | (Inr nodes, w3) \<Rightarrow>
                      if \<not> py_truthy nodes then (Inr empty_result, w3)
                      else scan_node E ip port ticket version_data nodes c sid w3 opts)))))"

section \<open>The run\<close>

record config =
  proxmox_hosts :: "host_cfg list"
  ssh_credentials :: ssh_config
  cfg_scan_options :: scan_options
  cfg_skip_docker_scan :: "string list"
  homeassistant :: "ha_cfg list"





definition local_failure :: "env \<Rightarrow> int \<Rightarrow> exn \<Rightarrow> scan_error" where
  "local_failure E sid e =
     \<lparr>scan_id = sid, host_ip = ''127.0.0.1'', component = ''Docker-Local'',
      error_message = ''Local Docker scan failed: '' @ exn_str e,
      error_detail = format_exc E e\<rparr>"




section \<open>The address rules in the specification's words\<close>

text \<open>
  The value of a part \<^verbatim>\<open>ip=...\<close> of a declared network entry: what follows
  \<^verbatim>\<open>ip=\<close>, up to the CIDR suffix (and up to a further \<^verbatim>\<open>=\<close>, should there be one).
\<close>

definition spec_ip_value :: "string \<Rightarrow> string" where
  "spec_ip_value q =
     takeWhile (\<lambda>c. c \<noteq> CHR ''/'') (takeWhile (\<lambda>c. c \<noteq> CHR ''='') (drop 3 q))"

text \<open>
  All the \<^verbatim>\<open>ip=\<close> values the configuration declares, in order: for every key that
  starts with \<^verbatim>\<open>net\<close>, the comma-separated parts that start with \<^verbatim>\<open>ip=\<close>.
\<close>

definition spec_declared_ips :: "env \<Rightarrow> pydict \<Rightarrow> string list" where
  "spec_declared_ips E items =
     concat (map (\<lambda>(key, val).
        if startswith key ''net''
        then map spec_ip_value
               (filter (\<lambda>q. startswith q ''ip='') (map strip (split CHR '','' (py_str E val))))
        else []) items)"

definition spec_static :: "string \<Rightarrow> bool" where
  "spec_static v = (v \<noteq> [] \<and> v \<noteq> ''dhcp'')"

text \<open>
  A well-formed entry of the live interface listing: an object whose \<^verbatim>\<open>inet\<close>, when it
  has one, is a string or empty.
\<close>

definition spec_iface_ok :: "json \<Rightarrow> bool" where
  "spec_iface_ok i =
     (case i of
        JObj kvs \<Rightarrow>
          (case map_of kvs ''inet'' of
             None \<Rightarrow> True
           | Some (JStr s) \<Rightarrow> True
           | Some v \<Rightarrow> \<not> py_truthy v)
      | _ \<Rightarrow> False)"

text \<open>
  An entry that carries a non-loopback address: it is not the interface \<^verbatim>\<open>lo\<close>, and
  its \<^verbatim>\<open>inet\<close> is a non-empty string outside \<^verbatim>\<open>127.\<close>
\<close>

definition spec_inet :: "json \<Rightarrow> string option" where
  "spec_inet i =
     (case i of
        JObj kvs \<Rightarrow>
          (if map_of kvs ''name'' = Some (JStr ''lo'') then None
           else (case map_of kvs ''inet'' of
                   Some (JStr s) \<Rightarrow> if s \<noteq> [] \<and> \<not> startswith s ''127.'' then Some s else None
                 | _ \<Rightarrow> None))
      | _ \<Rightarrow> None)"

text \<open>The first non-loopback address of the listing, without its CIDR suffix.\<close>

definition spec_live_address :: "json list \<Rightarrow> string option" where
  "spec_live_address ifaces =
     (case List.map_filter spec_inet ifaces of
        [] \<Rightarrow> None
      | s # _ \<Rightarrow> Some (takeWhile (\<lambda>c. c \<noteq> CHR ''/'') s))"

text \<open>The two endpoints of the container path.\<close>

definition lxc_config_request :: "env \<Rightarrow> string \<Rightarrow> int \<Rightarrow> json \<Rightarrow> json \<Rightarrow> json \<Rightarrow> request" where
  "lxc_config_request E host port ticket node_name vmid =
     HttpGetCookie (''https://'' @ host @ '':'' @ dec_int port @ ''/api2/json'' @
       ''/nodes/'' @ py_str E node_name @ ''/lxc/'' @ py_str E vmid @ ''/config'') ticket"

definition lxc_interfaces_request :: "env \<Rightarrow> string \<Rightarrow> int \<Rightarrow> json \<Rightarrow> json \<Rightarrow> json \<Rightarrow> request" where
  "lxc_interfaces_request E host port ticket node_name vmid =
     HttpGetCookie (''https://'' @ host @ '':'' @ dec_int port @ ''/api2/json'' @
       ''/nodes/'' @ py_str E node_name @ ''/lxc/'' @ py_str E vmid @ ''/interfaces'') ticket"

text \<open>The requests of one remote execution, and their answers.\<close>

definition candidate_request :: "string \<Rightarrow> ssh_config \<Rightarrow> string \<Rightarrow> string \<Rightarrow> request" where
  "candidate_request ip c command user =
     SshExec ip user (ssh_password c) command
       (case ssh_port c of None \<Rightarrow> 22 | Some p \<Rightarrow> p)
       (case ssh_timeout c of None \<Rightarrow> 10 | Some t \<Rightarrow> t)"

definition attempt :: "env \<Rightarrow> world \<Rightarrow> string \<Rightarrow> ssh_config \<Rightarrow> string \<Rightarrow> nat \<Rightarrow> exn + string" where
  "attempt E w ip c command i =
     ssh E (length (calls w) + i) (candidate_request ip c command (users_to_try c ! i))"


section \<open>The inventory rules in the specification's words\<close>

text \<open>The lines of a listing that are looked at: stripped, and not blank.\<close>

definition spec_lines :: "string \<Rightarrow> string list" where
  "spec_lines listing =
     filter (\<lambda>l. l \<noteq> []) (map strip (split (CHR 0x0A) (strip listing)))"

text \<open>
  A line is malformed when it does not decode, and well-formed when it decodes to an
  object; \<open>spec_listing_ok\<close> says that a listing has no third kind of line.
\<close>

definition malformed :: "env \<Rightarrow> string \<Rightarrow> bool" where
  "malformed E l = (case json_loads E l of Inl e \<Rightarrow> is_decode_error e | Inr c \<Rightarrow> False)"

definition well_formed :: "env \<Rightarrow> string \<Rightarrow> bool" where
  "well_formed E l = (case json_loads E l of Inr (JObj kvs) \<Rightarrow> True | _ \<Rightarrow> False)"

definition spec_listing_ok :: "env \<Rightarrow> string list \<Rightarrow> bool" where
  "spec_listing_ok E ls = list_all (\<lambda>l. malformed E l \<or> well_formed E l) ls"

text \<open>The workload record of a well-formed line.\<close>

definition spec_workload :: "string \<Rightarrow> string \<Rightarrow> pydict \<Rightarrow> pydict" where
  "spec_workload ip hostname c =
     [(''host_ip'', JStr ip),
      (''host_name'', JStr hostname),
      (''container_id'', dict_get c ''id'' (JStr [])),
      (''name'', dict_get c ''name'' (JStr [])),
      (''image'', dict_get c ''image'' (JStr [])),
      (''status'', dict_get c ''status'' (JStr [])),
      (''state'', dict_get c ''state'' (JStr [])),
      (''ports'', dict_get c ''ports'' (JStr [])),
      (''created_at'', dict_get c ''created'' (JStr [])),
      (''networks'', dict_get c ''networks'' (JStr [])),
      (''mounts'', dict_get c ''mounts'' (JStr []))]"

definition spec_workloads :: "env \<Rightarrow> string \<Rightarrow> string \<Rightarrow> string list \<Rightarrow> pydict list" where
  "spec_workloads E ip hostname ls =
     List.map_filter
       (\<lambda>l. case json_loads E l of
              Inr (JObj c) \<Rightarrow> Some (spec_workload ip hostname c)
            | _ \<Rightarrow> None) ls"

definition spec_parse_errors :: "env \<Rightarrow> int \<Rightarrow> string \<Rightarrow> string list \<Rightarrow> scan_error list" where
  "spec_parse_errors E sid ip ls = map (docker_parse_error sid ip) (filter (malformed E) ls)"

text \<open>The display name of the target: its hostname when the command gave one.\<close>

definition display_name :: "string option \<Rightarrow> string \<Rightarrow> string" where
  "display_name h ip = (case h of None \<Rightarrow> ip | Some n \<Rightarrow> if n = [] then ip else n)"

section \<open>The hub rules in the specification's words\<close>

text \<open>The fields of a state entity that the collector reads.\<close>

definition entity_id_of :: "json \<Rightarrow> string" where
  "entity_id_of s =
     (case s of JObj kvs \<Rightarrow> (case map_of kvs ''entity_id'' of Some (JStr i) \<Rightarrow> i | _ \<Rightarrow> []) | _ \<Rightarrow> [])"

definition attribute_of :: "json \<Rightarrow> string \<Rightarrow> json \<Rightarrow> json" where
  "attribute_of s k d =
     (case s of
        JObj kvs \<Rightarrow> (case dict_get kvs ''attributes'' (JObj []) of JObj attrs \<Rightarrow> dict_get attrs k d | _ \<Rightarrow> d)
      | _ \<Rightarrow> d)"

definition state_of :: "json \<Rightarrow> json" where
  "state_of s = (case s of JObj kvs \<Rightarrow> dict_get kvs ''state'' JNull | _ \<Rightarrow> JNull)"

text \<open>
  The entities selected: update entities with a non-empty title, no firmware marker and
  an update suffix in the identifier.
\<close>

definition spec_selected :: "json \<Rightarrow> bool" where
  "spec_selected s =
     (startswith (entity_id_of s) ''update.'' \<and>
      py_truthy (attribute_of s ''title'' JNull) \<and>
      \<not> contains (entity_id_of s) ''_firmware'' \<and>
      contains (entity_id_of s) ''_update'')"

text \<open>The state of the record: one of three values.\<close>

definition spec_state :: "json \<Rightarrow> string" where
  "spec_state s =
     (if state_of s = JStr ''unavailable'' then ''unavailable''
      else if state_of s = JStr ''on'' then ''update_available''
      else ''running'')"

text \<open>
  The status of the record: the installed version after \<^verbatim>\<open>v\<close>, followed by the arrow
  and the latest version when the state is \<^verbatim>\<open>on\<close> and the latest version is true as
  a condition (it is not null, false, zero or empty). Each version is the placeholder
  \<^verbatim>\<open>?\<close> when the entity has no such attribute.
\<close>

definition spec_status :: "env \<Rightarrow> json \<Rightarrow> string" where
  "spec_status E s =
     ''v'' @ py_str E (attribute_of s ''installed_version'' (JStr ''?'')) @
     (if state_of s = JStr ''on'' \<and> py_truthy (attribute_of s ''latest_version'' (JStr ''?''))
      then '' -> '' @ py_str E (attribute_of s ''latest_version'' (JStr ''?''))
      else [])"

definition spec_addon :: "env \<Rightarrow> string \<Rightarrow> json \<Rightarrow> json \<Rightarrow> pydict" where
  "spec_addon E ip ha_name s =
     [(''host_ip'', JStr ip),
      (''host_name'', JStr (py_str E ha_name @ '' (HAOS)'')),
      (''container_id'', JStr (entity_id_of s)),
      (''name'', attribute_of s ''title'' JNull),
      (''image'', JStr (''ha-addon/'' @ replace (replace (entity_id_of s) ''update.'' []) ''_update'' [])),
      (''status'', JStr (spec_status E s)),
      (''state'', JStr (spec_state s)),
      (''ports'', JStr []),
      (''created_at'', JStr []),
      (''networks'', JStr ''hassio''),
      (''mounts'', JStr [])]"

text \<open>
  A state entity as the hub reports it: an object with a string identifier; an update
  entity has an object as its attributes (or has none), and a selected one has a state.
\<close>

definition is_dict :: "json \<Rightarrow> bool" where
  "is_dict v = (case v of JObj kvs \<Rightarrow> True | _ \<Rightarrow> False)"

definition spec_entity_ok :: "json \<Rightarrow> bool" where
  "spec_entity_ok s =
     (case s of
        JObj kvs \<Rightarrow>
          (case map_of kvs ''entity_id'' of
             Some (JStr i) \<Rightarrow>
               (startswith i ''update.'' \<longrightarrow>
                  is_dict (dict_get kvs ''attributes'' (JObj [])) \<and>
                  (spec_selected s \<longrightarrow> map_of kvs ''state'' \<noteq> None))
           | _ \<Rightarrow> False)
      | _ \<Rightarrow> False)"

text \<open>The two requests of a hub scan.\<close>

definition hub_url :: "ha_cfg \<Rightarrow> string" where
  "hub_url cfg =
     (case ha_protocol cfg of None \<Rightarrow> ''http'' | Some p \<Rightarrow> p) @ ''://'' @ ha_ip cfg @ '':'' @
     dec_int (case ha_port cfg of None \<Rightarrow> 8123 | Some p \<Rightarrow> p)"

text \<open>
  The status as the claim words it, before the amendment: the latest version follows
  whenever the state is \<^verbatim>\<open>on\<close>.
\<close>

definition claimed_status :: "env \<Rightarrow> json \<Rightarrow> string" where
  "claimed_status E s =
     ''v'' @ py_str E (attribute_of s ''installed_version'' (JStr ''?'')) @
     (if state_of s = JStr ''on''
      then '' -> '' @ py_str E (attribute_of s ''latest_version'' (JStr ''?''))
      else [])"

section \<open>The guest inventory rules in the specification's words\<close>

text \<open>The address a remote command goes to.\<close>

definition target :: "request \<Rightarrow> string option" where
  "target rq = (case rq of SshExec ip user pw command port timeout \<Rightarrow> Some ip | _ \<Rightarrow> None)"

text \<open>
  \<open>contacts S w w'\<close>: from \<open>w\<close> to \<open>w'\<close> the requests sent are remote commands to addresses
  of \<open>S\<close>, and the errors recorded are about addresses of \<open>S\<close>. \<open>contacted w w'\<close> is the
  set of the addresses that got a remote command.
\<close>

definition contacts :: "string set \<Rightarrow> world \<Rightarrow> world \<Rightarrow> bool" where
  "contacts S w w' =
     (\<exists>new errs. calls w' = calls w @ new \<and> errors_list w' = errors_list w @ errs \<and>
        (\<forall>rq\<in>set new. \<exists>a\<in>S. target rq = Some a) \<and> (\<forall>e\<in>set errs. host_ip e \<in> S))"

definition contacted :: "world \<Rightarrow> world \<Rightarrow> string set" where
  "contacted w w' = {a. \<exists>rq\<in>set (drop (length (calls w)) (calls w')). target rq = Some a}"

text \<open>
  The addresses of the running guests among the guest records: the status is
  \<^verbatim>\<open>running\<close> and a non-empty address was resolved.
\<close>

definition running_addresses :: "pydict list \<Rightarrow> string set" where
  "running_addresses gs =
     {a. a \<noteq> [] \<and>
         (\<exists>g\<in>set gs. dict_get g ''status'' JNull = JStr ''running'' \<and>
                      dict_get g ''ip_address'' JNull = JStr a)}"

text \<open>
  The inventory of a target begins with the presence check: \<open>inventoried w w'\<close> is the set
  of the addresses that got one from \<open>w\<close> to \<open>w'\<close>. The container-related entries of the
  error log are those of the inventory.
\<close>

definition presence_check :: "request \<Rightarrow> string option" where
  "presence_check rq =
     (case rq of
        SshExec ip user pw command port timeout \<Rightarrow>
          if command = docker_check_command then Some ip else None
      | _ \<Rightarrow> None)"


definition container_related :: "scan_error \<Rightarrow> bool" where
  "container_related e = (component e = ''Docker'' \<or> component e = ''Docker-Parse'')"

text \<open>
  \<open>confined S w w'\<close>: from \<open>w\<close> to \<open>w'\<close> an inventory is begun only on addresses of \<open>S\<close>,
  and the container-related errors recorded are about addresses of \<open>S\<close> only.
\<close>

definition confined :: "string set \<Rightarrow> world \<Rightarrow> world \<Rightarrow> bool" where
  "confined S w w' =
     (\<exists>new errs. calls w' = calls w @ new \<and> errors_list w' = errors_list w @ errs \<and>
        (\<forall>rq\<in>set new. \<forall>a. presence_check rq = Some a \<longrightarrow> a \<in> S) \<and>
        (\<forall>e\<in>set errs. container_related e \<longrightarrow> host_ip e \<in> S))"









section \<open>Two runs\<close>

text \<open>
  Two runs get the same responses when each request is answered alike in both: with the
  same answer, or with a failure in both, whatever the exception says. Decoding and
  printing are functions of their argument, and the machine the scanner runs on has one
  name. The text of a traceback is left free.
\<close>

definition alike :: "exn + 'a \<Rightarrow> exn + 'a \<Rightarrow> bool" where
  "alike x y =
     (case x of
        Inl e \<Rightarrow> (case y of Inl f \<Rightarrow> True | Inr b \<Rightarrow> False)
      | Inr a \<Rightarrow> (case y of Inl f \<Rightarrow> False | Inr b \<Rightarrow> a = b))"


text \<open>
  Two entries of the error log are about the same failure when they name the same host and
  the same component; two runs have the same log when they have sent the same requests and
  their error logs match entry by entry.
\<close>

definition same_entry :: "scan_error \<Rightarrow> scan_error \<Rightarrow> bool" where
  "same_entry e f = (host_ip e = host_ip f \<and> component e = component f)"

definition same_log :: "world \<Rightarrow> world \<Rightarrow> bool" where
  "same_log w w' = (calls w = calls w' \<and> list_all2 same_entry (errors_list w) (errors_list w'))"

definition same_outcome :: "(exn + 'a) \<times> world \<Rightarrow> (exn + 'a) \<times> world \<Rightarrow> bool" where
  "same_outcome p q = (alike (fst p) (fst q) \<and> same_log (snd p) (snd q))"

definition same_result :: "'a \<times> world \<Rightarrow> 'a \<times> world \<Rightarrow> bool" where
  "same_result p q = (fst p = fst q \<and> same_log (snd p) (snd q))"

text \<open>The error log with the run id \<open>t\<close> in place of the one it was written with.\<close>

definition renumber :: "int \<Rightarrow> world \<Rightarrow> world" where
  "renumber t w = w\<lparr>errors_list := map (\<lambda>e. e\<lparr>scan_id := t\<rparr>) (errors_list w)\<rparr>"

definition renumbered :: "int \<Rightarrow> 'a \<times> world \<Rightarrow> 'a \<times> world" where
  "renumbered t p = (fst p, renumber t (snd p))"

section \<open>A sample estate\<close>

text \<open>
  The estate of the concrete runs below. The host \<^verbatim>\<open>10.0.0.1\<close> has the node
  \<^verbatim>\<open>pve\<close> with two running containers and a stopped machine; \<^verbatim>\<open>10.0.0.7\<close> lets
  the scanner in and fails on the node listing, \<^verbatim>\<open>10.0.0.8\<close> answers it with an empty
  list; every other host refuses the ticket. Remote login works for \<open>admin\<close> only, and the
  container engine runs on \<^verbatim>\<open>10.0.0.5\<close> and on \<^verbatim>\<open>10.0.0.4\<close>, whose listing has
  the line \<^verbatim>\<open>42\<close> between two containers.
\<close>

definition obj :: "(string \<times> json) list \<Rightarrow> json" where
  "obj kvs = JObj [(''data'', JObj kvs)]"

definition arr :: "json list \<Rightarrow> json" where
  "arr xs = JObj [(''data'', JArr xs)]"

definition sample_resources :: "json list" where
  "sample_resources =
     [JObj [(''type'', JStr ''lxc''), (''vmid'', JInt 101), (''name'', JStr ''web''),
            (''status'', JStr ''running'')],
      JObj [(''type'', JStr ''lxc''), (''vmid'', JInt 102), (''name'', JStr ''dns''),
            (''status'', JStr ''running'')],
      JObj [(''type'', JStr ''qemu''), (''vmid'', JInt 100), (''name'', JStr ''win''),
            (''status'', JStr ''stopped'')],
      JObj [(''type'', JStr ''storage''), (''storage'', JStr ''local'')]]"

definition sample_api :: "(string \<times> json) list" where
  "sample_api =
     [(''https://10.0.0.1:8006/api2/json/version'', obj [(''version'', JStr ''8.2.4'')]),
      (''https://10.0.0.1:8006/api2/json/nodes'',
         arr [JObj [(''node'', JStr ''pve''), (''status'', JStr ''online''), (''maxcpu'', JInt 8)]]),
      (''https://10.0.0.1:8006/api2/json/cluster/resources'', arr sample_resources),
      (''https://10.0.0.1:8006/api2/json/nodes/pve/lxc/101/config'',
         obj [(''hostname'', JStr ''web''),
              (''net0'', JStr ''name=eth0,bridge=vmbr0,ip=10.0.0.5/24,type=veth'')]),
      (''https://10.0.0.1:8006/api2/json/nodes/pve/lxc/102/config'',
         obj [(''hostname'', JStr ''dns''),
              (''net0'', JStr ''name=eth0,bridge=vmbr0,ip=dhcp,type=veth'')]),
      (''https://10.0.0.1:8006/api2/json/nodes/pve/lxc/102/interfaces'',
         arr [JObj [(''name'', JStr ''lo''), (''inet'', JStr ''127.0.0.1/8'')],
              JObj [(''name'', JStr ''eth0''), (''inet'', JStr ''10.0.0.6/24'')]]),
      (''https://10.0.0.1:8006/api2/json/nodes/pve/qemu/100/agent/network-get-interfaces'',
         obj [(''result'',
               JArr [JObj [(''name'', JStr ''lo'')],
                     JObj [(''name'', JStr ''ens18''),
                           (''ip-addresses'',
                            JArr [JObj [(''ip-address-type'', JStr ''ipv4''),
                                        (''ip-address'', JStr ''10.0.0.7'')]])]])]),
      (''https://10.0.0.1:8006/api2/json/nodes/pve/qemu/103/agent/network-get-interfaces'',
         obj [(''result'', JArr [JInt 1])]),
      (''https://10.0.0.1:8006/api2/json/nodes/pve/network'',
         arr [JObj [(''iface'', JStr ''vmbr0''), (''address'', JStr ''10.0.0.1''),
                    (''type'', JStr ''bridge''), (''active'', JInt 1)]]),
      (''https://10.0.0.8:8006/api2/json/nodes'', arr [])]"

definition sample_hub :: "(string \<times> json) list" where
  "sample_hub =
     [(''http://10.0.0.20:8123/api/config'', JObj [(''location_name'', JStr ''Home'')]),
      (''http://10.0.0.20:8123/api/states'',
         JArr [JObj [(''entity_id'', JStr ''update.addon_foo_update''), (''state'', JStr ''on''),
                     (''attributes'', JObj [(''title'', JStr ''Foo''),
                                            (''installed_version'', JStr ''1.0''),
                                            (''latest_version'', JStr ''1.1'')])],
               JObj [(''entity_id'', JStr ''update.device_firmware''), (''state'', JStr ''off''),
                     (''attributes'', JObj [(''title'', JStr ''Device''),
                                            (''installed_version'', JStr ''3''),
                                            (''latest_version'', JStr ''3'')])],
               JObj [(''entity_id'', JStr ''sensor.temperature''), (''state'', JStr ''21.5'')]]),
      (''http://10.0.0.21:8123/api/config'', JObj [(''location_name'', JStr ''Cabin'')]),
      (''http://10.0.0.21:8123/api/states'',
         JArr [JObj [(''entity_id'', JStr ''update.addon_bar_update''), (''state'', JStr ''on''),
                     (''attributes'', JObj [(''title'', JStr ''Bar''),
                                            (''installed_version'', JStr ''2.0''),
                                            (''latest_version'', JNull)])]]),
      (''http://10.0.0.22:8123/api/config'', JObj []),
      (''http://10.0.0.22:8123/api/states'',
         JArr [JObj [(''entity_id'', JStr ''update.addon_baz_update''), (''state'', JStr ''on''),
                     (''attributes'', JObj [(''title'', JStr ''Baz''),
                                            (''installed_version'', JStr ''1.0'')])],
               JObj [(''entity_id'', JStr ''update.addon_qux_update''), (''state'', JStr ''on''),
                     (''attributes'', JObj [(''title'', JStr ''Qux''),
                                            (''installed_version'', JStr ''1.0''),
                                            (''latest_version'', JInt 0)])],
               JObj [(''entity_id'', JStr ''update.core_update''), (''state'', JStr ''unavailable''),
                     (''attributes'', JObj [(''title'', JStr ''Core''),
                                            (''installed_version'', JFloat NegZero),
                                            (''latest_version'', JStr ''2026.1'')])],
               JObj [(''entity_id'', JStr ''update.os_update''), (''state'', JStr ''off''),
                     (''attributes'', JObj [(''title'', JStr ''OS''),
                                            (''installed_version'', JFloat (Finite 0)),
                                            (''latest_version'', JFloat (Finite 0))])]])]"

definition sample_http :: "nat \<Rightarrow> request \<Rightarrow> exn + json" where
  "sample_http n rq =
     (case rq of
        HttpPost url form \<Rightarrow>
          if url \<in> set [''https://10.0.0.1:8006/api2/json/access/ticket'',
                        ''https://10.0.0.7:8006/api2/json/access/ticket'',
                        ''https://10.0.0.8:8006/api2/json/access/ticket'']
          then Inr (obj [(''ticket'', JStr ''PVE:root@pam:65F0''), (''CSRFPreventionToken'', JStr ''65F0:csrf'')])
          else Inl (ExternalError ''401 Client Error: authentication failure'')
      | HttpGetCookie url ticket \<Rightarrow>
          (case map_of sample_api url of
             Some body \<Rightarrow> Inr body
           | None \<Rightarrow> Inl (ExternalError ''500 Server Error''))
      | HttpGetBearer url token timeout \<Rightarrow>
          (case map_of sample_hub url of
             Some body \<Rightarrow> Inr body
           | None \<Rightarrow> Inl (ExternalError ''Connection refused''))
      | _ \<Rightarrow> Inl (ExternalError ''not an HTTP request''))"

definition line_a1 :: string where
  \<open>line_a1 = ''{"id":"a1","name":"web","image":"nginx:1.25","state":"running"}''\<close>

definition line_b2 :: string where
  \<open>line_b2 = ''{"id":"b2","name":"db","image":"postgres:16","state":"exited"}''\<close>

definition sample_listing :: string where
  "sample_listing = line_a1 @ [CHR 0x0A] @ ''not-json'' @ [CHR 0x0A] @ line_b2 @ [CHR 0x0A]"

definition odd_listing :: string where
  "odd_listing = line_a1 @ [CHR 0x0A] @ ''42'' @ [CHR 0x0A] @ line_b2 @ [CHR 0x0A]"

definition sample_ssh :: "nat \<Rightarrow> request \<Rightarrow> exn + string" where
  "sample_ssh n rq =
     (case rq of
        SshExec ip user pw command port timeout \<Rightarrow>
          if user \<noteq> ''admin'' then Inl (ExternalError (''Authentication failed for '' @ user))
          else if command = ''uname -r'' then Inr '' 6.8.12-4-pve ''
          else if command = ''hostname'' then Inr (if ip = ''10.0.0.5'' then ''web'' else ''pve'')
          else if command = docker_check_command then
            Inr (if ip = ''10.0.0.5'' \<or> ip = ''10.0.0.4'' then ''/usr/bin/docker'' @ [CHR 0x0A] @ ''24.0.7''
                 else ''NO_DOCKER'' @ [CHR 0x0A])
          else if command = docker_ps_command then
            Inr (if ip = ''10.0.0.4'' then odd_listing else sample_listing)
          else Inr []
      | _ \<Rightarrow> Inl (ExternalError ''not a remote command''))"

definition sample_loads :: "string \<Rightarrow> exn + json" where
  "sample_loads s =
     (if s = line_a1 then
        Inr (JObj [(''id'', JStr ''a1''), (''name'', JStr ''web''), (''image'', JStr ''nginx:1.25''),
                   (''state'', JStr ''running'')])
      else if s = line_b2 then
        Inr (JObj [(''id'', JStr ''b2''), (''name'', JStr ''db''), (''image'', JStr ''postgres:16''),
                   (''state'', JStr ''exited'')])
      else if s = ''42'' then Inr (JInt 42)
      else Inl (JSONDecodeError ''Expecting value: line 1 column 1 (char 0)''))"

definition sample_env :: env where
  "sample_env =
     \<lparr>http = sample_http,
      ssh = sample_ssh,
      run = (\<lambda>n rq. Inl (ExternalError ''docker: command not found'')),
      json_loads = sample_loads,
      py_repr = (\<lambda>v. if v = JFloat NegZero then ''-0.0'' else if v = JFloat (Finite 0) then ''0.0'' else ''?''),
      format_exc = (\<lambda>e. ''Traceback (most recent call last): '' @ exn_str e),
      gethostname = ''scanner''\<rparr>"

definition fresh :: world where
  "fresh = \<lparr>errors_list = [], calls = []\<rparr>"

definition creds :: "string \<Rightarrow> string option \<Rightarrow> ssh_config" where
  "creds user alt =
     \<lparr>ssh_username = user, ssh_alt_username = alt, ssh_password = ''secret'',
      ssh_port = None, ssh_timeout = None\<rparr>"

definition pve :: "string \<Rightarrow> host_cfg" where
  "pve ip = \<lparr>pve_ip = ip, pve_port = None, pve_user = ''root@pam'', pve_password = ''pw''\<rparr>"

definition hub :: "string \<Rightarrow> ha_cfg" where
  "hub ip = \<lparr>ha_ip = ip, ha_port = None, ha_token = ''TOKEN'', ha_protocol = None\<rparr>"

definition all_on :: "string list \<Rightarrow> scan_options" where
  "all_on skip =
     \<lparr>scan_network = None, scan_docker = None, ssh_into_guests = None, skip_docker_scan = skip\<rparr>"











section \<open>Verified properties\<close>

subsection \<open>Remote command execution\<close>



lemma try_users_all_fail:
  "\<forall>i<length us. isl (ssh E (length (calls w) + i) (candidate_request ip c command (us ! i))) \<Longrightarrow>
   try_users E ip c command us le w =
     (Inr (if us = [] then le
           else Some (projl (ssh E (length (calls w) + (length us - 1)) (candidate_request ip c command (last us))))),
      w\<lparr>calls := calls w @ map (candidate_request ip c command) us\<rparr>)"
proof (induction us arbitrary: w le)
  case Nil
  then show ?case by simp
next
  case (Cons u us)
  from Cons.prems have h0: "isl (ssh E (length (calls w)) (candidate_request ip c command u))"
    by fastforce
  then obtain e where e: "ssh E (length (calls w)) (candidate_request ip c command u) = Inl e"
    by (cases "ssh E (length (calls w)) (candidate_request ip c command u)") auto
  let ?w1 = "sent (candidate_request ip c command u) w"
  have len: "length (calls ?w1) = Suc (length (calls w))" by (simp add: sent_def)
  have step: "try_users E ip c command (u # us) le w = try_users E ip c command us (Some e) ?w1"
    using e by (simp add: ssh_exec_def candidate_request_def Let_def)
  have "\<forall>i<length us. isl (ssh E (length (calls ?w1) + i) (candidate_request ip c command (us ! i)))"
  proof (intro allI impI)
    fix i assume "i < length us"
    then have "Suc i < length (u # us)" by simp
    with Cons.prems have "isl (ssh E (length (calls w) + Suc i) (candidate_request ip c command ((u # us) ! Suc i)))"
      by blast
    then show "isl (ssh E (length (calls ?w1) + i) (candidate_request ip c command (us ! i)))"
      by (simp add: len)
  qed
  from Cons.IH[OF this, of "Some e"] show ?case
    unfolding step using e by (cases us) (simp_all add: sent_def len)
qed

lemma try_users_first_success:
  "j < length us \<Longrightarrow>
   \<forall>i<j. isl (ssh E (length (calls w) + i) (candidate_request ip c command (us ! i))) \<Longrightarrow>
   ssh E (length (calls w) + j) (candidate_request ip c command (us ! j)) = Inr out \<Longrightarrow>
   try_users E ip c command us le w =
     (Inl (strip out), w\<lparr>calls := calls w @ map (candidate_request ip c command) (take (Suc j) us)\<rparr>)"
proof (induction us arbitrary: w le j)
  case Nil
  then show ?case by simp
next
  case (Cons u us)
  let ?w1 = "sent (candidate_request ip c command u) w"
  have len: "length (calls ?w1) = Suc (length (calls w))" by (simp add: sent_def)
  show ?case
  proof (cases j)
    case 0
    with Cons.prems(3) show ?thesis
      by (simp add: ssh_exec_def candidate_request_def Let_def sent_def)
  next
    case (Suc k)
    from Cons.prems(2) Suc have "isl (ssh E (length (calls w) + 0) (candidate_request ip c command ((u # us) ! 0)))"
      by blast
    then obtain e where e: "ssh E (length (calls w)) (candidate_request ip c command u) = Inl e"
      by (cases "ssh E (length (calls w)) (candidate_request ip c command u)") auto
    have step: "try_users E ip c command (u # us) le w = try_users E ip c command us (Some e) ?w1"
      using e by (simp add: ssh_exec_def candidate_request_def Let_def)
    have k: "k < length us" using Cons.prems(1) Suc by simp
    have fails: "\<forall>i<k. isl (ssh E (length (calls ?w1) + i) (candidate_request ip c command (us ! i)))"
    proof (intro allI impI)
      fix i assume "i < k"
      then have "Suc i < j" using Suc by simp
      with Cons.prems(2) have "isl (ssh E (length (calls w) + Suc i) (candidate_request ip c command ((u # us) ! Suc i)))"
        by blast
      then show "isl (ssh E (length (calls ?w1) + i) (candidate_request ip c command (us ! i)))"
        by (simp add: len)
    qed
    have ok: "ssh E (length (calls ?w1) + k) (candidate_request ip c command (us ! k)) = Inr out"
      using Cons.prems(3) Suc by (simp add: len)
    from Cons.IH[OF k fails ok, of "Some e"] show ?thesis
      unfolding step using Suc by (simp add: sent_def)
  qed
qed

lemma users_to_try_cases:
  "users_to_try c =
     (case ssh_alt_username c of
        None \<Rightarrow> [ssh_username c]
      | Some a \<Rightarrow> if a \<noteq> [] \<and> a \<noteq> ssh_username c then [ssh_username c, a] else [ssh_username c])"
  by (simp add: users_to_try_def split: option.splits)

lemma users_to_try_nonempty: "users_to_try c \<noteq> []"
  by (simp add: users_to_try_def)

text \<open>
  Claim C2. A remote command is tried with each credential candidate in order. When every
  candidate fails, the error log grows by exactly one entry, whatever the number of
  candidates; its message names all the usernames tried and the text of the last failure.
  When some candidate succeeds, the stripped output of the first success is returned and
  the error log is left as it was.
\<close>

theorem try_ssh_exec_aggregates:
  assumes run: "try_ssh_exec E ip c command w sid tag = (r, w')"
  shows "((\<forall>i<length (users_to_try c). isl (attempt E w ip c command i)) \<longrightarrow>
            r = None \<and>
            (\<exists>err. errors_list w' = errors_list w @ [err] \<and>
               scan_id err = sid \<and> host_ip err = ip \<and> component err = tag \<and>
               error_message err =
                 ''SSH to '' @ ip @ '' failed (tried: '' @ join '', '' (users_to_try c) @ ''): '' @
                 exn_str (projl (attempt E w ip c command (length (users_to_try c) - 1)))) \<and>
            calls w' = calls w @ map (candidate_request ip c command) (users_to_try c))
       \<and> (\<forall>j out. j < length (users_to_try c) \<and>
             (\<forall>i<j. isl (attempt E w ip c command i)) \<and> attempt E w ip c command j = Inr out \<longrightarrow>
             r = Some (strip out) \<and> errors_list w' = errors_list w)"
proof (intro conjI impI allI)
  assume a: "\<forall>i<length (users_to_try c). isl (attempt E w ip c command i)"
  then have "\<forall>i<length (users_to_try c).
      isl (ssh E (length (calls w) + i) (candidate_request ip c command (users_to_try c ! i)))"
    by (simp add: attempt_def)
  from try_users_all_fail[OF this, of None] run
  have r: "r = None"
    and w': "w' = log_error (ssh_failed sid ip tag (users_to_try c)
        (Some (projl (ssh E (length (calls w) + (length (users_to_try c) - 1))
           (candidate_request ip c command (last (users_to_try c)))))))
        (w\<lparr>calls := calls w @ map (candidate_request ip c command) (users_to_try c)\<rparr>)"
    by (simp_all add: try_ssh_exec_def users_to_try_nonempty)
  show "r = None" by (rule r)
  have lst: "last (users_to_try c) = users_to_try c ! (length (users_to_try c) - 1)"
    by (simp add: last_conv_nth users_to_try_nonempty)
  show "\<exists>err. errors_list w' = errors_list w @ [err] \<and>
               scan_id err = sid \<and> host_ip err = ip \<and> component err = tag \<and>
               error_message err =
                 ''SSH to '' @ ip @ '' failed (tried: '' @ join '', '' (users_to_try c) @ ''): '' @
                 exn_str (projl (attempt E w ip c command (length (users_to_try c) - 1)))"
    unfolding w' by (simp add: log_error_def ssh_failed_def attempt_def lst)
  show "calls w' = calls w @ map (candidate_request ip c command) (users_to_try c)"
    unfolding w' by (simp add: log_error_def)
next
  fix j out
  assume a: "j < length (users_to_try c) \<and>
             (\<forall>i<j. isl (attempt E w ip c command i)) \<and> attempt E w ip c command j = Inr out"
  then have j: "j < length (users_to_try c)"
    and f: "\<forall>i<j. isl (ssh E (length (calls w) + i) (candidate_request ip c command (users_to_try c ! i)))"
    and s: "ssh E (length (calls w) + j) (candidate_request ip c command (users_to_try c ! j)) = Inr out"
    by (simp_all add: attempt_def)
  from try_users_first_success[OF j f s, of None] run
  show "r = Some (strip out)" and "errors_list w' = errors_list w"
    by (auto simp add: try_ssh_exec_def)
qed


lemma sample_attempts:
  "attempt sample_env fresh ''10.0.0.2'' (creds ''root'' (Some ''backup'')) ''uname -r'' 0 =
     Inl (ExternalError ''Authentication failed for root'')"
  "attempt sample_env fresh ''10.0.0.2'' (creds ''root'' (Some ''backup'')) ''uname -r'' (Suc 0) =
     Inl (ExternalError ''Authentication failed for backup'')"
  "attempt sample_env fresh ''10.0.0.2'' (creds ''root'' (Some ''admin'')) ''uname -r'' 0 =
     Inl (ExternalError ''Authentication failed for root'')"
  "attempt sample_env fresh ''10.0.0.2'' (creds ''root'' (Some ''admin'')) ''uname -r'' (Suc 0) =
     Inr '' 6.8.12-4-pve ''"
  by (simp_all add: attempt_def sample_env_def sample_ssh_def creds_def users_to_try_def
      candidate_request_def fresh_def)

lemma sample_users:
  "users_to_try (creds ''root'' (Some ''backup'')) = [''root'', ''backup'']"
  "users_to_try (creds ''root'' (Some ''admin'')) = [''root'', ''admin'']"
  by (simp_all add: users_to_try_def creds_def)

lemma fresh_errors: "errors_list fresh = []"
  by (simp add: fresh_def)

lemma strip_sample: "strip '' 6.8.12-4-pve '' = ''6.8.12-4-pve''"
  by (simp add: strip_def is_space_def)

theorem try_ssh_exec_aggregates_witness:
  "fst (try_ssh_exec sample_env ''10.0.0.2'' (creds ''root'' (Some ''backup'')) ''uname -r'' fresh 7 ''Proxmox-SSH'') = None
   \<and> map error_message (errors_list (snd (try_ssh_exec sample_env ''10.0.0.2'' (creds ''root'' (Some ''backup'')) ''uname -r'' fresh 7 ''Proxmox-SSH'')))
       = [''SSH to 10.0.0.2 failed (tried: root, backup): Authentication failed for backup'']
   \<and> fst (try_ssh_exec sample_env ''10.0.0.2'' (creds ''root'' (Some ''admin'')) ''uname -r'' fresh 7 ''Proxmox-SSH'')
       = Some ''6.8.12-4-pve''
   \<and> errors_list (snd (try_ssh_exec sample_env ''10.0.0.2'' (creds ''root'' (Some ''admin'')) ''uname -r'' fresh 7 ''Proxmox-SSH''))
       = []"
proof -
  let ?bad = "try_ssh_exec sample_env ''10.0.0.2'' (creds ''root'' (Some ''backup'')) ''uname -r'' fresh 7 ''Proxmox-SSH''"
  let ?good = "try_ssh_exec sample_env ''10.0.0.2'' (creds ''root'' (Some ''admin'')) ''uname -r'' fresh 7 ''Proxmox-SSH''"
  have bad: "?bad = (fst ?bad, snd ?bad)" and good: "?good = (fst ?good, snd ?good)"
    by simp_all
  have allfail: "\<forall>i<length (users_to_try (creds ''root'' (Some ''backup''))).
      isl (attempt sample_env fresh ''10.0.0.2'' (creds ''root'' (Some ''backup'')) ''uname -r'' i)"
    by (simp add: sample_users less_Suc_eq sample_attempts)
  from try_ssh_exec_aggregates[OF bad] allfail
  have b1: "fst ?bad = None"
    and b2: "\<exists>err. errors_list (snd ?bad) = errors_list fresh @ [err] \<and>
               scan_id err = 7 \<and> host_ip err = ''10.0.0.2'' \<and> component err = ''Proxmox-SSH'' \<and>
               error_message err =
                 ''SSH to '' @ ''10.0.0.2'' @ '' failed (tried: '' @ join '', '' (users_to_try (creds ''root'' (Some ''backup''))) @ ''): '' @
                 exn_str (projl (attempt sample_env fresh ''10.0.0.2'' (creds ''root'' (Some ''backup'')) ''uname -r'' (length (users_to_try (creds ''root'' (Some ''backup''))) - 1)))"
    by blast+
  from b2 have b3: "map error_message (errors_list (snd ?bad))
       = [''SSH to 10.0.0.2 failed (tried: root, backup): Authentication failed for backup'']"
    by (auto simp: sample_users sample_attempts fresh_errors)
  have "1 < length (users_to_try (creds ''root'' (Some ''admin''))) \<and>
        (\<forall>i<1. isl (attempt sample_env fresh ''10.0.0.2'' (creds ''root'' (Some ''admin'')) ''uname -r'' i)) \<and>
        attempt sample_env fresh ''10.0.0.2'' (creds ''root'' (Some ''admin'')) ''uname -r'' 1 = Inr '' 6.8.12-4-pve ''"
    by (simp add: sample_users sample_attempts)
  with try_ssh_exec_aggregates[OF good]
  have g1: "fst ?good = Some (strip '' 6.8.12-4-pve '')" and g2: "errors_list (snd ?good) = errors_list fresh"
    by blast+
  from b1 b3 g1 g2 show ?thesis
    by (simp add: strip_sample fresh_errors)
qed



lemma try_ssh_exec_single_calls:
  assumes "users_to_try c = [u]"
  shows "calls (snd (try_ssh_exec E ip c command w sid tag)) = calls w @ [candidate_request ip c command u]"
  using assms
  by (simp add: try_ssh_exec_def ssh_exec_def candidate_request_def Let_def sent_def log_error_def
      split: sum.splits)

text \<open>
  Claim C10. The usernames tried are never repeated: the primary one comes first, and the
  alternate one follows only when it is configured, not empty and different from the
  primary. When it is absent or equal to the primary, one execution sends exactly one
  request, whether it fails or not.
\<close>

theorem users_to_try_no_duplicates:
  "distinct (users_to_try c)
   \<and> hd (users_to_try c) = ssh_username c
   \<and> (\<forall>a. a \<in> set (tl (users_to_try c)) \<longleftrightarrow>
          ssh_alt_username c = Some a \<and> a \<noteq> [] \<and> a \<noteq> ssh_username c)
   \<and> (ssh_alt_username c = None \<or> ssh_alt_username c = Some (ssh_username c) \<longrightarrow>
        users_to_try c = [ssh_username c] \<and>
        calls (snd (try_ssh_exec E ip c command w sid tag)) =
          calls w @ [candidate_request ip c command (ssh_username c)])"
proof (intro conjI allI impI)
  show "distinct (users_to_try c)"
    by (auto simp: users_to_try_cases split: option.splits)
  show "hd (users_to_try c) = ssh_username c"
    by (simp add: users_to_try_def)
  show "a \<in> set (tl (users_to_try c)) \<longleftrightarrow>
          ssh_alt_username c = Some a \<and> a \<noteq> [] \<and> a \<noteq> ssh_username c" for a
    by (auto simp: users_to_try_cases split: option.splits)
next
  assume "ssh_alt_username c = None \<or> ssh_alt_username c = Some (ssh_username c)"
  then show one: "users_to_try c = [ssh_username c]"
    by (auto simp: users_to_try_cases)
  then show "calls (snd (try_ssh_exec E ip c command w sid tag)) =
          calls w @ [candidate_request ip c command (ssh_username c)]"
    by (rule try_ssh_exec_single_calls)
qed

theorem users_to_try_no_duplicates_witness:
  "users_to_try (creds ''root'' (Some ''root'')) = [''root'']
   \<and> calls (snd (try_ssh_exec sample_env ''10.0.0.2'' (creds ''root'' (Some ''root'')) ''uname -r'' fresh 7 ''Proxmox-SSH''))
       = [SshExec ''10.0.0.2'' ''root'' ''secret'' ''uname -r'' 22 10]
   \<and> distinct (users_to_try (creds ''root'' (Some ''admin'')))
   \<and> ''admin'' \<in> set (tl (users_to_try (creds ''root'' (Some ''admin''))))"
proof -
  have alt: "ssh_alt_username (creds ''root'' (Some ''root'')) = None \<or>
    ssh_alt_username (creds ''root'' (Some ''root'')) = Some (ssh_username (creds ''root'' (Some ''root'')))"
    by (simp add: creds_def)
  note same = users_to_try_no_duplicates[of "creds ''root'' (Some ''root'')" sample_env "''10.0.0.2''" "''uname -r''" fresh 7 "''Proxmox-SSH''"]
  note other = users_to_try_no_duplicates[of "creds ''root'' (Some ''admin'')" sample_env "''10.0.0.2''" "''uname -r''" fresh 7 "''Proxmox-SSH''"]
  note s = same[THEN conjunct2, THEN conjunct2, THEN conjunct2, THEN mp, OF alt]
  have u: "ssh_username (creds ''root'' (Some ''root'')) = ''root''"
    by (simp add: creds_def)
  have s1: "users_to_try (creds ''root'' (Some ''root'')) = [''root'']"
    using s[THEN conjunct1] by (simp only: u)
  have rq: "candidate_request ''10.0.0.2'' (creds ''root'' (Some ''root'')) ''uname -r'' ''root''
      = SshExec ''10.0.0.2'' ''root'' ''secret'' ''uname -r'' 22 10"
    by (simp add: candidate_request_def creds_def)
  have s2: "calls (snd (try_ssh_exec sample_env ''10.0.0.2'' (creds ''root'' (Some ''root'')) ''uname -r'' fresh 7 ''Proxmox-SSH''))
       = [SshExec ''10.0.0.2'' ''root'' ''secret'' ''uname -r'' 22 10]"
    using s[THEN conjunct2] by (simp only: u rq) (simp add: fresh_def)
  note o1 = other[THEN conjunct1]
  note o2 = other[THEN conjunct2, THEN conjunct2, THEN conjunct1, THEN spec, of "''admin''"]
  have o3: "''admin'' \<in> set (tl (users_to_try (creds ''root'' (Some ''admin''))))"
    unfolding o2 by (simp add: creds_def)
  from s1 s2 o1 o3 show ?thesis
    by (intro conjI)
qed


subsection \<open>Guest addresses\<close>



lemma split_not_Nil: "split sep s \<noteq> []"
  by (induction s) (auto split: list.splits)

lemma hd_split: "hd (split sep s) = takeWhile (\<lambda>c. c \<noteq> sep) s"
  using split_not_Nil[of sep] by (induction s) (auto split: list.splits)

lemma split_index0: "py_index (split sep s) 0 = Inr (takeWhile (\<lambda>c. c \<noteq> sep) s)"
  using split_not_Nil[of sep s] hd_split[of sep s]
  by (cases "split sep s") (simp_all add: py_index_def)

lemma startswith_ip: "startswith q ''ip='' \<Longrightarrow> \<exists>r. q = ''ip='' @ r"
  by (metis append_take_drop_id startswith_def)

lemma split_index1:
  assumes "startswith q ''ip=''"
  shows "py_index (split CHR ''='' q) (Suc 0) = Inr (takeWhile (\<lambda>c. c \<noteq> CHR ''='') (drop 3 q))"
proof -
  from startswith_ip[OF assms] obtain r where q: "q = ''ip='' @ r" by blast
  have "split CHR ''='' q = ''ip'' # split CHR ''='' r"
    using split_not_Nil[of "CHR ''=''" r] by (simp add: q split: list.splits)
  moreover have "drop 3 q = r" by (simp add: q)
  ultimately show ?thesis
    using split_not_Nil[of "CHR ''=''" r] hd_split[of "CHR ''=''" r]
    by (cases "split CHR ''='' r") (simp_all add: py_index_def)
qed

lemma config_parts_spec:
  "config_parts parts =
     Inr (find spec_static (map spec_ip_value (filter (\<lambda>q. startswith q ''ip='') (map strip parts))))"
proof (induction parts)
  case Nil
  show ?case by simp
next
  case (Cons p parts)
  show ?case
  proof (cases "startswith (strip p) ''ip=''")
    case True
    then show ?thesis
      using Cons.IH
      by (simp add: split_index1 split_index0 spec_ip_value_def spec_static_def)
  next
    case False
    then show ?thesis using Cons.IH by simp
  qed
qed

lemma find_append_opt:
  "find P (xs @ ys) = (case find P xs of Some x \<Rightarrow> Some x | None \<Rightarrow> find P ys)"
  by (induction xs) simp_all

lemma contains_iff: "contains s p \<longleftrightarrow> (\<exists>a b. s = a @ p @ b)"
proof (induction s)
  case Nil
  show ?case by auto
next
  case (Cons c cs)
  have sw: "startswith (c # cs) p \<longleftrightarrow> (\<exists>b. c # cs = p @ b)"
    unfolding startswith_def by (metis append_eq_conv_conj)
  show ?case
  proof
    assume "contains (c # cs) p"
    then consider "startswith (c # cs) p" | "contains cs p" by auto
    then show "\<exists>a b. c # cs = a @ p @ b"
    proof cases
      case 1
      with sw obtain b where "c # cs = p @ b" by blast
      then have "c # cs = [] @ p @ b" by simp
      then show ?thesis by blast
    next
      case 2
      with Cons.IH obtain a b where "cs = a @ p @ b" by blast
      then have "c # cs = (c # a) @ p @ b" by simp
      then show ?thesis by blast
    qed
  next
    assume "\<exists>a b. c # cs = a @ p @ b"
    then obtain a b where ab: "c # cs = a @ p @ b" by blast
    show "contains (c # cs) p"
    proof (cases a)
      case Nil
      with ab have "\<exists>b. c # cs = p @ b" by auto
      with sw have "startswith (c # cs) p" by blast
      then show ?thesis by simp
    next
      case (Cons x a')
      with ab have "cs = a' @ p @ b" by simp
      with Cons.IH show ?thesis by auto
    qed
  qed
qed

lemma split_part_infix: "q \<in> set (split sep s) \<Longrightarrow> \<exists>a b. s = a @ q @ b"
proof (induction s arbitrary: q)
  case Nil
  then show ?case by simp
next
  case (Cons c cs)
  show ?case
  proof (cases "c = sep")
    case True
    with Cons.prems have "q = [] \<or> q \<in> set (split sep cs)" by simp
    then show ?thesis
    proof
      assume "q = []"
      then have "c # cs = [] @ q @ (c # cs)" by simp
      then show ?thesis by blast
    next
      assume "q \<in> set (split sep cs)"
      from Cons.IH[OF this] obtain a b where "cs = a @ q @ b" by blast
      then have "c # cs = (c # a) @ q @ b" by simp
      then show ?thesis by blast
    qed
  next
    case False
    obtain p ps where sp: "split sep cs = p # ps"
      using split_not_Nil[of sep cs] by (cases "split sep cs") auto
    with False Cons.prems have "q = c # p \<or> q \<in> set ps" by simp
    then show ?thesis
    proof
      assume q: "q = c # p"
      have "p = takeWhile (\<lambda>c. c \<noteq> sep) cs" using hd_split[of sep cs] sp by simp
      then have "cs = p @ dropWhile (\<lambda>c. c \<noteq> sep) cs" by simp
      then have "c # cs = [] @ q @ dropWhile (\<lambda>c. c \<noteq> sep) cs" using q by simp
      then show ?thesis by blast
    next
      assume "q \<in> set ps"
      then have "q \<in> set (split sep cs)" by (simp add: sp)
      from Cons.IH[OF this] obtain a b where "cs = a @ q @ b" by blast
      then have "c # cs = (c # a) @ q @ b" by simp
      then show ?thesis by blast
    qed
  qed
qed

lemma strip_infix: "\<exists>a b. s = a @ strip s @ b"
proof -
  let ?t = "dropWhile is_space s"
  have 1: "s = takeWhile is_space s @ ?t" by simp
  have "rev ?t = takeWhile is_space (rev ?t) @ dropWhile is_space (rev ?t)" by simp
  then have "?t = rev (dropWhile is_space (rev ?t)) @ rev (takeWhile is_space (rev ?t))"
    by (metis rev_append rev_rev_ident)
  then have "?t = strip s @ rev (takeWhile is_space (rev ?t))" by (simp add: strip_def)
  with 1 have "s = takeWhile is_space s @ strip s @ rev (takeWhile is_space (rev ?t))" by simp
  then show ?thesis by blast
qed

lemma ip_part_contained:
  assumes "p \<in> set (split sep s)" and "startswith (strip p) ''ip=''"
  shows "contains s ''ip=''"
proof -
  from split_part_infix[OF assms(1)] obtain a b where s: "s = a @ p @ b" by blast
  from strip_infix[of p] obtain a' b' where p: "p = a' @ strip p @ b'" by blast
  from startswith_ip[OF assms(2)] obtain r where r: "strip p = ''ip='' @ r" by blast
  have "s = (a @ a') @ ''ip='' @ (r @ b' @ b)"
    by (subst s, subst p, subst r) simp
  then show ?thesis unfolding contains_iff by blast
qed

lemma config_items_spec:
  "config_items E items = Inr (find spec_static (spec_declared_ips E items))"
proof (induction items)
  case Nil
  show ?case by (simp add: spec_declared_ips_def)
next
  case (Cons kv items)
  obtain key val where kv: "kv = (key, val)" by (cases kv)
  define parts where "parts = split CHR '','' (py_str E val)"
  define here where "here = map spec_ip_value (filter (\<lambda>q. startswith q ''ip='') (map strip parts))"
  have unfold: "spec_declared_ips E ((key, val) # items) =
      (if startswith key ''net'' then here else []) @ spec_declared_ips E items"
    by (simp add: spec_declared_ips_def here_def parts_def)
  have parts: "config_parts parts = Inr (find spec_static here)"
    unfolding here_def by (rule config_parts_spec)
  have step: "config_items E ((key, val) # items) =
     (if startswith key ''net'' \<and> contains (py_str E val) ''ip='' then
        (case find spec_static here of Some ip_val \<Rightarrow> Inr (Some ip_val) | None \<Rightarrow> config_items E items)
      else config_items E items)"
    using parts by (simp add: parts_def split: option.splits)
  have none: "here = []" if "\<not> contains (py_str E val) ''ip=''"
  proof (rule ccontr)
    assume "here \<noteq> []"
    then have "filter (\<lambda>q. startswith q ''ip='') (map strip parts) \<noteq> []"
      by (simp add: here_def)
    then obtain q where "q \<in> set (filter (\<lambda>q. startswith q ''ip='') (map strip parts))"
      by (meson last_in_set)
    then obtain p where "p \<in> set parts" "startswith (strip p) ''ip=''"
      by auto
    from ip_part_contained[OF this[unfolded parts_def]] that show False by simp
  qed
  show ?case
  proof (cases "startswith key ''net''")
    case False
    then show ?thesis unfolding kv step unfold using Cons.IH by simp
  next
    case net: True
    show ?thesis
    proof (cases "contains (py_str E val) ''ip=''")
      case True
      show ?thesis
        unfolding kv step unfold using Cons.IH net True
        by (cases "find spec_static here") (simp_all add: find_append_opt)
    next
      case False
      show ?thesis
        unfolding kv step unfold using Cons.IH net False none[OF False] by simp
    qed
  qed
qed


lemma map_filter_Cons:
  "List.map_filter f (x # xs) = (case f x of None \<Rightarrow> List.map_filter f xs | Some y \<Rightarrow> y # List.map_filter f xs)"
  by (simp add: List.map_filter_def split: option.splits)

lemma live_interfaces_step:
  assumes "spec_iface_ok i"
  shows "live_interfaces (i # is) =
     (case spec_inet i of
        Some s \<Rightarrow> Inr (Some (takeWhile (\<lambda>c. c \<noteq> CHR ''/'') s))
      | None \<Rightarrow> live_interfaces is)"
proof -
  from assms obtain kvs where i: "i = JObj kvs"
    by (cases i) (simp_all add: spec_iface_ok_def)
  show ?thesis
  proof (cases "map_of kvs ''name'' = Some (JStr ''lo'')")
    case True
    then show ?thesis by (simp add: i py_get_def dict_get_def spec_inet_def)
  next
    case notlo: False
    then have name: "(case map_of kvs ''name'' of None \<Rightarrow> JNull | Some x \<Rightarrow> x) \<noteq> JStr ''lo''"
      by (cases "map_of kvs ''name''") simp_all
    show ?thesis
    proof (cases "map_of kvs ''inet''")
      case None
      then show ?thesis using notlo name by (simp add: i py_get_def dict_get_def spec_inet_def)
    next
      case (Some v)
      show ?thesis
      proof (cases v)
        case (JStr s)
        then show ?thesis
          using notlo name Some by (simp add: i py_get_def dict_get_def spec_inet_def split_index0)
      qed (use assms notlo name Some in \<open>auto simp add: i py_get_def dict_get_def spec_inet_def spec_iface_ok_def\<close>)
    qed
  qed
qed

lemma live_interfaces_spec:
  "list_all spec_iface_ok xs \<Longrightarrow> live_interfaces xs = Inr (spec_live_address xs)"
proof (induction xs)
  case Nil
  show ?case by (simp add: spec_live_address_def List.map_filter_def)
next
  case (Cons i xs)
  then have ok: "spec_iface_ok i" and IH: "live_interfaces xs = Inr (spec_live_address xs)"
    by simp_all
  show ?case
    unfolding live_interfaces_step[OF ok]
    by (cases "spec_inet i") (simp_all add: IH spec_live_address_def map_filter_Cons)
qed

lemma proxmox_api_calls:
  "proxmox_api E host port ticket endpoint w = (r, w') \<Longrightarrow>
   w' = sent (HttpGetCookie (''https://'' @ host @ '':'' @ dec_int port @ ''/api2/json'' @ endpoint) ticket) w"
  by (auto simp: proxmox_api_def Let_def split: sum.splits)

text \<open>
  Claim C6. For a container guest whose declared configuration is available, the resolver
  returns the first declared \<^verbatim>\<open>ip=\<close> value of a \<^verbatim>\<open>net\<close> entry that is neither empty
  nor \<^verbatim>\<open>dhcp\<close>, without its CIDR suffix, and sends no further request. Only when there
  is no such value (all of them \<^verbatim>\<open>dhcp\<close> included) does it ask the live interfaces
  endpoint, and then it returns the first non-loopback \<^verbatim>\<open>inet\<close> address without its CIDR
  suffix.
\<close>

theorem lxc_address_resolution:
  assumes lxc: "vmtype \<noteq> ''qemu''"
    and config: "proxmox_api E host port ticket
        (''/nodes/'' @ py_str E node_name @ ''/lxc/'' @ py_str E vmid @ ''/config'') w = (Inr (JObj items), w1)"
  shows "(\<forall>a. find spec_static (spec_declared_ips E items) = Some a \<longrightarrow>
            get_guest_ip_from_proxmox E host port ticket node_name vmtype vmid w = (Inr (Some a), w1) \<and>
            calls w1 = calls w @ [lxc_config_request E host port ticket node_name vmid])
       \<and> (find spec_static (spec_declared_ips E items) = None \<longrightarrow>
            calls (snd (get_guest_ip_from_proxmox E host port ticket node_name vmtype vmid w)) =
              calls w @ [lxc_config_request E host port ticket node_name vmid,
                         lxc_interfaces_request E host port ticket node_name vmid] \<and>
            (\<forall>xs w2. proxmox_api E host port ticket
                  (''/nodes/'' @ py_str E node_name @ ''/lxc/'' @ py_str E vmid @ ''/interfaces'') w1
                  = (Inr (JArr xs), w2) \<and> list_all spec_iface_ok xs \<longrightarrow>
               get_guest_ip_from_proxmox E host port ticket node_name vmtype vmid w =
                 (Inr (spec_live_address xs), w2)))"
proof -
  let ?cfg = "''/nodes/'' @ py_str E node_name @ ''/lxc/'' @ py_str E vmid @ ''/config''"
  let ?ifc = "''/nodes/'' @ py_str E node_name @ ''/lxc/'' @ py_str E vmid @ ''/interfaces''"
  have w1: "w1 = sent (lxc_config_request E host port ticket node_name vmid) w"
    using proxmox_api_calls[OF config] by (simp add: lxc_config_request_def)
  have items: "config_items E items = Inr (find spec_static (spec_declared_ips E items))"
    by (rule config_items_spec)
  have look: "guest_ip_lookup E host port ticket node_name vmtype vmid w =
      (case find spec_static (spec_declared_ips E items) of
         Some a \<Rightarrow> (Inr (Some a), w1)
       | None \<Rightarrow>
          (case proxmox_api E host port ticket ?ifc w1 of
             (Inl e, w2) \<Rightarrow> (Inr None, w2)
           | (Inr ifaces, w2) \<Rightarrow>
               (case ifaces of
                  JArr xs \<Rightarrow> (case live_interfaces xs of Inl e \<Rightarrow> (Inr None, w2) | Inr r \<Rightarrow> (Inr r, w2))
                | _ \<Rightarrow> (Inr None, w2))))"
    unfolding guest_ip_lookup_def using lxc config items
    by (simp add: py_items_def split: option.splits)
  show ?thesis
  proof (intro conjI allI impI)
    fix a assume a: "find spec_static (spec_declared_ips E items) = Some a"
    show "get_guest_ip_from_proxmox E host port ticket node_name vmtype vmid w = (Inr (Some a), w1)"
      by (simp add: get_guest_ip_from_proxmox_def look a)
    show "calls w1 = calls w @ [lxc_config_request E host port ticket node_name vmid]"
      by (simp add: w1 sent_def)
  next
    assume n: "find spec_static (spec_declared_ips E items) = None"
    obtain r2 w2 where api2: "proxmox_api E host port ticket ?ifc w1 = (r2, w2)"
      by (cases "proxmox_api E host port ticket ?ifc w1")
    have w2: "w2 = sent (lxc_interfaces_request E host port ticket node_name vmid) w1"
      using proxmox_api_calls[OF api2] by (simp add: lxc_interfaces_request_def)
    have "snd (get_guest_ip_from_proxmox E host port ticket node_name vmtype vmid w) = w2"
      using api2 by (simp add: get_guest_ip_from_proxmox_def look n split: sum.splits json.splits)
    then show "calls (snd (get_guest_ip_from_proxmox E host port ticket node_name vmtype vmid w)) =
              calls w @ [lxc_config_request E host port ticket node_name vmid,
                         lxc_interfaces_request E host port ticket node_name vmid]"
      by (simp add: w2 w1 sent_def)
  next
    fix xs w2
    assume n: "find spec_static (spec_declared_ips E items) = None"
      and h: "proxmox_api E host port ticket ?ifc w1 = (Inr (JArr xs), w2) \<and> list_all spec_iface_ok xs"
    then show "get_guest_ip_from_proxmox E host port ticket node_name vmtype vmid w =
                 (Inr (spec_live_address xs), w2)"
      by (simp add: get_guest_ip_from_proxmox_def look live_interfaces_spec)
  qed
qed


lemma dec_samples:
  "dec_int 8006 = ''8006''" "dec_int 100 = ''100''" "dec_int 101 = ''101''"
  "dec_int 102 = ''102''" "dec_int 103 = ''103''" "dec_int 8123 = ''8123''"
  by (simp_all add: dec_int_def dec_nat.simps)

lemmas sample_api_simps =
  proxmox_api_def sample_env_def sample_http_def sample_api_def py_str_def dec_samples
  obj_def arr_def py_get_def dict_get_def sent_def fresh_def

lemma sample_config_101:
  "proxmox_api sample_env ''10.0.0.1'' 8006 (JStr ''t'')
     (''/nodes/'' @ py_str sample_env (JStr ''pve'') @ ''/lxc/'' @ py_str sample_env (JInt 101) @ ''/config'') fresh
   = (Inr (JObj [(''hostname'', JStr ''web''),
                 (''net0'', JStr ''name=eth0,bridge=vmbr0,ip=10.0.0.5/24,type=veth'')]),
      sent (lxc_config_request sample_env ''10.0.0.1'' 8006 (JStr ''t'') (JStr ''pve'') (JInt 101)) fresh)"
  by (simp add: sample_api_simps lxc_config_request_def)

lemma sample_config_102:
  "proxmox_api sample_env ''10.0.0.1'' 8006 (JStr ''t'')
     (''/nodes/'' @ py_str sample_env (JStr ''pve'') @ ''/lxc/'' @ py_str sample_env (JInt 102) @ ''/config'') fresh
   = (Inr (JObj [(''hostname'', JStr ''dns''),
                 (''net0'', JStr ''name=eth0,bridge=vmbr0,ip=dhcp,type=veth'')]),
      sent (lxc_config_request sample_env ''10.0.0.1'' 8006 (JStr ''t'') (JStr ''pve'') (JInt 102)) fresh)"
  by (simp add: sample_api_simps lxc_config_request_def)

lemma sample_interfaces_102:
  "proxmox_api sample_env ''10.0.0.1'' 8006 (JStr ''t'')
     (''/nodes/'' @ py_str sample_env (JStr ''pve'') @ ''/lxc/'' @ py_str sample_env (JInt 102) @ ''/interfaces'')
     (sent (lxc_config_request sample_env ''10.0.0.1'' 8006 (JStr ''t'') (JStr ''pve'') (JInt 102)) fresh)
   = (Inr (JArr [JObj [(''name'', JStr ''lo''), (''inet'', JStr ''127.0.0.1/8'')],
                 JObj [(''name'', JStr ''eth0''), (''inet'', JStr ''10.0.0.6/24'')]]),
      sent (lxc_interfaces_request sample_env ''10.0.0.1'' 8006 (JStr ''t'') (JStr ''pve'') (JInt 102))
        (sent (lxc_config_request sample_env ''10.0.0.1'' 8006 (JStr ''t'') (JStr ''pve'') (JInt 102)) fresh))"
  by (simp add: sample_api_simps lxc_config_request_def lxc_interfaces_request_def)

lemmas spec_ip_simps =
  spec_static_def spec_declared_ips_def startswith_def py_str_def strip_def is_space_def
  spec_ip_value_def

lemma sample_declared_101:
  "find spec_static (spec_declared_ips sample_env
      [(''hostname'', JStr ''web''),
       (''net0'', JStr ''name=eth0,bridge=vmbr0,ip=10.0.0.5/24,type=veth'')]) = Some ''10.0.0.5''"
  by (simp add: spec_ip_simps)

lemma sample_declared_102:
  "find spec_static (spec_declared_ips sample_env
      [(''hostname'', JStr ''dns''),
       (''net0'', JStr ''name=eth0,bridge=vmbr0,ip=dhcp,type=veth'')]) = None"
  by (simp add: spec_ip_simps)

lemma sample_live_102:
  "list_all spec_iface_ok
     [JObj [(''name'', JStr ''lo''), (''inet'', JStr ''127.0.0.1/8'')],
      JObj [(''name'', JStr ''eth0''), (''inet'', JStr ''10.0.0.6/24'')]]"
  "spec_live_address
     [JObj [(''name'', JStr ''lo''), (''inet'', JStr ''127.0.0.1/8'')],
      JObj [(''name'', JStr ''eth0''), (''inet'', JStr ''10.0.0.6/24'')]] = Some ''10.0.0.6''"
  by (simp_all add: spec_iface_ok_def spec_live_address_def spec_inet_def List.map_filter_def
      startswith_def)

theorem lxc_address_resolution_witness:
  "get_guest_ip_from_proxmox sample_env ''10.0.0.1'' 8006 (JStr ''t'') (JStr ''pve'') ''lxc'' (JInt 101) fresh
     = (Inr (Some ''10.0.0.5''),
        \<lparr>errors_list = [],
         calls = [HttpGetCookie ''https://10.0.0.1:8006/api2/json/nodes/pve/lxc/101/config'' (JStr ''t'')]\<rparr>)
   \<and> get_guest_ip_from_proxmox sample_env ''10.0.0.1'' 8006 (JStr ''t'') (JStr ''pve'') ''lxc'' (JInt 102) fresh
     = (Inr (Some ''10.0.0.6''),
        \<lparr>errors_list = [],
         calls = [HttpGetCookie ''https://10.0.0.1:8006/api2/json/nodes/pve/lxc/102/config'' (JStr ''t''),
                  HttpGetCookie ''https://10.0.0.1:8006/api2/json/nodes/pve/lxc/102/interfaces'' (JStr ''t'')]\<rparr>)"
proof -
  have lxc: "''lxc'' \<noteq> ''qemu''" by simp
  note static = lxc_address_resolution[OF lxc sample_config_101, THEN conjunct1, THEN spec,
      THEN mp, OF sample_declared_101, THEN conjunct1]
  note live = lxc_address_resolution[OF lxc sample_config_102, THEN conjunct2, THEN mp,
      OF sample_declared_102, THEN conjunct2, THEN spec, THEN spec, THEN mp,
      OF conjI [OF sample_interfaces_102 sample_live_102(1)]]
  have r1: "sent (lxc_config_request sample_env ''10.0.0.1'' 8006 (JStr ''t'') (JStr ''pve'') (JInt 101)) fresh
      = \<lparr>errors_list = [],
         calls = [HttpGetCookie ''https://10.0.0.1:8006/api2/json/nodes/pve/lxc/101/config'' (JStr ''t'')]\<rparr>"
    by (simp add: lxc_config_request_def sent_def fresh_def py_str_def dec_samples)
  have r2: "sent (lxc_interfaces_request sample_env ''10.0.0.1'' 8006 (JStr ''t'') (JStr ''pve'') (JInt 102))
        (sent (lxc_config_request sample_env ''10.0.0.1'' 8006 (JStr ''t'') (JStr ''pve'') (JInt 102)) fresh)
      = \<lparr>errors_list = [],
         calls = [HttpGetCookie ''https://10.0.0.1:8006/api2/json/nodes/pve/lxc/102/config'' (JStr ''t''),
                  HttpGetCookie ''https://10.0.0.1:8006/api2/json/nodes/pve/lxc/102/interfaces'' (JStr ''t'')]\<rparr>"
    by (simp add: lxc_config_request_def lxc_interfaces_request_def sent_def fresh_def py_str_def
        dec_samples)
  show ?thesis
    using static live unfolding r1 r2 sample_live_102(2) by (rule conjI)
qed


text \<open>
  Claim C8. The resolver never raises: whatever the host, port, ticket, node, guest kind,
  guest id and the answers of the API, it returns a value, and that value is "no address"
  whenever anything failed inside.
\<close>

theorem get_guest_ip_never_raises:
  "(\<exists>r. fst (get_guest_ip_from_proxmox E host port ticket node_name vmtype vmid w) = Inr r)
   \<and> (isl (fst (guest_ip_lookup E host port ticket node_name vmtype vmid w)) \<longrightarrow>
        fst (get_guest_ip_from_proxmox E host port ticket node_name vmtype vmid w) = Inr None)"
  by (cases "guest_ip_lookup E host port ticket node_name vmtype vmid w")
     (auto simp: get_guest_ip_from_proxmox_def split: sum.splits)


lemma sample_lookup_103:
  "fst (guest_ip_lookup sample_env ''10.0.0.1'' 8006 (JStr ''t'') (JStr ''pve'') ''qemu'' (JInt 103) fresh)
     = Inl (no_attribute (JInt 1) ''get'')"
  by (simp add: guest_ip_lookup_def sample_api_simps py_iter_def)

theorem get_guest_ip_never_raises_witness:
  "fst (guest_ip_lookup sample_env ''10.0.0.1'' 8006 (JStr ''t'') (JStr ''pve'') ''qemu'' (JInt 103) fresh)
     = Inl (AttributeError (squote ''int'' @ '' object has no attribute '' @ squote ''get''))
   \<and> fst (get_guest_ip_from_proxmox sample_env ''10.0.0.1'' 8006 (JStr ''t'') (JStr ''pve'') ''qemu'' (JInt 103) fresh)
     = Inr None"
proof -
  have raised: "isl (fst (guest_ip_lookup sample_env ''10.0.0.1'' 8006 (JStr ''t'') (JStr ''pve'') ''qemu'' (JInt 103) fresh))"
    by (simp add: sample_lookup_103)
  note caught = get_guest_ip_never_raises[THEN conjunct2, THEN mp, OF raised]
  have "fst (guest_ip_lookup sample_env ''10.0.0.1'' 8006 (JStr ''t'') (JStr ''pve'') ''qemu'' (JInt 103) fresh)
     = Inl (AttributeError (squote ''int'' @ '' object has no attribute '' @ squote ''get''))"
    by (simp add: sample_lookup_103 no_attribute_def)
  then show ?thesis using caught by (rule conjI)
qed

subsection \<open>Container inventory\<close>

lemma try_ssh_exec_Some_errors:
  "try_ssh_exec E ip c command w sid tag = (Some out, w') \<Longrightarrow> errors_list w' = errors_list w"
proof -
  have users: "try_users E ip c command us le w = (Inl out, w') \<Longrightarrow> errors_list w' = errors_list w"
    for us le w
  proof (induction us arbitrary: le w)
    case Nil
    then show ?case by simp
  next
    case (Cons u us)
    show ?case
    proof (cases "ssh E (length (calls w)) (candidate_request ip c command u)")
      case (Inl e)
      with Cons.prems have "try_users E ip c command us (Some e) (sent (candidate_request ip c command u) w) = (Inl out, w')"
        by (simp add: ssh_exec_def candidate_request_def Let_def)
      from Cons.IH[OF this] show ?thesis by (simp add: sent_def)
    next
      case (Inr got)
      with Cons.prems show ?thesis
        by (auto simp: ssh_exec_def candidate_request_def Let_def sent_def)
    qed
  qed
  assume "try_ssh_exec E ip c command w sid tag = (Some out, w')"
  then show ?thesis
    by (auto simp: try_ssh_exec_def split: prod.splits sum.splits dest: users)
qed

lemma container_record_obj:
  "container_record ip hostname (JObj c) = Inr (spec_workload ip hostname c)"
  by (simp add: container_record_def spec_workload_def py_get_def)

lemma container_record_other:
  "(\<forall>kvs. c \<noteq> JObj kvs) \<Longrightarrow> container_record ip hostname c = Inl (no_attribute c ''get'')"
  by (cases c) (simp_all add: container_record_def py_get_def)

lemma docker_lines_spec:
  assumes "spec_listing_ok E (filter (\<lambda>l. l \<noteq> []) (map strip ls))"
  shows "docker_lines E ip hostname sid ls containers w =
     (Inr (containers @ spec_workloads E ip hostname (filter (\<lambda>l. l \<noteq> []) (map strip ls))),
      w\<lparr>errors_list := errors_list w @
            spec_parse_errors E sid ip (filter (\<lambda>l. l \<noteq> []) (map strip ls))\<rparr>)"
  using assms
proof (induction ls arbitrary: containers w)
  case Nil
  show ?case by (simp add: spec_workloads_def spec_parse_errors_def List.map_filter_def)
next
  case (Cons l ls)
  show ?case
  proof (cases "strip l = []")
    case True
    with Cons show ?thesis by (simp add: spec_listing_ok_def)
  next
    case False
    with Cons.prems have kind: "malformed E (strip l) \<or> well_formed E (strip l)"
      and rest: "spec_listing_ok E (filter (\<lambda>l. l \<noteq> []) (map strip ls))"
      by (simp_all add: spec_listing_ok_def)
    from kind show ?thesis
    proof
      assume m: "malformed E (strip l)"
      then obtain e where none: "json_loads E (strip l) = Inl e" and e: "is_decode_error e"
        by (auto simp: malformed_def split: sum.splits)
      show ?thesis
        using False none e m Cons.IH[OF rest]
        by (simp add: spec_workloads_def spec_parse_errors_def List.map_filter_def log_error_def)
    next
      assume "well_formed E (strip l)"
      then obtain c where some: "json_loads E (strip l) = Inr (JObj c)"
        by (auto simp: well_formed_def split: sum.splits json.splits)
      then have nm: "\<not> malformed E (strip l)" by (simp add: malformed_def)
      show ?thesis
        using False some nm Cons.IH[OF rest]
        by (simp add: spec_workloads_def spec_parse_errors_def List.map_filter_def
            container_record_obj)
    qed
  qed
qed

text \<open>
  The inventory on a listing whose lines each either fail to decode (malformed) or decode
  to an object (well-formed): every malformed line adds exactly one \<^verbatim>\<open>Docker-Parse\<close>
  entry with the line as its detail and is passed over, and every well-formed line gives
  its workload record, in the order of the lines. When the presence check prints the
  sentinel or nothing, the inventory is empty and no error is recorded.
\<close>

lemma scan_docker_on_host_listing:
  assumes check: "try_ssh_exec E ip c docker_check_command w sid ''Docker'' = (Some out, w1)"
  shows "(out = [] \<or> contains out ''NO_DOCKER'' \<longrightarrow>
            scan_docker_on_host E ip c w sid = (Inr [], w1) \<and> errors_list w1 = errors_list w)
       \<and> (out \<noteq> [] \<and> \<not> contains out ''NO_DOCKER'' \<longrightarrow>
            (\<forall>listing w2 h w3.
               try_ssh_exec E ip c docker_ps_command w1 sid ''Docker'' = (Some listing, w2) \<and>
               listing \<noteq> [] \<and>
               try_ssh_exec E ip c ''hostname'' w2 sid ''Docker'' = (h, w3) \<and>
               spec_listing_ok E (spec_lines listing) \<longrightarrow>
               scan_docker_on_host E ip c w sid =
                 (Inr (spec_workloads E ip (display_name h ip) (spec_lines listing)),
                  w3\<lparr>errors_list := errors_list w3 @
                        spec_parse_errors E sid ip (spec_lines listing)\<rparr>)))"
proof (intro conjI impI allI)
  assume "out = [] \<or> contains out ''NO_DOCKER''"
  then show "scan_docker_on_host E ip c w sid = (Inr [], w1)"
    using check by (auto simp: scan_docker_on_host_def)
  show "errors_list w1 = errors_list w"
    using check by (rule try_ssh_exec_Some_errors)
next
  fix listing w2 h w3
  assume engine: "out \<noteq> [] \<and> \<not> contains out ''NO_DOCKER''"
    and rest: "try_ssh_exec E ip c docker_ps_command w1 sid ''Docker'' = (Some listing, w2) \<and>
               listing \<noteq> [] \<and>
               try_ssh_exec E ip c ''hostname'' w2 sid ''Docker'' = (h, w3) \<and>
               spec_listing_ok E (spec_lines listing)"
  then have ok: "spec_listing_ok E (filter (\<lambda>l. l \<noteq> []) (map strip (split (CHR 0x0A) (strip listing))))"
    by (simp add: spec_lines_def)
  have "scan_docker_on_host E ip c w sid =
      docker_lines E ip (display_name h ip) sid (split (CHR 0x0A) (strip listing)) [] w3"
    using check engine rest by (simp add: scan_docker_on_host_def display_name_def)
  also have "\<dots> = (Inr ([] @ spec_workloads E ip (display_name h ip) (spec_lines listing)),
                  w3\<lparr>errors_list := errors_list w3 @
                        spec_parse_errors E sid ip (spec_lines listing)\<rparr>)"
    unfolding spec_lines_def by (rule docker_lines_spec[OF ok])
  finally show "scan_docker_on_host E ip c w sid =
                 (Inr (spec_workloads E ip (display_name h ip) (spec_lines listing)),
                  w3\<lparr>errors_list := errors_list w3 @
                        spec_parse_errors E sid ip (spec_lines listing)\<rparr>)"
    by simp
qed

lemma sample_commands:
  "docker_check_command \<noteq> ''uname -r''" "docker_check_command \<noteq> ''hostname''"
  "docker_ps_command \<noteq> ''uname -r''" "docker_ps_command \<noteq> ''hostname''"
  "docker_ps_command \<noteq> docker_check_command"
  by (simp_all add: docker_check_command_def docker_ps_command_def)

lemma sample_try_admin:
  "try_ssh_exec sample_env ip (creds ''admin'' None) command w sid tag =
     (case sample_ssh (length (calls w)) (SshExec ip ''admin'' ''secret'' command 22 10) of
        Inr out \<Rightarrow> (Some (strip out), sent (SshExec ip ''admin'' ''secret'' command 22 10) w)
      | Inl e \<Rightarrow> (None, log_error (ssh_failed sid ip tag [''admin''] (Some e))
                         (sent (SshExec ip ''admin'' ''secret'' command 22 10) w)))"
  by (simp add: try_ssh_exec_def users_to_try_def creds_def ssh_exec_def sample_env_def
      split: sum.splits)

lemma sample_checks:
  "try_ssh_exec sample_env ''10.0.0.6'' (creds ''admin'' None) docker_check_command w sid tag =
     (Some ''NO_DOCKER'', sent (SshExec ''10.0.0.6'' ''admin'' ''secret'' docker_check_command 22 10) w)"
  "try_ssh_exec sample_env ''10.0.0.5'' (creds ''admin'' None) docker_check_command w sid tag =
     (Some (''/usr/bin/docker'' @ [CHR 0x0A] @ ''24.0.7''),
      sent (SshExec ''10.0.0.5'' ''admin'' ''secret'' docker_check_command 22 10) w)"
  by (simp_all add: sample_try_admin sample_ssh_def sample_commands strip_def is_space_def)

lemma strip_sample_listing:
  "strip sample_listing = line_a1 @ [CHR 0x0A] @ ''not-json'' @ [CHR 0x0A] @ line_b2"
  by (simp add: sample_listing_def strip_def is_space_def line_a1_def line_b2_def)

lemma sample_ps:
  "try_ssh_exec sample_env ''10.0.0.5'' (creds ''admin'' None) docker_ps_command w sid tag =
     (Some (line_a1 @ [CHR 0x0A] @ ''not-json'' @ [CHR 0x0A] @ line_b2),
      sent (SshExec ''10.0.0.5'' ''admin'' ''secret'' docker_ps_command 22 10) w)"
  by (simp add: sample_try_admin sample_ssh_def sample_commands strip_sample_listing)

lemma sample_hostname:
  "try_ssh_exec sample_env ''10.0.0.5'' (creds ''admin'' None) ''hostname'' w sid tag =
     (Some ''web'', sent (SshExec ''10.0.0.5'' ''admin'' ''secret'' ''hostname'' 22 10) w)"
  by (simp add: sample_try_admin sample_ssh_def strip_def is_space_def)

lemma sample_spec_lines:
  "spec_lines (line_a1 @ [CHR 0x0A] @ ''not-json'' @ [CHR 0x0A] @ line_b2) =
     [line_a1, ''not-json'', line_b2]"
  by (simp add: spec_lines_def strip_def is_space_def line_a1_def line_b2_def)

lemma sample_decoding:
  "json_loads sample_env line_a1 =
     Inr (JObj [(''id'', JStr ''a1''), (''name'', JStr ''web''), (''image'', JStr ''nginx:1.25''),
                (''state'', JStr ''running'')])"
  "json_loads sample_env ''not-json'' = Inl (JSONDecodeError ''Expecting value: line 1 column 1 (char 0)'')"
  "json_loads sample_env line_b2 =
     Inr (JObj [(''id'', JStr ''b2''), (''name'', JStr ''db''), (''image'', JStr ''postgres:16''),
                (''state'', JStr ''exited'')])"
  by (simp_all add: sample_env_def sample_loads_def line_a1_def line_b2_def)

lemma sample_listing_ok: "spec_listing_ok sample_env [line_a1, ''not-json'', line_b2]"
  by (simp add: spec_listing_ok_def malformed_def well_formed_def sample_decoding)

lemma sample_workloads:
  "spec_workloads sample_env ''10.0.0.5'' ''web'' [line_a1, ''not-json'', line_b2] =
     [spec_workload ''10.0.0.5'' ''web''
        [(''id'', JStr ''a1''), (''name'', JStr ''web''), (''image'', JStr ''nginx:1.25''),
         (''state'', JStr ''running'')],
      spec_workload ''10.0.0.5'' ''web''
        [(''id'', JStr ''b2''), (''name'', JStr ''db''), (''image'', JStr ''postgres:16''),
         (''state'', JStr ''exited'')]]"
  by (simp add: spec_workloads_def List.map_filter_def sample_decoding)

lemma sample_parse_errors:
  "spec_parse_errors sample_env 7 ''10.0.0.5'' [line_a1, ''not-json'', line_b2] =
     [docker_parse_error 7 ''10.0.0.5'' ''not-json'']"
  by (simp add: spec_parse_errors_def malformed_def sample_decoding)

lemma scan_docker_on_host_example:
  "fst (scan_docker_on_host sample_env ''10.0.0.6'' (creds ''admin'' None) fresh 7) = Inr []
   \<and> errors_list (snd (scan_docker_on_host sample_env ''10.0.0.6'' (creds ''admin'' None) fresh 7)) = []
   \<and> map (\<lambda>r. dict_get r ''container_id'' JNull)
        (projr (fst (scan_docker_on_host sample_env ''10.0.0.5'' (creds ''admin'' None) fresh 7)))
      = [JStr ''a1'', JStr ''b2'']
   \<and> errors_list (snd (scan_docker_on_host sample_env ''10.0.0.5'' (creds ''admin'' None) fresh 7))
      = [\<lparr>scan_id = 7, host_ip = ''10.0.0.5'', component = ''Docker-Parse'',
          error_message = ''Failed to parse Docker JSON from 10.0.0.5'',
          error_detail = ''not-json''\<rparr>]"
proof -
  let ?c = "creds ''admin'' None"
  have sentinel: "''NO_DOCKER'' = [] \<or> contains ''NO_DOCKER'' ''NO_DOCKER''"
    by (simp add: startswith_def)
  note none = scan_docker_on_host_listing[OF sample_checks(1)[where w=fresh and sid=7],
      THEN conjunct1, THEN mp, OF sentinel]
  have engine: "''/usr/bin/docker'' @ [CHR 0x0A] @ ''24.0.7'' \<noteq> [] \<and>
      \<not> contains (''/usr/bin/docker'' @ [CHR 0x0A] @ ''24.0.7'') ''NO_DOCKER''"
    by (simp add: startswith_def)
  have listing: "line_a1 @ [CHR 0x0A] @ ''not-json'' @ [CHR 0x0A] @ line_b2 \<noteq> []"
    by (simp add: line_a1_def)
  have ok: "spec_listing_ok sample_env
      (spec_lines (line_a1 @ [CHR 0x0A] @ ''not-json'' @ [CHR 0x0A] @ line_b2))"
    unfolding sample_spec_lines by (rule sample_listing_ok)
  note some = scan_docker_on_host_listing[OF sample_checks(2)[where w=fresh and sid=7],
      THEN conjunct2, THEN mp, OF engine, THEN spec, THEN spec, THEN spec, THEN spec, THEN mp,
      OF conjI [OF sample_ps conjI [OF listing conjI [OF sample_hostname ok]]]]
  have name: "display_name (Some ''web'') ''10.0.0.5'' = ''web''"
    by (simp add: display_name_def)
  note some' = some[unfolded sample_spec_lines name sample_workloads sample_parse_errors]
  have ids: "map (\<lambda>r. dict_get r ''container_id'' JNull)
        (projr (fst (scan_docker_on_host sample_env ''10.0.0.5'' ?c fresh 7))) = [JStr ''a1'', JStr ''b2'']"
    unfolding some' by (simp add: spec_workload_def dict_get_def)
  have errs: "errors_list (snd (scan_docker_on_host sample_env ''10.0.0.5'' ?c fresh 7))
      = [\<lparr>scan_id = 7, host_ip = ''10.0.0.5'', component = ''Docker-Parse'',
          error_message = ''Failed to parse Docker JSON from 10.0.0.5'',
          error_detail = ''not-json''\<rparr>]"
    unfolding some' by (simp add: sent_def fresh_def docker_parse_error_def)
  have empty: "fst (scan_docker_on_host sample_env ''10.0.0.6'' ?c fresh 7) = Inr []"
    unfolding none[THEN conjunct1] by simp
  have quiet: "errors_list (snd (scan_docker_on_host sample_env ''10.0.0.6'' ?c fresh 7)) = []"
    unfolding none[THEN conjunct1] by (simp add: sent_def fresh_def)
  from empty quiet ids errs show ?thesis by (intro conjI)
qed

text \<open>
  A line that decodes to something other than an object is neither malformed nor
  well-formed. The handler of the loop is for \<^verbatim>\<open>JSONDecodeError\<close> only, so such a
  line ends the inventory with an \<^verbatim>\<open>AttributeError\<close>, and so does a line on which
  the decoder raises anything else.
\<close>

lemma docker_lines_non_object:
  assumes "strip l \<noteq> []" and "json_loads E (strip l) = Inr c" and "\<forall>kvs. c \<noteq> JObj kvs"
  shows "docker_lines E ip hostname sid (l # ls) containers w = (Inl (no_attribute c ''get''), w)"
  using assms by (simp add: container_record_other)

lemma docker_lines_other_exception:
  assumes "strip l \<noteq> []" and "json_loads E (strip l) = Inl e" and "\<not> is_decode_error e"
  shows "docker_lines E ip hostname sid (l # ls) containers w = (Inl e, w)"
  using assms by simp

lemma odd_checks:
  "try_ssh_exec sample_env ''10.0.0.4'' (creds ''admin'' None) docker_check_command w sid tag =
     (Some (''/usr/bin/docker'' @ [CHR 0x0A] @ ''24.0.7''),
      sent (SshExec ''10.0.0.4'' ''admin'' ''secret'' docker_check_command 22 10) w)"
  "try_ssh_exec sample_env ''10.0.0.4'' (creds ''admin'' None) docker_ps_command w sid tag =
     (Some (line_a1 @ [CHR 0x0A] @ ''42'' @ [CHR 0x0A] @ line_b2),
      sent (SshExec ''10.0.0.4'' ''admin'' ''secret'' docker_ps_command 22 10) w)"
  "try_ssh_exec sample_env ''10.0.0.4'' (creds ''admin'' None) ''hostname'' w sid tag =
     (Some ''pve'', sent (SshExec ''10.0.0.4'' ''admin'' ''secret'' ''hostname'' 22 10) w)"
  by (simp_all add: sample_try_admin sample_ssh_def sample_commands strip_def is_space_def
      odd_listing_def line_a1_def line_b2_def)

lemma odd_lines:
  "split (CHR 0x0A) (strip (line_a1 @ [CHR 0x0A] @ ''42'' @ [CHR 0x0A] @ line_b2)) =
     [line_a1, ''42'', line_b2]"
  "strip line_a1 = line_a1" "strip ''42'' = ''42''" "strip line_b2 = line_b2"
  by (simp_all add: strip_def is_space_def line_a1_def line_b2_def)

text \<open>
  Claim C3, where the code fails it. The listing of \<^verbatim>\<open>10.0.0.4\<close> has three lines: a
  container, the line \<^verbatim>\<open>42\<close>, a container. The two container lines are well-formed,
  and the line between them decodes, to a number. The inventory gives no record for the
  two containers and records no \<^verbatim>\<open>Docker-Parse\<close> entry: it ends with the
  \<^verbatim>\<open>AttributeError\<close> of the second line, after the three commands.
\<close>

theorem non_object_line_ends_inventory:
  "spec_lines (line_a1 @ [CHR 0x0A] @ ''42'' @ [CHR 0x0A] @ line_b2) = [line_a1, ''42'', line_b2]
   \<and> well_formed sample_env line_a1
   \<and> json_loads sample_env ''42'' = Inr (JInt 42)
   \<and> well_formed sample_env line_b2
   \<and> scan_docker_on_host sample_env ''10.0.0.4'' (creds ''admin'' None) fresh 7 =
       (Inl (no_attribute (JInt 42) ''get''),
        \<lparr>errors_list = [],
         calls = [SshExec ''10.0.0.4'' ''admin'' ''secret'' docker_check_command 22 10,
                  SshExec ''10.0.0.4'' ''admin'' ''secret'' docker_ps_command 22 10,
                  SshExec ''10.0.0.4'' ''admin'' ''secret'' ''hostname'' 22 10]\<rparr>)"
proof -
  have lines: "spec_lines (line_a1 @ [CHR 0x0A] @ ''42'' @ [CHR 0x0A] @ line_b2) = [line_a1, ''42'', line_b2]"
    by (simp add: spec_lines_def strip_def is_space_def line_a1_def line_b2_def)
  have a1: "well_formed sample_env line_a1" and b2: "well_formed sample_env line_b2"
    by (simp_all add: well_formed_def sample_decoding)
  have n: "json_loads sample_env ''42'' = Inr (JInt 42)"
    by (simp add: sample_env_def sample_loads_def line_a1_def line_b2_def)
  have engine: "\<not> contains (''/usr/bin/docker'' @ [CHR 0x0A] @ ''24.0.7'') ''NO_DOCKER''"
    by (simp add: startswith_def)
  have listing: "line_a1 @ [CHR 0x0A] @ ''42'' @ [CHR 0x0A] @ line_b2 \<noteq> []"
    by (simp add: line_a1_def)
  have loop: "docker_lines sample_env ''10.0.0.4'' ''pve'' 7 [line_a1, ''42'', line_b2] [] w =
      (Inl (no_attribute (JInt 42) ''get''), w)" for w
    by (simp add: odd_lines sample_decoding n container_record_obj container_record_other)
  have run: "scan_docker_on_host sample_env ''10.0.0.4'' (creds ''admin'' None) fresh 7 =
      (Inl (no_attribute (JInt 42) ''get''),
       sent (SshExec ''10.0.0.4'' ''admin'' ''secret'' ''hostname'' 22 10)
         (sent (SshExec ''10.0.0.4'' ''admin'' ''secret'' docker_ps_command 22 10)
            (sent (SshExec ''10.0.0.4'' ''admin'' ''secret'' docker_check_command 22 10) fresh)))"
  proof -
    have "scan_docker_on_host sample_env ''10.0.0.4'' (creds ''admin'' None) fresh 7 =
        docker_lines sample_env ''10.0.0.4'' ''pve'' 7
          (split (CHR 0x0A) (strip (line_a1 @ [CHR 0x0A] @ ''42'' @ [CHR 0x0A] @ line_b2))) []
          (sent (SshExec ''10.0.0.4'' ''admin'' ''secret'' ''hostname'' 22 10)
            (sent (SshExec ''10.0.0.4'' ''admin'' ''secret'' docker_ps_command 22 10)
              (sent (SshExec ''10.0.0.4'' ''admin'' ''secret'' docker_check_command 22 10) fresh)))"
      unfolding scan_docker_on_host_def odd_checks
      using engine listing by simp
    also have "\<dots> = (Inl (no_attribute (JInt 42) ''get''),
       sent (SshExec ''10.0.0.4'' ''admin'' ''secret'' ''hostname'' 22 10)
         (sent (SshExec ''10.0.0.4'' ''admin'' ''secret'' docker_ps_command 22 10)
            (sent (SshExec ''10.0.0.4'' ''admin'' ''secret'' docker_check_command 22 10) fresh)))"
      unfolding odd_lines(1) by (rule loop)
    finally show ?thesis .
  qed
  have "scan_docker_on_host sample_env ''10.0.0.4'' (creds ''admin'' None) fresh 7 =
       (Inl (no_attribute (JInt 42) ''get''),
        \<lparr>errors_list = [],
         calls = [SshExec ''10.0.0.4'' ''admin'' ''secret'' docker_check_command 22 10,
                  SshExec ''10.0.0.4'' ''admin'' ''secret'' docker_ps_command 22 10,
                  SshExec ''10.0.0.4'' ''admin'' ''secret'' ''hostname'' 22 10]\<rparr>)"
    unfolding run by (simp add: sent_def fresh_def)
  with lines a1 n b2 show ?thesis by (intro conjI)
qed

subsection \<open>The hub\<close>

lemma is_dictD: "is_dict v \<Longrightarrow> \<exists>kvs. v = JObj kvs"
  by (cases v) (simp_all add: is_dict_def)

lemma spec_entity_okD:
  assumes "spec_entity_ok s"
  shows "\<exists>kvs i. s = JObj kvs \<and> map_of kvs ''entity_id'' = Some (JStr i) \<and>
           (startswith i ''update.'' \<longrightarrow> is_dict (dict_get kvs ''attributes'' (JObj []))) \<and>
           (startswith i ''update.'' \<longrightarrow> spec_selected s \<longrightarrow> map_of kvs ''state'' \<noteq> None)"
proof (cases s)
  case (JObj kvs)
  show ?thesis
  proof (cases "map_of kvs ''entity_id''")
    case None
    with assms JObj show ?thesis by (simp add: spec_entity_ok_def)
  next
    case (Some v)
    show ?thesis
    proof (cases v)
      case (JStr i)
      with assms JObj Some show ?thesis
        by (simp add: spec_entity_ok_def)
    qed (use assms JObj Some in \<open>simp_all add: spec_entity_ok_def\<close>)
  qed
qed (use assms in \<open>simp_all add: spec_entity_ok_def\<close>)

lemma update_entities_spec:
  "list_all spec_entity_ok ss \<Longrightarrow>
   update_entities ss = Inr (filter (\<lambda>s. startswith (entity_id_of s) ''update.'') ss)"
proof (induction ss)
  case Nil
  show ?case by simp
next
  case (Cons s ss)
  then have ok: "spec_entity_ok s" and IH: "update_entities ss = Inr (filter (\<lambda>s. startswith (entity_id_of s) ''update.'') ss)"
    by simp_all
  from ok obtain kvs i where s: "s = JObj kvs" and i: "map_of kvs ''entity_id'' = Some (JStr i)"
    using spec_entity_okD by blast
  show ?case
    by (simp add: s i IH py_getitem_def py_startswith_def entity_id_of_def)
qed

lemma addon_record_spec:
  assumes ok: "spec_entity_ok s" and upd: "startswith (entity_id_of s) ''update.''"
  shows "addon_record E ip ha_name s =
     Inr (if spec_selected s then Some (spec_addon E ip ha_name s) else None)"
proof -
  from ok obtain kvs i where s: "s = JObj kvs" and i: "map_of kvs ''entity_id'' = Some (JStr i)"
    and d: "startswith i ''update.'' \<longrightarrow> is_dict (dict_get kvs ''attributes'' (JObj []))"
    and p: "startswith i ''update.'' \<longrightarrow> spec_selected s \<longrightarrow> map_of kvs ''state'' \<noteq> None"
    using spec_entity_okD by blast
  have eid: "entity_id_of (JObj kvs) = i" by (simp add: entity_id_of_def i)
  from upd have upd': "startswith i ''update.''" by (simp add: s eid)
  from is_dictD[OF d[THEN mp, OF upd']] obtain attrs where attrs: "dict_get kvs ''attributes'' (JObj []) = JObj attrs"
    by blast
  have attr: "attribute_of (JObj kvs) k d = dict_get attrs k d" for k d
    by (simp add: attribute_of_def attrs)
  have sel: "spec_selected (JObj kvs) \<longleftrightarrow>
      py_truthy (dict_get attrs ''title'' JNull) \<and> \<not> contains i ''_firmware'' \<and> contains i ''_update''"
    unfolding spec_selected_def eid attr using upd' by simp
  have start: "addon_record E ip ha_name (JObj kvs) =
     (if \<not> py_truthy (dict_get attrs ''title'' JNull) then Inr None
      else if contains i ''_firmware'' then Inr None
      else if \<not> contains i ''_update'' then Inr None
      else (case py_getitem (JObj kvs) ''state'' of
              Inl e \<Rightarrow> Inl e
            | Inr st \<Rightarrow>
                Inr (Some
                  [(''host_ip'', JStr ip),
                   (''host_name'', JStr (py_str E ha_name @ '' (HAOS)'')),
                   (''container_id'', JStr i),
                   (''name'', dict_get attrs ''title'' JNull),
                   (''image'', JStr (''ha-addon/'' @ replace (replace i ''update.'' []) ''_update'' [])),
                   (''status'', JStr (status_detail E st (dict_get attrs ''installed_version'' (JStr ''?''))
                                        (dict_get attrs ''latest_version'' (JStr ''?'')))),
                   (''state'', JStr (state_str st)),
                   (''ports'', JStr []),
                   (''created_at'', JStr []),
                   (''networks'', JStr ''hassio''),
                   (''mounts'', JStr [])])))"
    by (simp add: addon_record_def py_get_def attrs py_getitem_def i)
  show ?thesis
  proof (cases "spec_selected (JObj kvs)")
    case False
    then show ?thesis unfolding s start using sel by auto
  next
    case True
    with p upd' obtain st where st: "map_of kvs ''state'' = Some st"
      by (auto simp: s)
    have state: "state_of (JObj kvs) = st" by (simp add: state_of_def dict_get_def st)
    have status: "spec_status E (JObj kvs) =
        status_detail E st (dict_get attrs ''installed_version'' (JStr ''?''))
          (dict_get attrs ''latest_version'' (JStr ''?''))"
      by (simp add: spec_status_def status_detail_def attr state)
    have st_str: "spec_state (JObj kvs) = state_str st"
      by (simp add: spec_state_def state_str_def state)
    have rec: "spec_addon E ip ha_name (JObj kvs) =
        [(''host_ip'', JStr ip),
         (''host_name'', JStr (py_str E ha_name @ '' (HAOS)'')),
         (''container_id'', JStr i),
         (''name'', dict_get attrs ''title'' JNull),
         (''image'', JStr (''ha-addon/'' @ replace (replace i ''update.'' []) ''_update'' [])),
         (''status'', JStr (status_detail E st (dict_get attrs ''installed_version'' (JStr ''?''))
                              (dict_get attrs ''latest_version'' (JStr ''?'')))),
         (''state'', JStr (state_str st)),
         (''ports'', JStr []),
         (''created_at'', JStr []),
         (''networks'', JStr ''hassio''),
         (''mounts'', JStr [])]"
      by (simp add: spec_addon_def eid attr status st_str)
    from True sel show ?thesis
      unfolding s start rec by (simp add: py_getitem_def st)
  qed
qed

lemma addon_records_spec:
  assumes "list_all spec_entity_ok us" and "list_all (\<lambda>s. startswith (entity_id_of s) ''update.'') us"
  shows "addon_records E ip ha_name us = Inr (map (spec_addon E ip ha_name) (filter spec_selected us))"
  using assms
proof (induction us)
  case Nil
  show ?case by simp
next
  case (Cons u us)
  then have ok: "spec_entity_ok u" and upd: "startswith (entity_id_of u) ''update.''"
    and IH: "addon_records E ip ha_name us = Inr (map (spec_addon E ip ha_name) (filter spec_selected us))"
    by simp_all
  show ?case
    by (simp add: addon_record_spec[OF ok upd] IH)
qed

lemma filter_selected_updates:
  "filter (\<lambda>s. startswith (entity_id_of s) ''update.'' \<and> spec_selected s) ss = filter spec_selected ss"
  by (rule filter_cong) (auto simp: spec_selected_def)

lemma addons_spec:
  assumes "list_all spec_entity_ok ss"
  shows "addons E ip (JObj conf) (JArr ss) =
     Inr (map (spec_addon E ip (dict_get conf ''location_name'' (JStr ''Home Assistant'')))
            (filter spec_selected ss))"
proof -
  let ?us = "filter (\<lambda>s. startswith (entity_id_of s) ''update.'') ss"
  have 1: "list_all spec_entity_ok ?us" using assms by (simp add: list_all_iff)
  have 2: "list_all (\<lambda>s. startswith (entity_id_of s) ''update.'') ?us" by (simp add: list_all_iff)
  show ?thesis
    by (simp add: addons_def py_get_def py_iter_def update_entities_spec[OF assms]
        addon_records_spec[OF 1 2] filter_selected_updates)
qed

text \<open>
  Claim C5, as amended. The state listing holds state entities as the hub reports them:
  objects with a string identifier, where the attributes of an update entity, when it has
  any, are an object, and a selected entity has a state. From such a listing the collector
  selects exactly the entities whose identifier starts with \<^verbatim>\<open>update.\<close>, has no
  firmware marker and has an update suffix, and whose title is not empty. Each one gives
  one record; its state is \<^verbatim>\<open>unavailable\<close> for an unavailable entity,
  \<^verbatim>\<open>update_available\<close> for the state \<^verbatim>\<open>on\<close>, and \<^verbatim>\<open>running\<close> otherwise; its
  status is the installed version after \<^verbatim>\<open>v\<close>, followed by the arrow and the latest
  version exactly when the state is \<^verbatim>\<open>on\<close> and the latest version is true as a
  condition: it is not null, false, zero or empty. An entity without an installed or a
  latest version has the placeholder \<^verbatim>\<open>?\<close> in its place, so that a pending update
  without a latest version reads \<^verbatim>\<open>v1.0 -> ?\<close>.
\<close>

theorem hub_collects_addons:
  assumes config: "ha_get E (hub_url cfg @ ''/api/config'') (ha_token cfg) 15 w = (Inr (JObj conf), w1)"
    and states: "ha_get E (hub_url cfg @ ''/api/states'') (ha_token cfg) 30 w1 = (Inr (JArr ss), w2)"
    and listing: "list_all spec_entity_ok ss"
  shows "scan_homeassistant E cfg sid w =
           (Inr (map (spec_addon E (ha_ip cfg) (dict_get conf ''location_name'' (JStr ''Home Assistant'')))
                   (filter spec_selected ss)), w2)
       \<and> errors_list w2 = errors_list w"
proof
  show "scan_homeassistant E cfg sid w =
           (Inr (map (spec_addon E (ha_ip cfg) (dict_get conf ''location_name'' (JStr ''Home Assistant'')))
                   (filter spec_selected ss)), w2)"
    using config states
    by (simp add: scan_homeassistant_def hub_url_def Let_def addons_spec[OF listing])
  show "errors_list w2 = errors_list w"
    using config states by (auto simp: ha_get_def Let_def sent_def)
qed

lemma sample_hub_requests:
  "ha_get sample_env (hub_url (hub ''10.0.0.20'') @ ''/api/config'') (ha_token (hub ''10.0.0.20'')) 15 fresh
     = (Inr (JObj [(''location_name'', JStr ''Home'')]),
        sent (HttpGetBearer ''http://10.0.0.20:8123/api/config'' ''TOKEN'' 15) fresh)"
  "ha_get sample_env (hub_url (hub ''10.0.0.20'') @ ''/api/states'') (ha_token (hub ''10.0.0.20'')) 30
       (sent (HttpGetBearer ''http://10.0.0.20:8123/api/config'' ''TOKEN'' 15) fresh)
     = (Inr (JArr [JObj [(''entity_id'', JStr ''update.addon_foo_update''), (''state'', JStr ''on''),
                     (''attributes'', JObj [(''title'', JStr ''Foo''),
                                            (''installed_version'', JStr ''1.0''),
                                            (''latest_version'', JStr ''1.1'')])],
               JObj [(''entity_id'', JStr ''update.device_firmware''), (''state'', JStr ''off''),
                     (''attributes'', JObj [(''title'', JStr ''Device''),
                                            (''installed_version'', JStr ''3''),
                                            (''latest_version'', JStr ''3'')])],
               JObj [(''entity_id'', JStr ''sensor.temperature''), (''state'', JStr ''21.5'')]]),
        sent (HttpGetBearer ''http://10.0.0.20:8123/api/states'' ''TOKEN'' 30)
          (sent (HttpGetBearer ''http://10.0.0.20:8123/api/config'' ''TOKEN'' 15) fresh))"
  by (simp_all add: ha_get_def hub_url_def hub_def dec_samples sample_env_def sample_http_def
      sample_hub_def Let_def sent_def fresh_def)

lemmas hub_simps =
  spec_selected_def entity_id_of_def attribute_of_def state_of_def dict_get_def startswith_def
  spec_entity_ok_def is_dict_def

lemma sample_hub_entities:
  "list_all spec_entity_ok
     [JObj [(''entity_id'', JStr ''update.addon_foo_update''), (''state'', JStr ''on''),
            (''attributes'', JObj [(''title'', JStr ''Foo''),
                                   (''installed_version'', JStr ''1.0''),
                                   (''latest_version'', JStr ''1.1'')])],
      JObj [(''entity_id'', JStr ''update.device_firmware''), (''state'', JStr ''off''),
            (''attributes'', JObj [(''title'', JStr ''Device''),
                                   (''installed_version'', JStr ''3''),
                                   (''latest_version'', JStr ''3'')])],
      JObj [(''entity_id'', JStr ''sensor.temperature''), (''state'', JStr ''21.5'')]]"
  by (simp add: hub_simps)

lemma sample_hub_selected:
  "filter spec_selected
     [JObj [(''entity_id'', JStr ''update.addon_foo_update''), (''state'', JStr ''on''),
            (''attributes'', JObj [(''title'', JStr ''Foo''),
                                   (''installed_version'', JStr ''1.0''),
                                   (''latest_version'', JStr ''1.1'')])],
      JObj [(''entity_id'', JStr ''update.device_firmware''), (''state'', JStr ''off''),
            (''attributes'', JObj [(''title'', JStr ''Device''),
                                   (''installed_version'', JStr ''3''),
                                   (''latest_version'', JStr ''3'')])],
      JObj [(''entity_id'', JStr ''sensor.temperature''), (''state'', JStr ''21.5'')]]
   = [JObj [(''entity_id'', JStr ''update.addon_foo_update''), (''state'', JStr ''on''),
            (''attributes'', JObj [(''title'', JStr ''Foo''),
                                   (''installed_version'', JStr ''1.0''),
                                   (''latest_version'', JStr ''1.1'')])]]"
  by (simp add: hub_simps)

lemma sample_hub_requests_22:
  "ha_get sample_env (hub_url (hub ''10.0.0.22'') @ ''/api/config'') (ha_token (hub ''10.0.0.22'')) 15 fresh
     = (Inr (JObj []),
        sent (HttpGetBearer ''http://10.0.0.22:8123/api/config'' ''TOKEN'' 15) fresh)"
  "ha_get sample_env (hub_url (hub ''10.0.0.22'') @ ''/api/states'') (ha_token (hub ''10.0.0.22'')) 30
       (sent (HttpGetBearer ''http://10.0.0.22:8123/api/config'' ''TOKEN'' 15) fresh)
     = (Inr (JArr [JObj [(''entity_id'', JStr ''update.addon_baz_update''), (''state'', JStr ''on''),
                     (''attributes'', JObj [(''title'', JStr ''Baz''),
                                            (''installed_version'', JStr ''1.0'')])],
               JObj [(''entity_id'', JStr ''update.addon_qux_update''), (''state'', JStr ''on''),
                     (''attributes'', JObj [(''title'', JStr ''Qux''),
                                            (''installed_version'', JStr ''1.0''),
                                            (''latest_version'', JInt 0)])],
               JObj [(''entity_id'', JStr ''update.core_update''), (''state'', JStr ''unavailable''),
                     (''attributes'', JObj [(''title'', JStr ''Core''),
                                            (''installed_version'', JFloat NegZero),
                                            (''latest_version'', JStr ''2026.1'')])],
               JObj [(''entity_id'', JStr ''update.os_update''), (''state'', JStr ''off''),
                     (''attributes'', JObj [(''title'', JStr ''OS''),
                                            (''installed_version'', JFloat (Finite 0)),
                                            (''latest_version'', JFloat (Finite 0))])]]),
        sent (HttpGetBearer ''http://10.0.0.22:8123/api/states'' ''TOKEN'' 30)
          (sent (HttpGetBearer ''http://10.0.0.22:8123/api/config'' ''TOKEN'' 15) fresh))"
  by (simp_all add: ha_get_def hub_url_def hub_def dec_samples sample_env_def sample_http_def
      sample_hub_def Let_def sent_def fresh_def)

lemma sample_hub_entities_22:
  "list_all spec_entity_ok
     [JObj [(''entity_id'', JStr ''update.addon_baz_update''), (''state'', JStr ''on''),
            (''attributes'', JObj [(''title'', JStr ''Baz''),
                                   (''installed_version'', JStr ''1.0'')])],
      JObj [(''entity_id'', JStr ''update.addon_qux_update''), (''state'', JStr ''on''),
            (''attributes'', JObj [(''title'', JStr ''Qux''),
                                   (''installed_version'', JStr ''1.0''),
                                   (''latest_version'', JInt 0)])],
      JObj [(''entity_id'', JStr ''update.core_update''), (''state'', JStr ''unavailable''),
            (''attributes'', JObj [(''title'', JStr ''Core''),
                                   (''installed_version'', JFloat NegZero),
                                   (''latest_version'', JStr ''2026.1'')])],
      JObj [(''entity_id'', JStr ''update.os_update''), (''state'', JStr ''off''),
            (''attributes'', JObj [(''title'', JStr ''OS''),
                                   (''installed_version'', JFloat (Finite 0)),
                                   (''latest_version'', JFloat (Finite 0))])]]"
  by (simp add: hub_simps)

lemma sample_hub_selected_22:
  "filter spec_selected
     [JObj [(''entity_id'', JStr ''update.addon_baz_update''), (''state'', JStr ''on''),
            (''attributes'', JObj [(''title'', JStr ''Baz''),
                                   (''installed_version'', JStr ''1.0'')])],
      JObj [(''entity_id'', JStr ''update.addon_qux_update''), (''state'', JStr ''on''),
            (''attributes'', JObj [(''title'', JStr ''Qux''),
                                   (''installed_version'', JStr ''1.0''),
                                   (''latest_version'', JInt 0)])],
      JObj [(''entity_id'', JStr ''update.core_update''), (''state'', JStr ''unavailable''),
            (''attributes'', JObj [(''title'', JStr ''Core''),
                                   (''installed_version'', JFloat NegZero),
                                   (''latest_version'', JStr ''2026.1'')])],
      JObj [(''entity_id'', JStr ''update.os_update''), (''state'', JStr ''off''),
            (''attributes'', JObj [(''title'', JStr ''OS''),
                                   (''installed_version'', JFloat (Finite 0)),
                                   (''latest_version'', JFloat (Finite 0))])]]
   = [JObj [(''entity_id'', JStr ''update.addon_baz_update''), (''state'', JStr ''on''),
            (''attributes'', JObj [(''title'', JStr ''Baz''),
                                   (''installed_version'', JStr ''1.0'')])],
      JObj [(''entity_id'', JStr ''update.addon_qux_update''), (''state'', JStr ''on''),
            (''attributes'', JObj [(''title'', JStr ''Qux''),
                                   (''installed_version'', JStr ''1.0''),
                                   (''latest_version'', JInt 0)])],
      JObj [(''entity_id'', JStr ''update.core_update''), (''state'', JStr ''unavailable''),
            (''attributes'', JObj [(''title'', JStr ''Core''),
                                   (''installed_version'', JFloat NegZero),
                                   (''latest_version'', JStr ''2026.1'')])],
      JObj [(''entity_id'', JStr ''update.os_update''), (''state'', JStr ''off''),
            (''attributes'', JObj [(''title'', JStr ''OS''),
                                   (''installed_version'', JFloat (Finite 0)),
                                   (''latest_version'', JFloat (Finite 0))])]]"
  by (simp add: hub_simps)

theorem hub_collects_addons_witness:
  "map (\<lambda>r. (dict_get r ''container_id'' JNull, dict_get r ''state'' JNull, dict_get r ''status'' JNull))
     (projr (fst (scan_homeassistant sample_env (hub ''10.0.0.20'') 7 fresh)))
   = [(JStr ''update.addon_foo_update'', JStr ''update_available'', JStr ''v1.0 -> 1.1'')]
   \<and> errors_list (snd (scan_homeassistant sample_env (hub ''10.0.0.20'') 7 fresh)) = []
   \<and> map (\<lambda>r. (dict_get r ''container_id'' JNull, dict_get r ''state'' JNull, dict_get r ''status'' JNull))
       (projr (fst (scan_homeassistant sample_env (hub ''10.0.0.22'') 7 fresh)))
     = [(JStr ''update.addon_baz_update'', JStr ''update_available'', JStr ''v1.0 -> ?''),
        (JStr ''update.addon_qux_update'', JStr ''update_available'', JStr ''v1.0''),
        (JStr ''update.core_update'', JStr ''unavailable'', JStr ''v-0.0''),
        (JStr ''update.os_update'', JStr ''running'', JStr ''v0.0'')]"
proof -
  note run = hub_collects_addons[OF sample_hub_requests(1) sample_hub_requests(2) sample_hub_entities,
      of 7, unfolded sample_hub_selected]
  note run22 = hub_collects_addons[OF sample_hub_requests_22(1) sample_hub_requests_22(2)
      sample_hub_entities_22, of 7, unfolded sample_hub_selected_22]
  have records: "map (\<lambda>r. (dict_get r ''container_id'' JNull, dict_get r ''state'' JNull, dict_get r ''status'' JNull))
     (projr (fst (scan_homeassistant sample_env (hub ''10.0.0.20'') 7 fresh)))
   = [(JStr ''update.addon_foo_update'', JStr ''update_available'', JStr ''v1.0 -> 1.1'')]"
    unfolding run[THEN conjunct1]
    by (simp add: spec_addon_def spec_state_def spec_status_def entity_id_of_def attribute_of_def
        state_of_def dict_get_def py_str_def)
  have quiet: "errors_list (snd (scan_homeassistant sample_env (hub ''10.0.0.20'') 7 fresh)) = []"
    unfolding run[THEN conjunct1] by (simp add: sent_def fresh_def)
  have edge: "map (\<lambda>r. (dict_get r ''container_id'' JNull, dict_get r ''state'' JNull, dict_get r ''status'' JNull))
       (projr (fst (scan_homeassistant sample_env (hub ''10.0.0.22'') 7 fresh)))
     = [(JStr ''update.addon_baz_update'', JStr ''update_available'', JStr ''v1.0 -> ?''),
        (JStr ''update.addon_qux_update'', JStr ''update_available'', JStr ''v1.0''),
        (JStr ''update.core_update'', JStr ''unavailable'', JStr ''v-0.0''),
        (JStr ''update.os_update'', JStr ''running'', JStr ''v0.0'')]"
    unfolding run22[THEN conjunct1]
    by (simp add: spec_addon_def spec_state_def spec_status_def entity_id_of_def attribute_of_def
        state_of_def dict_get_def py_str_def sample_env_def)
  from records quiet edge show ?thesis by (intro conjI)
qed

text \<open>
  The claim as it was worded fails where the state is \<^verbatim>\<open>on\<close> and no latest version is
  given: the record of such an entity has the status of the installed version alone.
\<close>

theorem hub_status_counterexample:
  "map (\<lambda>r. (dict_get r ''state'' JNull, dict_get r ''status'' JNull))
     (projr (fst (scan_homeassistant sample_env (hub ''10.0.0.21'') 7 fresh)))
   = [(JStr ''update_available'', JStr ''v2.0'')]
   \<and> claimed_status sample_env
       (JObj [(''entity_id'', JStr ''update.addon_bar_update''), (''state'', JStr ''on''),
              (''attributes'', JObj [(''title'', JStr ''Bar''),
                                     (''installed_version'', JStr ''2.0''),
                                     (''latest_version'', JNull)])])
     = ''v2.0 -> None''"
proof
  show "map (\<lambda>r. (dict_get r ''state'' JNull, dict_get r ''status'' JNull))
     (projr (fst (scan_homeassistant sample_env (hub ''10.0.0.21'') 7 fresh)))
   = [(JStr ''update_available'', JStr ''v2.0'')]"
    by (simp add: scan_homeassistant_def ha_get_def hub_def dec_samples sample_env_def
        sample_http_def sample_hub_def Let_def addons_def py_get_def py_iter_def py_getitem_def
        py_startswith_def startswith_def addon_record_def dict_get_def status_detail_def
        state_str_def py_str_def)
  show "claimed_status sample_env
       (JObj [(''entity_id'', JStr ''update.addon_bar_update''), (''state'', JStr ''on''),
              (''attributes'', JObj [(''title'', JStr ''Bar''),
                                     (''installed_version'', JStr ''2.0''),
                                     (''latest_version'', JNull)])])
     = ''v2.0 -> None''"
    by (simp add: claimed_status_def attribute_of_def state_of_def dict_get_def py_str_def)
qed

subsection \<open>One hypervisor host\<close>

lemma proxmox_authenticate_world:
  "proxmox_authenticate E host port user password w = (r, w') \<Longrightarrow>
   w' = sent (HttpPost (''https://'' @ host @ '':'' @ dec_int port @ ''/api2/json/access/ticket'')
               [(''username'', user), (''password'', password)]) w"
  by (auto simp: proxmox_authenticate_def Let_def split: sum.splits)

lemma sent_errors [simp]: "errors_list (sent rq w) = errors_list w"
  by (simp add: sent_def)

lemma sent_calls [simp]: "calls (sent rq w) = calls w @ [rq]"
  by (simp add: sent_def)

lemma log_error_errors [simp]: "errors_list (log_error e w) = errors_list w @ [e]"
  by (simp add: log_error_def)

lemma log_error_calls [simp]: "calls (log_error e w) = calls w"
  by (simp add: log_error_def)




lemma proxmox_api_world:
  "proxmox_api E host port ticket endpoint w = (r, w') \<Longrightarrow>
   errors_list w' = errors_list w \<and>
   calls w' = calls w @ [HttpGetCookie (''https://'' @ host @ '':'' @ dec_int port @ ''/api2/json'' @ endpoint) ticket]"
  by (auto simp: proxmox_api_def Let_def split: sum.splits)

text \<open>
  Claim C4, as amended. After a successful authentication, a node listing that fails ends
  the scan of the host with an empty result and exactly one \<^verbatim>\<open>Proxmox-Nodes\<close> entry in
  the error log; a node listing that comes back empty ends it with an empty result too,
  and the error log is left as it was. In both cases the node listing is the last request
  sent for the host.
\<close>

theorem node_listing_stops_host:
  assumes auth: "proxmox_authenticate E (pve_ip cfg) (case pve_port cfg of None \<Rightarrow> 8006 | Some p \<Rightarrow> p)
                   (pve_user cfg) (pve_password cfg) w = (Inr (ticket, csrf), w1)"
    and version: "proxmox_api E (pve_ip cfg) (case pve_port cfg of None \<Rightarrow> 8006 | Some p \<Rightarrow> p)
                   ticket ''/version'' w1 = (v, w2)"
  shows "(\<forall>e w3. proxmox_api E (pve_ip cfg) (case pve_port cfg of None \<Rightarrow> 8006 | Some p \<Rightarrow> p)
                    ticket ''/nodes'' w2 = (Inl e, w3) \<longrightarrow>
            (\<exists>w' err.
               scan_proxmox_host E cfg c sid w opts = (Inr empty_result, w') \<and>
               errors_list w' = errors_list w @ [err] \<and>
               component err = ''Proxmox-Nodes'' \<and> host_ip err = pve_ip cfg \<and> scan_id err = sid \<and>
               error_message err = ''Failed to get nodes from '' @ pve_ip cfg @ '': '' @ exn_str e \<and>
               calls w' = calls w3))
       \<and> (\<forall>nodes w3. proxmox_api E (pve_ip cfg) (case pve_port cfg of None \<Rightarrow> 8006 | Some p \<Rightarrow> p)
                    ticket ''/nodes'' w2 = (Inr nodes, w3) \<and> \<not> py_truthy nodes \<longrightarrow>
            scan_proxmox_host E cfg c sid w opts = (Inr empty_result, w3) \<and>
            errors_list w3 = errors_list w)"
proof (intro conjI allI impI)
  have e1: "errors_list w1 = errors_list w"
    using proxmox_authenticate_world[OF auth] by simp
  have e2: "errors_list w2 = errors_list w1"
    using proxmox_api_world[OF version] by simp
  {
    fix e w3
    assume nodes: "proxmox_api E (pve_ip cfg) (case pve_port cfg of None \<Rightarrow> 8006 | Some p \<Rightarrow> p)
                    ticket ''/nodes'' w2 = (Inl e, w3)"
    let ?err = "failure E sid (pve_ip cfg) ''Proxmox-Nodes'' (''Failed to get nodes from '' @ pve_ip cfg) e"
    have run: "scan_proxmox_host E cfg c sid w opts = (Inr empty_result, log_error ?err w3)"
      using auth version nodes by (simp add: scan_proxmox_host_def Let_def)
    have e3: "errors_list w3 = errors_list w"
      using proxmox_api_world[OF nodes] e1 e2 by simp
    show "\<exists>w' err.
               scan_proxmox_host E cfg c sid w opts = (Inr empty_result, w') \<and>
               errors_list w' = errors_list w @ [err] \<and>
               component err = ''Proxmox-Nodes'' \<and> host_ip err = pve_ip cfg \<and> scan_id err = sid \<and>
               error_message err = ''Failed to get nodes from '' @ pve_ip cfg @ '': '' @ exn_str e \<and>
               calls w' = calls w3"
      apply (rule exI[of _ "log_error ?err w3"])
      apply (rule exI[of _ ?err])
      apply (simp add: run e3 failure_def)
      done
  }
  {
    fix nodes w3
    assume nodes: "proxmox_api E (pve_ip cfg) (case pve_port cfg of None \<Rightarrow> 8006 | Some p \<Rightarrow> p)
                    ticket ''/nodes'' w2 = (Inr nodes, w3) \<and> \<not> py_truthy nodes"
    show "scan_proxmox_host E cfg c sid w opts = (Inr empty_result, w3)"
      using auth version nodes by (simp add: scan_proxmox_host_def Let_def)
    show "errors_list w3 = errors_list w"
      using proxmox_api_world[OF nodes[THEN conjunct1]] e1 e2 by simp
  }
qed

lemma sample_auth_granted:
  "ip \<in> set [''10.0.0.1'', ''10.0.0.7'', ''10.0.0.8''] \<Longrightarrow>
   proxmox_authenticate sample_env (pve_ip (pve ip))
     (case pve_port (pve ip) of None \<Rightarrow> 8006 | Some p \<Rightarrow> p)
     (pve_user (pve ip)) (pve_password (pve ip)) w
   = (Inr (JStr ''PVE:root@pam:65F0'', JStr ''65F0:csrf''),
      sent (HttpPost (''https://'' @ ip @ '':8006/api2/json/access/ticket'')
              [(''username'', ''root@pam''), (''password'', ''pw'')]) w)"
  by (auto simp: proxmox_authenticate_def pve_def dec_samples sample_env_def sample_http_def Let_def
      obj_def py_getitem_def)

lemma sample_no_version:
  "ip \<in> set [''10.0.0.7'', ''10.0.0.8''] \<Longrightarrow>
   proxmox_api sample_env (pve_ip (pve ip)) (case pve_port (pve ip) of None \<Rightarrow> 8006 | Some p \<Rightarrow> p)
     t ''/version'' w
   = (Inl (ExternalError ''500 Server Error''),
      sent (HttpGetCookie (''https://'' @ ip @ '':8006/api2/json/version'') t) w)"
  by (auto simp: proxmox_api_def pve_def dec_samples sample_env_def sample_http_def sample_api_def
      Let_def)

lemma sample_nodes_fail:
  "proxmox_api sample_env (pve_ip (pve ''10.0.0.7'')) (case pve_port (pve ''10.0.0.7'') of None \<Rightarrow> 8006 | Some p \<Rightarrow> p)
     t ''/nodes'' w
   = (Inl (ExternalError ''500 Server Error''),
      sent (HttpGetCookie ''https://10.0.0.7:8006/api2/json/nodes'' t) w)"
  by (simp add: proxmox_api_def pve_def dec_samples sample_env_def sample_http_def sample_api_def
      Let_def)

lemma sample_nodes_empty:
  "proxmox_api sample_env (pve_ip (pve ''10.0.0.8'')) (case pve_port (pve ''10.0.0.8'') of None \<Rightarrow> 8006 | Some p \<Rightarrow> p)
     t ''/nodes'' w
   = (Inr (JArr []), sent (HttpGetCookie ''https://10.0.0.8:8006/api2/json/nodes'' t) w)"
  by (simp add: proxmox_api_def pve_def dec_samples sample_env_def sample_http_def sample_api_def
      Let_def arr_def py_get_def dict_get_def)

theorem node_listing_stops_host_witness:
  "fst (scan_proxmox_host sample_env (pve ''10.0.0.7'') (creds ''admin'' None) 7 fresh (all_on []))
     = Inr empty_result
   \<and> map component
       (errors_list (snd (scan_proxmox_host sample_env (pve ''10.0.0.7'') (creds ''admin'' None) 7 fresh (all_on []))))
     = [''Proxmox-Nodes'']
   \<and> fst (scan_proxmox_host sample_env (pve ''10.0.0.8'') (creds ''admin'' None) 7 fresh (all_on []))
     = Inr empty_result
   \<and> errors_list (snd (scan_proxmox_host sample_env (pve ''10.0.0.8'') (creds ''admin'' None) 7 fresh (all_on [])))
     = []"
proof -
  have in7: "''10.0.0.7'' \<in> set [''10.0.0.1'', ''10.0.0.7'', ''10.0.0.8'']"
    and in8: "''10.0.0.8'' \<in> set [''10.0.0.1'', ''10.0.0.7'', ''10.0.0.8'']"
    and v7: "''10.0.0.7'' \<in> set [''10.0.0.7'', ''10.0.0.8'']"
    and v8: "''10.0.0.8'' \<in> set [''10.0.0.7'', ''10.0.0.8'']"
    by simp_all
  note failing = node_listing_stops_host[where c="creds ''admin'' None" and sid=7 and opts="all_on []",
      OF sample_auth_granted[OF in7, where w=fresh] sample_no_version[OF v7],
      THEN conjunct1, THEN spec, THEN spec, THEN mp, OF sample_nodes_fail]
  note empty = node_listing_stops_host[where c="creds ''admin'' None" and sid=7 and opts="all_on []",
      OF sample_auth_granted[OF in8, where w=fresh] sample_no_version[OF v8],
      THEN conjunct2, THEN spec, THEN spec, THEN mp, OF conjI[OF sample_nodes_empty]]
  from failing obtain w' err where
    run7: "scan_proxmox_host sample_env (pve ''10.0.0.7'') (creds ''admin'' None) 7 fresh (all_on [])
            = (Inr empty_result, w')"
    and errs7: "errors_list w' = errors_list fresh @ [err]" and tag7: "component err = ''Proxmox-Nodes''"
    by blast
  have falsy: "\<not> py_truthy (JArr [])" by simp
  from empty[OF falsy]
  have run8: "scan_proxmox_host sample_env (pve ''10.0.0.8'') (creds ''admin'' None) 7 fresh (all_on [])
      = (Inr empty_result,
         sent (HttpGetCookie ''https://10.0.0.8:8006/api2/json/nodes'' (JStr ''PVE:root@pam:65F0''))
          (sent (HttpGetCookie (''https://'' @ ''10.0.0.8'' @ '':8006/api2/json/version'') (JStr ''PVE:root@pam:65F0''))
            (sent (HttpPost (''https://'' @ ''10.0.0.8'' @ '':8006/api2/json/access/ticket'')
                    [(''username'', ''root@pam''), (''password'', ''pw'')]) fresh)))"
    by (rule conjunct1)
  show ?thesis
    unfolding run7 run8 using errs7 tag7 by (simp add: fresh_def)
qed

text \<open>
  The claim as it was worded fails for the host whose node listing is empty: its scan ends
  with no record, and nothing is written to the error log.
\<close>

theorem empty_node_listing_counterexample:
  "scan_proxmox_host sample_env (pve ''10.0.0.8'') (creds ''admin'' None) 7 fresh (all_on [])
   = (Inr empty_result,
      \<lparr>errors_list = [],
       calls = [HttpPost ''https://10.0.0.8:8006/api2/json/access/ticket''
                  [(''username'', ''root@pam''), (''password'', ''pw'')],
                HttpGetCookie ''https://10.0.0.8:8006/api2/json/version'' (JStr ''PVE:root@pam:65F0''),
                HttpGetCookie ''https://10.0.0.8:8006/api2/json/nodes'' (JStr ''PVE:root@pam:65F0'')]\<rparr>)"
  by (simp add: scan_proxmox_host_def Let_def proxmox_authenticate_def proxmox_api_def pve_def
      dec_samples sample_env_def sample_http_def sample_api_def obj_def arr_def py_getitem_def
      py_get_def dict_get_def sent_def fresh_def)

subsection \<open>Guest inventory\<close>

lemma contacts_refl: "contacts S w w"
  by (simp add: contacts_def)

lemma contacts_trans:
  assumes "contacts S w w1" and "contacts S w1 w2"
  shows "contacts S w w2"
proof -
  from assms(1) obtain n1 e1 where 1: "calls w1 = calls w @ n1" "errors_list w1 = errors_list w @ e1"
    "\<forall>rq\<in>set n1. \<exists>a\<in>S. target rq = Some a" "\<forall>e\<in>set e1. host_ip e \<in> S"
    unfolding contacts_def by blast
  from assms(2) obtain n2 e2 where 2: "calls w2 = calls w1 @ n2" "errors_list w2 = errors_list w1 @ e2"
    "\<forall>rq\<in>set n2. \<exists>a\<in>S. target rq = Some a" "\<forall>e\<in>set e2. host_ip e \<in> S"
    unfolding contacts_def by blast
  have "calls w2 = calls w @ (n1 @ n2)" "errors_list w2 = errors_list w @ (e1 @ e2)"
    using 1 2 by simp_all
  moreover have "\<forall>rq\<in>set (n1 @ n2). \<exists>a\<in>S. target rq = Some a" "\<forall>e\<in>set (e1 @ e2). host_ip e \<in> S"
    using 1 2 by auto
  ultimately show ?thesis unfolding contacts_def by blast
qed

lemma contacts_mono: "contacts S w w' \<Longrightarrow> S \<subseteq> T \<Longrightarrow> contacts T w w'"
  unfolding contacts_def by blast

lemma contacts_sent: "target rq = Some a \<Longrightarrow> a \<in> S \<Longrightarrow> contacts S w (sent rq w)"
  unfolding contacts_def
  by (rule exI[of _ "[rq]"], rule exI[of _ "[]"]) simp

lemma contacts_log_error: "host_ip e \<in> S \<Longrightarrow> contacts S w (log_error e w)"
  unfolding contacts_def
  by (rule exI[of _ "[]"], rule exI[of _ "[e]"]) simp

lemma contacts_errors: "errors_list w' = errors_list w @ errs \<Longrightarrow> calls w' = calls w \<Longrightarrow>
   \<forall>e\<in>set errs. host_ip e \<in> S \<Longrightarrow> contacts S w w'"
  unfolding contacts_def
  by (rule exI[of _ "[]"], rule exI[of _ errs]) simp

lemma contacted_subset: "contacts S w w' \<Longrightarrow> contacted w w' \<subseteq> S"
  unfolding contacts_def contacted_def by fastforce

lemma contacted_trans:
  assumes "contacts S w w1" and "contacts T w1 w2"
  shows "contacted w w2 = contacted w w1 \<union> contacted w1 w2"
proof -
  from assms(1) obtain n1 where 1: "calls w1 = calls w @ n1" unfolding contacts_def by blast
  from assms(2) obtain n2 where 2: "calls w2 = calls w1 @ n2" unfolding contacts_def by blast
  show ?thesis unfolding contacted_def using 1 2 by auto
qed

lemma contacted_same: "calls w' = calls w \<Longrightarrow> contacted w w' = {}"
  by (simp add: contacted_def)

lemma target_candidate [simp]: "target (candidate_request ip c command user) = Some ip"
  by (simp add: target_def candidate_request_def)

lemma try_users_contacts:
  "try_users E ip c command us le w = (r, w') \<Longrightarrow> contacts {ip} w w' \<and> errors_list w' = errors_list w"
proof (induction us arbitrary: le w)
  case Nil
  then show ?case by (simp add: contacts_refl)
next
  case (Cons u us)
  let ?w1 = "sent (candidate_request ip c command u) w"
  have first: "contacts {ip} w ?w1" by (rule contacts_sent[where a=ip]) simp_all
  show ?case
  proof (cases "ssh E (length (calls w)) (candidate_request ip c command u)")
    case (Inl e)
    with Cons.prems have "try_users E ip c command us (Some e) ?w1 = (r, w')"
      by (simp add: ssh_exec_def candidate_request_def Let_def)
    from Cons.IH[OF this] first show ?thesis
      by (auto intro: contacts_trans)
  next
    case (Inr got)
    with Cons.prems have "w' = ?w1"
      by (simp add: ssh_exec_def candidate_request_def Let_def)
    with first show ?thesis by simp
  qed
qed

lemma try_users_first_call:
  "try_users E ip c command (u # us) le w = (r, w') \<Longrightarrow> ip \<in> contacted w w'"
proof -
  assume run: "try_users E ip c command (u # us) le w = (r, w')"
  let ?w1 = "sent (candidate_request ip c command u) w"
  have first: "contacts {ip} w ?w1" by (rule contacts_sent[where a=ip]) simp_all
  have here: "ip \<in> contacted w ?w1" by (simp add: contacted_def)
  show ?thesis
  proof (cases "ssh E (length (calls w)) (candidate_request ip c command u)")
    case (Inl e)
    with run have rest: "try_users E ip c command us (Some e) ?w1 = (r, w')"
      by (simp add: ssh_exec_def candidate_request_def Let_def)
    from try_users_contacts[OF rest] have "contacts {ip} ?w1 w'" by simp
    from contacted_trans[OF first this] here show ?thesis by simp
  next
    case (Inr got)
    with run have "w' = ?w1"
      by (simp add: ssh_exec_def candidate_request_def Let_def)
    with here show ?thesis by simp
  qed
qed

lemma try_ssh_exec_contacts:
  assumes "try_ssh_exec E ip c command w sid tag = (r, w')"
  shows "contacts {ip} w w'" and "ip \<in> contacted w w'"
proof -
  obtain r0 w0 where users: "try_users E ip c command (users_to_try c) None w = (r0, w0)"
    by (cases "try_users E ip c command (users_to_try c) None w")
  from try_users_contacts[OF users] have c0: "contacts {ip} w w0" by simp
  obtain u us where us: "users_to_try c = u # us"
    by (cases "users_to_try c") (simp_all add: users_to_try_def)
  from users have "try_users E ip c command (u # us) None w = (r0, w0)" by (simp add: us)
  from try_users_first_call[OF this] have in0: "ip \<in> contacted w w0" .
  show "contacts {ip} w w'"
  proof (cases r0)
    case (Inl out)
    with assms users have "w' = w0" by (simp add: try_ssh_exec_def)
    with c0 show ?thesis by simp
  next
    case (Inr le)
    with assms users have w': "w' = log_error (ssh_failed sid ip tag (users_to_try c) le) w0"
      by (simp add: try_ssh_exec_def)
    have "contacts {ip} w0 w'" unfolding w'
      by (rule contacts_log_error) (simp add: ssh_failed_def)
    with c0 show ?thesis by (rule contacts_trans)
  qed
  show "ip \<in> contacted w w'"
  proof (cases r0)
    case (Inl out)
    with assms users have "w' = w0" by (simp add: try_ssh_exec_def)
    with in0 show ?thesis by simp
  next
    case (Inr le)
    with assms users have w': "w' = log_error (ssh_failed sid ip tag (users_to_try c) le) w0"
      by (simp add: try_ssh_exec_def)
    with in0 show ?thesis by (simp add: contacted_def)
  qed
qed

lemma docker_lines_contacts:
  "docker_lines E ip hostname sid ls containers w = (r, w') \<Longrightarrow>
   contacts {ip} w w' \<and> calls w' = calls w"
proof (induction ls arbitrary: containers w)
  case Nil
  then show ?case by (simp add: contacts_refl)
next
  case (Cons l ls)
  show ?case
  proof (cases "strip l = []")
    case True
    with Cons.prems have "docker_lines E ip hostname sid ls containers w = (r, w')" by simp
    from Cons.IH[OF this] show ?thesis .
  next
    case False
    show ?thesis
    proof (cases "json_loads E (strip l)")
      case (Inl e)
      show ?thesis
      proof (cases "is_decode_error e")
        case True
        let ?w1 = "log_error (docker_parse_error sid ip (strip l)) w"
        from Inl True False Cons.prems have "docker_lines E ip hostname sid ls containers ?w1 = (r, w')"
          by simp
        from Cons.IH[OF this] have rest: "contacts {ip} ?w1 w'" and same: "calls w' = calls ?w1"
          by simp_all
        have "contacts {ip} w ?w1"
          by (rule contacts_log_error) (simp add: docker_parse_error_def)
        from contacts_trans[OF this rest] same show ?thesis by simp
      next
        case other: False
        with Inl False Cons.prems have "w' = w" by simp
        then show ?thesis by (simp add: contacts_refl)
      qed
    next
      case (Inr c)
      show ?thesis
      proof (cases "container_record ip hostname c")
        case bad: (Inl e)
        with Inr False Cons.prems have "w' = w" by simp
        then show ?thesis by (simp add: contacts_refl)
      next
        case good: (Inr rec)
        with Inr False Cons.prems
        have "docker_lines E ip hostname sid ls (containers @ [rec]) w = (r, w')" by simp
        from Cons.IH[OF this] show ?thesis .
      qed
    qed
  qed
qed

lemma scan_docker_on_host_contacts:
  assumes "scan_docker_on_host E ip c w sid = (r, w')"
  shows "contacts {ip} w w'" and "contacted w w' = {ip}"
proof -
  obtain r1 w1 where check: "try_ssh_exec E ip c docker_check_command w sid ''Docker'' = (r1, w1)"
    by (cases "try_ssh_exec E ip c docker_check_command w sid ''Docker''")
  note c1 = try_ssh_exec_contacts[OF check]
  obtain r2 w2 where ps: "try_ssh_exec E ip c docker_ps_command w1 sid ''Docker'' = (r2, w2)"
    by (cases "try_ssh_exec E ip c docker_ps_command w1 sid ''Docker''")
  note c2 = try_ssh_exec_contacts[OF ps]
  obtain r3 w3 where hn: "try_ssh_exec E ip c ''hostname'' w2 sid ''Docker'' = (r3, w3)"
    by (cases "try_ssh_exec E ip c ''hostname'' w2 sid ''Docker''")
  note c3 = try_ssh_exec_contacts[OF hn]
  have rest: "contacts {ip} w1 w'"
  proof -
    consider (stop1) "w' = w1" | (stop2) "w' = w2"
      | (lines) hostname ls where "docker_lines E ip hostname sid ls [] w3 = (r, w')"
      using assms check ps hn
      by (auto simp: scan_docker_on_host_def split: option.splits if_splits)
    then show ?thesis
    proof cases
      case stop1
      then show ?thesis by (simp add: contacts_refl)
    next
      case stop2
      with c2(1) show ?thesis by simp
    next
      case lines
      from docker_lines_contacts[OF lines] have "contacts {ip} w3 w'" by simp
      with c2(1) c3(1) show ?thesis by (blast intro: contacts_trans)
    qed
  qed
  show all: "contacts {ip} w w'" using c1(1) rest by (rule contacts_trans)
  have "contacted w w' = contacted w w1 \<union> contacted w1 w'"
    using c1(1) rest by (rule contacted_trans)
  with c1(2) have "ip \<in> contacted w w'" by simp
  with contacted_subset[OF all] show "contacted w w' = {ip}" by blast
qed

lemma scan_guests_contacts:
  assumes "scan_guests E c sid skip guest_ips docker w = (r, w')"
  shows "contacts (snd ` set guest_ips - set skip) w w'
       \<and> (isl r \<or> contacted w w' = snd ` set guest_ips - set skip)"
  using assms
proof (induction guest_ips arbitrary: docker w)
  case Nil
  then show ?case by (simp add: contacts_refl contacted_def)
next
  case (Cons g guest_ips)
  obtain vmid a where g: "g = (vmid, a)" by (cases g)
  let ?S = "snd ` set (g # guest_ips) - set skip"
  have sub: "snd ` set guest_ips - set skip \<subseteq> ?S" by auto
  show ?case
  proof (cases "a \<in> set skip")
    case True
    with Cons.prems have "scan_guests E c sid skip guest_ips docker w = (r, w')" by (simp add: g)
    from Cons.IH[OF this] True show ?thesis by (simp add: g)
  next
    case False
    then have a: "a \<in> ?S" by (simp add: g)
    obtain r1 w1 where one: "scan_docker_on_host E a c w sid = (r1, w1)"
      by (cases "scan_docker_on_host E a c w sid")
    from scan_docker_on_host_contacts[OF one]
    have c1: "contacts {a} w w1" and t1: "contacted w w1 = {a}" by simp_all
    from c1 a have c1': "contacts ?S w w1" by (auto intro: contacts_mono)
    show ?thesis
    proof (cases r1)
      case (Inl e)
      with one False Cons.prems have "r = Inl e" "w' = w1" by (simp_all add: g)
      with c1' show ?thesis by simp
    next
      case (Inr guest_docker)
      with one False Cons.prems
      have rest: "scan_guests E c sid skip guest_ips (docker @ guest_docker) w1 = (r, w')"
        by (simp add: g)
      from Cons.IH[OF rest]
      have c2: "contacts (snd ` set guest_ips - set skip) w1 w'"
        and t2: "isl r \<or> contacted w1 w' = snd ` set guest_ips - set skip"
        by simp_all
      from c2 sub have c2': "contacts ?S w1 w'" by (rule contacts_mono)
      have all: "contacts ?S w w'" using c1' c2' by (rule contacts_trans)
      have "contacted w w' = {a} \<union> contacted w1 w'"
        using contacted_trans[OF c1 c2] t1 by simp
      with t2 False have "isl r \<or> contacted w w' = ?S" by (auto simp: g)
      with all show ?thesis by simp
    qed
  qed
qed
















lemma confined_errors:
  "confined S w w' \<Longrightarrow>
   \<forall>e\<in>set (drop (length (errors_list w)) (errors_list w')). container_related e \<longrightarrow> host_ip e \<in> S"
  unfolding confined_def by fastforce




lemma failure_related [simp]:
  "container_related (failure E sid ip tag text e) \<longleftrightarrow> tag = ''Docker'' \<or> tag = ''Docker-Parse''"
  by (simp add: container_related_def failure_def)





















lemma running_addresses_Nil [simp]: "running_addresses [] = {}"
  by (simp add: running_addresses_def)
















subsection \<open>Two runs over the same environment\<close>

lemma renumber_simps [simp]:
  "calls (renumber t w) = calls w"
  "errors_list (renumber t w) = map (\<lambda>e. e\<lparr>scan_id := t\<rparr>) (errors_list w)"
  "renumber t (sent rq w) = sent rq (renumber t w)"
  by (simp_all add: renumber_def sent_def)


lemma renumbered_pair [simp]: "renumbered t (r, w) = (r, renumber t w)"
  by (simp add: renumbered_def)

lemma case_renumbered [simp]:
  "(case renumbered t p of (r, w) \<Rightarrow> h r w) = (case p of (r, w) \<Rightarrow> h r (renumber t w))"
  by (cases p) simp










lemma failure_renumber: "(failure E s ip tag text e)\<lparr>scan_id := t\<rparr> = failure E t ip tag text e"
  by (simp add: failure_def)
















lemma alike_Inl [simp]: "alike (Inl e) y \<longleftrightarrow> isl y"
  by (cases y) (simp_all add: alike_def)

lemma alike_Inr [simp]: "alike (Inr a) y \<longleftrightarrow> y = Inr a"
  by (cases y) (auto simp: alike_def)




lemma same_log_sent [simp]: "same_log w w' \<Longrightarrow> same_log (sent rq w) (sent rq w')"
  by (simp add: same_log_def)


lemma same_entry_failure [simp]: "same_entry (failure E s ip tag text e) (failure E' t ip tag text' f)"
  by (simp add: same_entry_def failure_def)

lemma same_entry_ssh_failed [simp]: "same_entry (ssh_failed s ip tag us le) (ssh_failed t ip tag us' le')"
  by (simp add: same_entry_def ssh_failed_def)

lemma same_entry_parse [simp]: "same_entry (docker_parse_error s ip l) (docker_parse_error t ip l')"
  by (simp add: same_entry_def docker_parse_error_def)

lemma same_entry_local [simp]: "same_entry (local_failure E s e) (local_failure E' t f)"
  by (simp add: same_entry_def local_failure_def)

lemma same_outcome_pair [simp]:
  "same_outcome (x, w) (y, w') \<longleftrightarrow> alike x y \<and> same_log w w'"
  by (simp add: same_outcome_def)

lemma same_result_pair [simp]:
  "same_result (x, w) (y, w') \<longleftrightarrow> x = y \<and> same_log w w'"
  by (simp add: same_result_def)












lemma alike_refl [simp]: "alike x x"
  by (cases x) simp_all




























end
